(* ===== verification/Prelude.thy ===== *)
theory Prelude
  imports Complex_Main "HOL-Library.Monad_Syntax"
begin

text \<open>
  Shared vocabulary of the development. The Rust program computes with the
  nalgebra crate: fixed-size vectors and matrices (\<open>Vector3\<close>, \<open>Matrix3\<close>,
  \<open>Matrix2x4\<close>, ...) and dynamic ones (\<open>DVector\<close>, \<open>DMatrix\<close>). All of them are
  modelled here by one representation: a vector is a list of reals, a matrix
  is a record of its column count and its rows (row-major, as nalgebra's
  constructors take their arguments). Keeping the column count apart from the
  rows keeps the shape of a matrix without rows (a \<open>0 \<times> n\<close> Jacobian)
  exactly as nalgebra keeps it.

  \<open>f64\<close> arithmetic is modelled by \<open>real\<close> arithmetic: rounding is not
  modelled, and a division by zero is HOL's \<open>x / 0 = 0\<close> where the program
  produces an infinity or a NaN. The nalgebra operations the program calls
  are library code; they are modelled here from the crate's documented
  behaviour. Where nalgebra panics on a view or a copy outside the matrix
  (\<open>fixed_view\<close>, \<open>fixed_view_mut\<close> on dynamic matrices), the model returns
  \<open>None\<close>; the statically sized views of fixed-size matrices are total.
\<close>

named_theorems shape_simps "shape (length, row and column count) of vector and matrix operations"

type_synonym vec = "real list"

record mat =
  mcols :: nat
  mrows :: "real list list"

subsection \<open>Vectors\<close>

definition dot :: "vec \<Rightarrow> vec \<Rightarrow> real" where
  "dot u v = sum_list (map2 (*) u v)"

definition vnorm :: "vec \<Rightarrow> real" where
  "vnorm v = sqrt (dot v v)"

definition vadd :: "vec \<Rightarrow> vec \<Rightarrow> vec" where
  "vadd u v = map2 (+) u v"

definition vsub :: "vec \<Rightarrow> vec \<Rightarrow> vec" where
  "vsub u v = map2 (-) u v"

definition vsmul :: "vec \<Rightarrow> real \<Rightarrow> vec" where
  "vsmul v c = map (\<lambda>x. x * c) v"

definition vneg :: "vec \<Rightarrow> vec" where
  "vneg v = map uminus v"

definition cross3 :: "vec \<Rightarrow> vec \<Rightarrow> vec" where
  "cross3 u v =
     [u ! 1 * v ! 2 - u ! 2 * v ! 1,
      u ! 2 * v ! 0 - u ! 0 * v ! 2,
      u ! 0 * v ! 1 - u ! 1 * v ! 0]"

text \<open>\<open>DVector::fixed_view::<n, 1>(off, 0)\<close>: a copy of \<open>n\<close> entries from \<open>off\<close>; panics out of range.\<close>

definition fixed_view :: "vec \<Rightarrow> nat \<Rightarrow> nat \<Rightarrow> vec option" where
  "fixed_view v off n = (if off + n \<le> length v then Some (take n (drop off v)) else None)"

text \<open>\<open>fixed_view_mut::<n, 1>(off, 0).copy_from(w)\<close> on a vector.\<close>

definition vec_write_block :: "vec \<Rightarrow> nat \<Rightarrow> vec \<Rightarrow> vec" where
  "vec_write_block v off w = take off v @ w @ drop (off + length w) v"

definition vec_copy_block :: "vec \<Rightarrow> nat \<Rightarrow> vec \<Rightarrow> vec option" where
  "vec_copy_block v off w =
     (if off + length w \<le> length v then Some (vec_write_block v off w) else None)"

subsection \<open>Matrices\<close>

definition mat_nrows :: "mat \<Rightarrow> nat" where
  "mat_nrows A = length (mrows A)"

definition mat_wf :: "mat \<Rightarrow> bool" where
  "mat_wf A \<longleftrightarrow> list_all (\<lambda>r. length r = mcols A) (mrows A)"

definition mat_get :: "mat \<Rightarrow> nat \<Rightarrow> nat \<Rightarrow> real" where
  "mat_get A i j = mrows A ! i ! j"

definition mat_set :: "mat \<Rightarrow> nat \<Rightarrow> nat \<Rightarrow> real \<Rightarrow> mat" where
  "mat_set A i j x = A\<lparr>mrows := (mrows A)[i := (mrows A ! i)[j := x]]\<rparr>"

definition mat_zeros :: "nat \<Rightarrow> nat \<Rightarrow> mat" where
  "mat_zeros m n = \<lparr>mcols = n, mrows = replicate m (replicate n 0)\<rparr>"

definition mat_identity :: "nat \<Rightarrow> mat" where
  "mat_identity n =
     \<lparr>mcols = n, mrows = map (\<lambda>i. map (\<lambda>j. if i = j then 1 else 0) [0..<n]) [0..<n]\<rparr>"

definition mat_col :: "mat \<Rightarrow> nat \<Rightarrow> vec" where
  "mat_col A j = map (\<lambda>r. r ! j) (mrows A)"

definition mat_transpose :: "mat \<Rightarrow> mat" where
  "mat_transpose A = \<lparr>mcols = mat_nrows A, mrows = map (mat_col A) [0..<mcols A]\<rparr>"

definition mat_mul :: "mat \<Rightarrow> mat \<Rightarrow> mat" where
  "mat_mul A B =
     \<lparr>mcols = mcols B, mrows = map (\<lambda>r. map (\<lambda>j. dot r (mat_col B j)) [0..<mcols B]) (mrows A)\<rparr>"

definition mat_vec :: "mat \<Rightarrow> vec \<Rightarrow> vec" where
  "mat_vec A v = map (\<lambda>r. dot r v) (mrows A)"

definition mat_add :: "mat \<Rightarrow> mat \<Rightarrow> mat" where
  "mat_add A B = \<lparr>mcols = mcols A, mrows = map2 (map2 (+)) (mrows A) (mrows B)\<rparr>"

definition mat_sub :: "mat \<Rightarrow> mat \<Rightarrow> mat" where
  "mat_sub A B = \<lparr>mcols = mcols A, mrows = map2 (map2 (-)) (mrows A) (mrows B)\<rparr>"

definition mat_smul :: "mat \<Rightarrow> real \<Rightarrow> mat" where
  "mat_smul A c = \<lparr>mcols = mcols A, mrows = map (map (\<lambda>x. x * c)) (mrows A)\<rparr>"

definition mat_sdiv :: "mat \<Rightarrow> real \<Rightarrow> mat" where
  "mat_sdiv A c = \<lparr>mcols = mcols A, mrows = map (map (\<lambda>x. x / c)) (mrows A)\<rparr>"

definition mat_neg :: "mat \<Rightarrow> mat" where
  "mat_neg A = \<lparr>mcols = mcols A, mrows = map (map uminus) (mrows A)\<rparr>"

text \<open>
  \<open>fixed_view_mut::<p, q>(r, c).copy_from(B)\<close>: the block of \<open>A\<close> at row \<open>r\<close>,
  column \<open>c\<close> is overwritten by \<open>B\<close>. The checked form panics (\<open>None\<close>) when the
  block does not fit.
\<close>

definition mat_write_block :: "mat \<Rightarrow> nat \<Rightarrow> nat \<Rightarrow> mat \<Rightarrow> mat" where
  "mat_write_block A r c B =
     A\<lparr>mrows := map (\<lambda>i. if r \<le> i \<and> i < r + mat_nrows B
                          then take c (mrows A ! i) @ mrows B ! (i - r) @ drop (c + mcols B) (mrows A ! i)
                          else mrows A ! i) [0..<mat_nrows A]\<rparr>"

definition mat_copy_block :: "mat \<Rightarrow> nat \<Rightarrow> nat \<Rightarrow> mat \<Rightarrow> mat option" where
  "mat_copy_block A r c B =
     (if r + mat_nrows B \<le> mat_nrows A \<and> c + mcols B \<le> mcols A
      then Some (mat_write_block A r c B) else None)"

lemmas linalg_defs = dot_def vadd_def vsub_def vsmul_def vneg_def cross3_def
  mat_nrows_def mat_get_def mat_set_def mat_zeros_def mat_identity_def mat_col_def
  mat_transpose_def mat_mul_def mat_vec_def mat_add_def mat_sub_def mat_smul_def mat_sdiv_def mat_neg_def

subsection \<open>Shapes\<close>

lemma length_vadd [simp, shape_simps]: "length (vadd u v) = min (length u) (length v)"
  by (simp add: vadd_def)

lemma length_vsub [simp, shape_simps]: "length (vsub u v) = min (length u) (length v)"
  by (simp add: vsub_def)

lemma length_vsmul [simp, shape_simps]: "length (vsmul v c) = length v"
  by (simp add: vsmul_def)

lemma length_vneg [simp, shape_simps]: "length (vneg v) = length v"
  by (simp add: vneg_def)

lemma length_cross3 [simp, shape_simps]: "length (cross3 u v) = 3"
  by (simp add: cross3_def)

lemma length_mat_vec [simp, shape_simps]: "length (mat_vec A v) = mat_nrows A"
  by (simp add: mat_vec_def mat_nrows_def)

lemma fixed_view_Some_iff [simp]:
  "fixed_view v off n = Some w \<longleftrightarrow> off + n \<le> length v \<and> w = take n (drop off v)"
  by (auto simp: fixed_view_def)

lemma fixed_view_None_iff [simp]: "fixed_view v off n = None \<longleftrightarrow> length v < off + n"
  by (auto simp: fixed_view_def)

lemma length_vec_write_block [simp, shape_simps]:
  "off + length w \<le> length v \<Longrightarrow> length (vec_write_block v off w) = length v"
  by (simp add: vec_write_block_def)

lemma nth_vec_write_block:
  assumes "off + length w \<le> length v" and "i < length v"
  shows "vec_write_block v off w ! i =
           (if off \<le> i \<and> i < off + length w then w ! (i - off) else v ! i)"
  using assms by (auto simp: vec_write_block_def nth_append min_def)

lemma vec_copy_block_Some_iff [simp]:
  "vec_copy_block v off w = Some v' \<longleftrightarrow> off + length w \<le> length v \<and> v' = vec_write_block v off w"
  by (auto simp: vec_copy_block_def)

lemma shape_mat_zeros [simp, shape_simps]:
  "mat_nrows (mat_zeros m n) = m" "mcols (mat_zeros m n) = n"
  by (simp_all add: mat_zeros_def mat_nrows_def)

lemma shape_mat_identity [simp, shape_simps]:
  "mat_nrows (mat_identity n) = n" "mcols (mat_identity n) = n"
  by (simp_all add: mat_identity_def mat_nrows_def)

lemma shape_mat_transpose [simp, shape_simps]:
  "mat_nrows (mat_transpose A) = mcols A" "mcols (mat_transpose A) = mat_nrows A"
  by (simp_all add: mat_transpose_def mat_nrows_def)

lemma shape_mat_mul [simp, shape_simps]:
  "mat_nrows (mat_mul A B) = mat_nrows A" "mcols (mat_mul A B) = mcols B"
  by (simp_all add: mat_mul_def mat_nrows_def)

lemma shape_mat_add [simp, shape_simps]:
  "mat_nrows (mat_add A B) = min (mat_nrows A) (mat_nrows B)" "mcols (mat_add A B) = mcols A"
  by (simp_all add: mat_add_def mat_nrows_def)

lemma shape_mat_sub [simp, shape_simps]:
  "mat_nrows (mat_sub A B) = min (mat_nrows A) (mat_nrows B)" "mcols (mat_sub A B) = mcols A"
  by (simp_all add: mat_sub_def mat_nrows_def)

lemma shape_mat_smul [simp, shape_simps]:
  "mat_nrows (mat_smul A c) = mat_nrows A" "mcols (mat_smul A c) = mcols A"
  by (simp_all add: mat_smul_def mat_nrows_def)

lemma shape_mat_sdiv [simp, shape_simps]:
  "mat_nrows (mat_sdiv A c) = mat_nrows A" "mcols (mat_sdiv A c) = mcols A"
  by (simp_all add: mat_sdiv_def mat_nrows_def)

lemma shape_mat_neg [simp, shape_simps]:
  "mat_nrows (mat_neg A) = mat_nrows A" "mcols (mat_neg A) = mcols A"
  by (simp_all add: mat_neg_def mat_nrows_def)

lemma shape_mat_set [simp, shape_simps]:
  "mat_nrows (mat_set A i j x) = mat_nrows A" "mcols (mat_set A i j x) = mcols A"
  by (simp_all add: mat_set_def mat_nrows_def)

lemma shape_mat_write_block [simp, shape_simps]:
  "mat_nrows (mat_write_block A r c B) = mat_nrows A" "mcols (mat_write_block A r c B) = mcols A"
  by (simp_all add: mat_write_block_def mat_nrows_def)

lemma mat_copy_block_Some_iff [simp]:
  "mat_copy_block A r c B = Some A' \<longleftrightarrow>
     r + mat_nrows B \<le> mat_nrows A \<and> c + mcols B \<le> mcols A \<and> A' = mat_write_block A r c B"
  by (auto simp: mat_copy_block_def)

text \<open>A block written over a run of rows, seen on the rows.\<close>

lemma mrows_write_block_split:
  assumes "mrows A = pre @ mid @ post" and "length mid = mat_nrows B"
  shows "mrows (mat_write_block A (length pre) c B) =
           pre @ map2 (\<lambda>row brow. take c row @ brow @ drop (c + mcols B) row) mid (mrows B) @ post"
proof (rule nth_equalityI)
  show "length (mrows (mat_write_block A (length pre) c B)) =
        length (pre @ map2 (\<lambda>row brow. take c row @ brow @ drop (c + mcols B) row) mid (mrows B) @ post)"
    using assms by (simp add: mat_write_block_def mat_nrows_def)
next
  fix i assume "i < length (mrows (mat_write_block A (length pre) c B))"
  then have i: "i < length pre + length mid + length post"
    using assms by (simp add: mat_write_block_def mat_nrows_def)
  show "mrows (mat_write_block A (length pre) c B) ! i =
        (pre @ map2 (\<lambda>row brow. take c row @ brow @ drop (c + mcols B) row) mid (mrows B) @ post) ! i"
    using assms i by (auto simp: mat_write_block_def mat_nrows_def nth_append)
qed

text \<open>Indexing a concatenation of blocks of equal length.\<close>

lemma nth_concat_uniform:
  assumes "\<And>x. x \<in> set xs \<Longrightarrow> length x = n" and "i < length xs" and "j < n"
  shows "concat xs ! (i * n + j) = xs ! i ! j"
  using assms
proof (induction xs arbitrary: i)
  case Nil
  then show ?case by simp
next
  case (Cons x xs)
  show ?case
  proof (cases i)
    case 0
    with Cons.prems show ?thesis by (simp add: nth_append)
  next
    case (Suc i')
    have "concat xs ! (i' * n + j) = xs ! i' ! j"
      using Cons.prems Suc by (intro Cons.IH) auto
    with Cons.prems Suc show ?thesis by (simp add: nth_append add.assoc)
  qed
qed

lemma length_concat_uniform:
  "(\<And>x. x \<in> set xs \<Longrightarrow> length x = n) \<Longrightarrow> length (concat xs) = length xs * n"
  by (induction xs) auto

subsection \<open>Well-formed matrices\<close>

lemma mat_wf_iff: "mat_wf A \<longleftrightarrow> (\<forall>i < mat_nrows A. length (mrows A ! i) = mcols A)"
  by (auto simp: mat_wf_def mat_nrows_def list_all_length)

lemma mat_wf_zeros [simp]: "mat_wf (mat_zeros m n)"
  by (simp add: mat_wf_def mat_zeros_def list_all_iff)

lemma mat_wf_identity [simp]: "mat_wf (mat_identity n)"
  by (simp add: mat_wf_def mat_identity_def list_all_iff)

lemma mat_wf_transpose [simp]: "mat_wf (mat_transpose A)"
  by (simp add: mat_wf_def mat_transpose_def mat_col_def mat_nrows_def list_all_iff)

lemma mat_wf_mul [simp]: "mat_wf (mat_mul A B)"
  by (simp add: mat_wf_def mat_mul_def list_all_iff)

lemma mat_wf_set [simp]: "mat_wf A \<Longrightarrow> mat_wf (mat_set A i j x)"
  by (cases "i < mat_nrows A") (auto simp: mat_wf_iff mat_set_def mat_nrows_def nth_list_update)

lemma mat_wf_write_block [simp]:
  assumes "mat_wf A" and "mat_wf B" and "c + mcols B \<le> mcols A"
  shows "mat_wf (mat_write_block A r c B)"
  using assms by (auto simp: mat_wf_iff mat_write_block_def mat_nrows_def)

lemma mat_get_write_block:
  assumes "mat_wf A" and "mat_wf B"
    and "r + mat_nrows B \<le> mat_nrows A" and "c + mcols B \<le> mcols A"
    and "i < mat_nrows A" and "j < mcols A"
  shows "mat_get (mat_write_block A r c B) i j =
           (if r \<le> i \<and> i < r + mat_nrows B \<and> c \<le> j \<and> j < c + mcols B
            then mat_get B (i - r) (j - c) else mat_get A i j)"
  using assms by (auto simp: mat_wf_iff mat_write_block_def mat_get_def mat_nrows_def nth_append)

lemma mat_get_zeros [simp]: "i < m \<Longrightarrow> j < n \<Longrightarrow> mat_get (mat_zeros m n) i j = 0"
  by (simp add: mat_get_def mat_zeros_def)

subsection \<open>Three-vectors\<close>

lemma less4_cases: "(k::nat) < 4 \<longleftrightarrow> k = 0 \<or> k = 1 \<or> k = 2 \<or> k = 3"
  by auto

lemma less3_cases: "(k::nat) < 3 \<longleftrightarrow> k = 0 \<or> k = 1 \<or> k = 2"
  by auto

lemma less2_cases: "(k::nat) < 2 \<longleftrightarrow> k = 0 \<or> k = 1"
  by auto

lemma length3_conv: "length v = 3 \<Longrightarrow> v = [v ! 0, v ! 1, v ! 2]"
  by (auto simp: numeral_3_eq_3 length_Suc_conv)

lemma length3_obtain:
  assumes "length v = 3"
  obtains a b c where "v = [a, b, c]"
  using length3_conv [OF assms] by blast

lemma dot_Cons [simp]: "dot (a # u) (b # v) = a * b + dot u v"
  by (simp add: dot_def)

lemma dot_Nil [simp]: "dot [] v = 0" "dot u [] = 0"
  by (simp_all add: dot_def)

lemma dot_self_nonneg [simp]: "0 \<le> dot v v"
  by (induction v) auto

lemma vnorm_nonneg [simp]: "0 \<le> vnorm v"
  by (simp add: vnorm_def)

lemma vnorm_sq: "vnorm v ^ 2 = dot v v"
  by (simp add: vnorm_def)

lemma dot_map_mult: "dot (map (\<lambda>x. x * k) u) (map (\<lambda>x. x * k) u) = k ^ 2 * dot u u"
  by (induction u) (simp_all add: algebra_simps power2_eq_square)

lemma map_mult_cancel:
  fixes k m :: real
  assumes "k \<noteq> 0" "m \<noteq> 0"
  shows "map (\<lambda>x. x * m / k) (map (\<lambda>x. x * k / m) u) = u"
proof (induction u)
  case (Cons a u)
  have "a * k / m * m / k = a" using assms by (simp add: field_simps)
  with Cons show ?case by simp
qed simp

subsection \<open>Entrywise reasoning on matrices\<close>

lemma mat_eqI:
  assumes "mat_wf A" and "mat_wf B" and "mcols A = mcols B" and "mat_nrows A = mat_nrows B"
    and "\<And>i j. i < mat_nrows A \<Longrightarrow> j < mcols A \<Longrightarrow> mat_get A i j = mat_get B i j"
  shows "A = B"
proof -
  have "mrows A = mrows B"
  proof (rule nth_equalityI)
    show "length (mrows A) = length (mrows B)" using assms(4) by (simp add: mat_nrows_def)
    fix i
    assume i: "i < length (mrows A)"
    show "mrows A ! i = mrows B ! i"
      using assms i by (intro nth_equalityI) (auto simp: mat_wf_iff mat_get_def mat_nrows_def)
  qed
  then show ?thesis using assms(3) by simp
qed

lemma mat_get_set:
  "mat_wf A \<Longrightarrow> i < mat_nrows A \<Longrightarrow> j < mcols A \<Longrightarrow>
   mat_get (mat_set A i' j' x) i j = (if i = i' \<and> j = j' then x else mat_get A i j)"
  by (cases "i = i'") (auto simp: mat_get_def mat_set_def mat_wf_iff mat_nrows_def nth_list_update)

lemma mat_wf_add [simp]: "mat_wf A \<Longrightarrow> mat_wf B \<Longrightarrow> mcols B = mcols A \<Longrightarrow> mat_wf (mat_add A B)"
  by (auto simp: mat_wf_iff mat_add_def mat_nrows_def)

lemma mat_wf_smul [simp]: "mat_wf A \<Longrightarrow> mat_wf (mat_smul A c)"
  by (auto simp: mat_wf_iff mat_smul_def mat_nrows_def)

lemma mat_get_add:
  "mat_wf A \<Longrightarrow> mat_wf B \<Longrightarrow> i < min (mat_nrows A) (mat_nrows B) \<Longrightarrow> j < mcols A \<Longrightarrow> mcols B = mcols A \<Longrightarrow>
   mat_get (mat_add A B) i j = mat_get A i j + mat_get B i j"
  by (simp add: mat_get_def mat_add_def mat_wf_iff mat_nrows_def)

lemma mat_get_smul:
  "mat_wf A \<Longrightarrow> i < mat_nrows A \<Longrightarrow> j < mcols A \<Longrightarrow> mat_get (mat_smul A c) i j = mat_get A i j * c"
  by (simp add: mat_get_def mat_smul_def mat_wf_iff mat_nrows_def)

lemma mat_get_identity [simp]:
  "i < n \<Longrightarrow> j < n \<Longrightarrow> mat_get (mat_identity n) i j = (if i = j then 1 else 0)"
  by (simp add: mat_get_def mat_identity_def)

lemma vsub_vadd_self: "length dx = length x \<Longrightarrow> vsub (vadd x dx) x = dx"
  by (auto simp: vsub_def vadd_def intro!: nth_equalityI)

lemma vadd_update:
  assumes "c < length x" and "length t = length x"
  shows "vadd x (t[c := s]) = (vadd x t)[c := x ! c + s]"
  using assms by (auto simp: vadd_def nth_list_update intro!: nth_equalityI)

subsection \<open>Matrix-vector products as sums\<close>

lemma dot_sum: "length u = n \<Longrightarrow> length v = n \<Longrightarrow> dot u v = (\<Sum>i<n. u ! i * v ! i)"
proof (induction u arbitrary: v n)
  case Nil
  then show ?case by simp
next
  case (Cons a u)
  then obtain b v' where v: "v = b # v'" by (cases v) auto
  from Cons.prems obtain n' where n: "n = Suc n'" by (cases n) auto
  have "dot (a # u) v = a * b + (\<Sum>i<n'. u ! i * v' ! i)" using Cons v n by simp
  also have "\<dots> = (\<Sum>i<n. (a # u) ! i * v ! i)" unfolding n v by (simp add: sum.lessThan_Suc_shift del: sum.lessThan_Suc)
  finally show ?case .
qed

lemma nth_mat_vec: "i < mat_nrows A \<Longrightarrow> mat_vec A x ! i = dot (mrows A ! i) x"
  by (simp add: mat_vec_def mat_nrows_def)

lemma mat_vec_sum:
  "mat_wf A \<Longrightarrow> i < mat_nrows A \<Longrightarrow> length x = mcols A \<Longrightarrow>
   mat_vec A x ! i = (\<Sum>j<mcols A. mat_get A i j * x ! j)"
  by (simp add: nth_mat_vec dot_sum mat_wf_iff mat_get_def)

lemma dot_mat_vec_transpose:
  assumes "mat_wf J" and "length x = mcols J" and "length y = mat_nrows J"
  shows "dot x (mat_vec (mat_transpose J) y) = dot (mat_vec J x) y"
proof -
  let ?m = "mat_nrows J" and ?n = "mcols J"
  have "dot x (mat_vec (mat_transpose J) y) = (\<Sum>c<?n. x ! c * (\<Sum>r<?m. mat_get J r c * y ! r))"
    using assms
    by (simp add: dot_sum [of _ ?n] nth_mat_vec mat_transpose_def mat_col_def mat_get_def mat_nrows_def
        dot_sum [of _ ?m] mat_vec_def)
  also have "\<dots> = (\<Sum>r<?m. (\<Sum>c<?n. mat_get J r c * x ! c) * y ! r)"
    by (simp add: sum_distrib_left sum_distrib_right mult_ac sum.swap [of _ "{..<?m}"])
  also have "\<dots> = dot (mat_vec J x) y"
    using assms by (simp add: dot_sum [of _ ?m] mat_vec_sum)
  finally show ?thesis .
qed

lemma mat_get_mul:
  assumes "mat_wf A" and "mcols A = mat_nrows B" and "i < mat_nrows A" and "j < mcols B"
  shows "mat_get (mat_mul A B) i j = (\<Sum>k<mat_nrows B. mat_get A i k * mat_get B k j)"
  using assms by (simp add: mat_mul_def mat_get_def mat_col_def dot_sum mat_wf_iff mat_nrows_def)

lemma mat_vec_mul:
  assumes "mat_wf A" and "mat_wf B" and "mcols A = mat_nrows B" and "length x = mcols B"
  shows "mat_vec (mat_mul A B) x = mat_vec A (mat_vec B x)"
proof (rule nth_equalityI)
  show "length (mat_vec (mat_mul A B) x) = length (mat_vec A (mat_vec B x))" by simp
  fix i
  assume "i < length (mat_vec (mat_mul A B) x)"
  then have i: "i < mat_nrows A" by simp
  have "mat_vec (mat_mul A B) x ! i = (\<Sum>j<mcols B. (\<Sum>k<mat_nrows B. mat_get A i k * mat_get B k j) * x ! j)"
    using assms i by (simp add: mat_vec_sum mat_get_mul)
  also have "\<dots> = (\<Sum>k<mat_nrows B. mat_get A i k * (\<Sum>j<mcols B. mat_get B k j * x ! j))"
    by (simp add: sum_distrib_left sum_distrib_right mult_ac sum.swap [of _ "{..<mcols B}"])
  also have "\<dots> = mat_vec A (mat_vec B x) ! i"
    using assms i by (simp add: mat_vec_sum)
  finally show "mat_vec (mat_mul A B) x ! i = mat_vec A (mat_vec B x) ! i" .
qed

lemma dot_self_eq_0: "dot x x = 0 \<Longrightarrow> x = replicate (length x) 0"
proof (induction x)
  case Nil
  then show ?case by simp
next
  case (Cons a x)
  have "a * a + dot x x = 0" using Cons.prems by simp
  then have "a * a = 0 \<and> dot x x = 0" using add_nonneg_eq_0_iff [of "a * a" "dot x x"] by simp
  then show ?case using Cons.IH by simp
qed

lemma dot_replicate_zero [simp]: "dot x (replicate n 0) = 0"
proof (induction x arbitrary: n)
  case Nil
  then show ?case by simp
next
  case (Cons a x)
  then show ?case by (cases n) simp_all
qed

end
