(* ===== verification/Lie.thy ===== *)
theory Lie
  imports Prelude
begin

text \<open>
  The Lie-group utilities of \<open>src/src/optimize.rs\<close> (lines 9--103):
  \<open>skew_sym\<close>, \<open>exp_map\<close>, \<open>log_map\<close> and \<open>exp_map_jacobian\<close>, together with the
  parts of nalgebra they call: \<open>UnitQuaternion\<close> (built with
  \<open>from_quaternion\<close>, which normalises, or \<open>identity\<close>), its action on a
  vector, and \<open>Isometry3\<close> (a rotation and a translation) acting on a point.
  A six-vector \<open>(t | \<omega>)\<close> is a list of six reals.
\<close>

record quat =
  qw :: real
  qvec :: vec

record iso =
  rotation :: quat
  translation :: vec

abbreviation theta_eps :: real where
  "theta_eps \<equiv> 1 / 1000000"

definition quat_norm :: "quat \<Rightarrow> real" where
  "quat_norm q = sqrt (qw q ^ 2 + dot (qvec q) (qvec q))"

text \<open>\<open>UnitQuaternion::from_quaternion\<close> divides by the norm.\<close>

definition unit_quaternion_from_quaternion :: "quat \<Rightarrow> quat" where
  "unit_quaternion_from_quaternion q =
     \<lparr>qw = qw q / quat_norm q, qvec = map (\<lambda>x. x / quat_norm q) (qvec q)\<rparr>"

definition unit_quaternion_identity :: quat where
  "unit_quaternion_identity = \<lparr>qw = 1, qvec = [0, 0, 0]\<rparr>"

text \<open>
  nalgebra's \<open>UnitQuaternion * Vector3\<close>: with \<open>t = 2 (u \<times> v)\<close>,
  the image is \<open>v + w t + u \<times> t\<close>, where \<open>w\<close> is the scalar and \<open>u\<close> the
  vector part.
\<close>

definition quat_rotate :: "quat \<Rightarrow> vec \<Rightarrow> vec" where
  "quat_rotate q v =
     (let t = vsmul (cross3 (qvec q) v) 2;
          c = cross3 (qvec q) t
      in vadd (vadd (vsmul t (qw q)) c) v)"

text \<open>\<open>Isometry3 * Point3\<close>: rotate, then translate.\<close>

definition iso_apply :: "iso \<Rightarrow> vec \<Rightarrow> vec" where
  "iso_apply T p = vadd (quat_rotate (rotation T) p) (translation T)"

definition iso_translation :: "vec \<Rightarrow> iso" where
  "iso_translation t = \<lparr>rotation = unit_quaternion_identity, translation = t\<rparr>"

subsection \<open>The functions of optimize.rs\<close>

definition skew_sym :: "vec \<Rightarrow> mat" where
  "skew_sym v =
     (let ss = mat_zeros 3 3;
          ss = mat_set ss 0 1 (- v ! 2);
          ss = mat_set ss 0 2 (v ! 1);
          ss = mat_set ss 1 0 (v ! 2);
          ss = mat_set ss 1 2 (- v ! 0);
          ss = mat_set ss 2 0 (- v ! 1);
          ss = mat_set ss 2 1 (v ! 0)
      in ss)"

definition exp_map :: "vec \<Rightarrow> iso" where
  "exp_map param_vector =
     (let t = take 3 param_vector;
          omega = take 3 (drop 3 param_vector);
          theta = vnorm omega;
          half_theta = 0.5 * theta;
          quat_axis = map (\<lambda>x. x * sin half_theta / theta) omega;
          quat = (if theta > theta_eps
                  then unit_quaternion_from_quaternion \<lparr>qw = cos half_theta, qvec = quat_axis\<rparr>
                  else unit_quaternion_identity);
          v = (if theta > theta_eps
               then (let ssym_omega = skew_sym omega
                     in mat_add (mat_identity 3)
                          (mat_add (mat_sdiv (mat_smul ssym_omega (1 - cos theta)) (theta ^ 2))
                                   (mat_smul (mat_mul ssym_omega ssym_omega)
                                             ((theta - sin theta) / theta ^ 3))))
               else mat_identity 3);
          trans = mat_vec v t
      in \<lparr>rotation = quat, translation = trans\<rparr>)"

definition log_map :: "iso \<Rightarrow> vec" where
  "log_map input =
     (let t = translation input;
          quat = rotation input;
          theta = 2 * arccos (qw quat);
          half_theta = 0.5 * theta;
          (omega, v_inv) =
            (if theta > theta_eps
             then (let omega = map (\<lambda>x. x * theta / sin half_theta) (qvec quat);
                       ssym_omega = skew_sym omega;
                       v_inv = mat_sub (mat_identity 3) (mat_smul ssym_omega 0.5);
                       v_inv = mat_add v_inv
                                 (mat_sdiv (mat_smul (mat_mul ssym_omega ssym_omega)
                                              (1 - half_theta * cos half_theta / sin half_theta))
                                           (theta * theta))
                   in (omega, v_inv))
             else ([0, 0, 0], mat_identity 3));
          ret = replicate 6 0;
          ret = vec_write_block ret 0 (mat_vec v_inv t);
          ret = vec_write_block ret 3 omega
      in ret)"

text \<open>The quaternion \<open>exp_map\<close> builds above the threshold, before normalisation.\<close>

definition axis_angle_quat :: "vec \<Rightarrow> quat" where
  "axis_angle_quat w = \<lparr>qw = cos (0.5 * vnorm w), qvec = map (\<lambda>x. x * sin (0.5 * vnorm w) / vnorm w) w\<rparr>"

text \<open>
  The operator \<open>I + k1 [w]\<^sub>\<times> + k2 [w]\<^sub>\<times>\<^sup>2\<close> applied to a vector, written with
  cross products: the form in which both \<open>V\<close> of \<open>exp_map\<close> and \<open>V\<^sup>-\<^sup>1\<close> of
  \<open>log_map\<close> act on the translation.
\<close>

definition rodrigues :: "real \<Rightarrow> real \<Rightarrow> vec \<Rightarrow> vec \<Rightarrow> vec" where
  "rodrigues k1 k2 w t = vadd t (vadd (vsmul (cross3 w t) k1) (vsmul (cross3 w (cross3 w t)) k2))"

definition exp_map_jacobian :: "vec \<Rightarrow> mat" where
  "exp_map_jacobian transformed_point =
     (let ss = mat_zeros 3 6;
          ss = mat_write_block ss 0 0 (mat_identity 3);
          ss = mat_write_block ss 0 3 (mat_neg (skew_sym transformed_point))
      in ss)"

text \<open>
  The isometries on which \<open>log_map\<close> is inverted by \<open>exp_map\<close>: a unit
  quaternion with scalar part above \<open>-1\<close> and angle above the threshold.
\<close>

definition log_domain :: "iso \<Rightarrow> bool" where
  "log_domain T \<longleftrightarrow>
     length (qvec (rotation T)) = 3 \<and> length (translation T) = 3 \<and>
     qw (rotation T) ^ 2 + dot (qvec (rotation T)) (qvec (rotation T)) = 1 \<and>
     theta_eps < 2 * arccos (qw (rotation T)) \<and> - 1 < qw (rotation T)"

subsection \<open>The skew-symmetric matrix\<close>

lemma skew_sym_eq:
  "skew_sym v = \<lparr>mcols = 3, mrows = [[0, - v ! 2, v ! 1], [v ! 2, 0, - v ! 0], [- v ! 1, v ! 0, 0]]\<rparr>"
  by (simp add: skew_sym_def mat_zeros_def mat_set_def numeral_3_eq_3)

lemma shape_skew_sym [simp, shape_simps]: "mat_nrows (skew_sym v) = 3" "mcols (skew_sym v) = 3"
  by (simp_all add: skew_sym_eq mat_nrows_def)

lemma length_rodrigues [simp, shape_simps]:
  "length t = 3 \<Longrightarrow> length (rodrigues k1 k2 w t) = 3"
  by (simp add: rodrigues_def)

subsection \<open>The translation operators as Rodrigues forms\<close>

lemma exp_V_apply:
  assumes "length w = 3" "length t = 3"
  shows "mat_vec (mat_add (mat_identity 3) (mat_add (mat_sdiv (mat_smul (skew_sym w) p) q)
            (mat_smul (mat_mul (skew_sym w) (skew_sym w)) r))) t = rodrigues (p / q) r w t"
proof -
  obtain a b c where w: "w = [a, b, c]" using assms(1) by (rule length3_obtain)
  obtain x y z where t: "t = [x, y, z]" using assms(2) by (rule length3_obtain)
  show ?thesis unfolding w t
    by (simp add: rodrigues_def skew_sym_eq linalg_defs upt_rec)
       (simp add: algebra_simps diff_divide_distrib add_divide_distrib)
qed

lemma log_V_inv_apply:
  assumes "length w = 3" "length t = 3"
  shows "mat_vec (mat_add (mat_sub (mat_identity 3) (mat_smul (skew_sym w) 0.5))
            (mat_sdiv (mat_smul (mat_mul (skew_sym w) (skew_sym w)) p) q)) t =
         rodrigues (- 0.5) (p / q) w t"
proof -
  obtain a b c where w: "w = [a, b, c]" using assms(1) by (rule length3_obtain)
  obtain x y z where t: "t = [x, y, z]" using assms(2) by (rule length3_obtain)
  show ?thesis unfolding w t
    by (simp add: rodrigues_def skew_sym_eq linalg_defs upt_rec)
       (simp add: algebra_simps diff_divide_distrib add_divide_distrib)
qed

text \<open>
  Two Rodrigues forms about the same axis compose to a third: the identity
  \<open>[w]\<^sub>\<times>\<^sup>3 = - |w|\<^sup>2 [w]\<^sub>\<times>\<close> folds the product back to degree two.
\<close>

lemma rodrigues_compose:
  assumes "length w = 3" "length t = 3"
  shows "rodrigues p1 p2 w (rodrigues q1 q2 w t) =
         rodrigues (p1 + q1 - dot w w * (p1 * q2 + p2 * q1))
                   (p2 + q2 + p1 * q1 - dot w w * p2 * q2) w t"
proof -
  obtain a b c where w: "w = [a, b, c]" using assms(1) by (rule length3_obtain)
  obtain x y z where t: "t = [x, y, z]" using assms(2) by (rule length3_obtain)
  show ?thesis unfolding w t
    by (simp add: rodrigues_def vadd_def vsmul_def cross3_def) algebra
qed

lemma rodrigues_zero: "length t = 3 \<Longrightarrow> rodrigues 0 0 w t = t"
  by (auto simp: rodrigues_def vadd_def vsmul_def cross3_def elim!: length3_obtain)

text \<open>
  The coefficients \<open>log_map\<close> uses for \<open>V\<^sup>-\<^sup>1\<close> undo the ones \<open>exp_map\<close> uses
  for \<open>V\<close>: both coefficients of the composed form vanish.
\<close>

lemma v_inv_coefficients:
  fixes th :: real
  assumes "0 < th" "sin (th / 2) \<noteq> 0"
  defines "al \<equiv> (1 - cos th) / th ^ 2" and "be \<equiv> (th - sin th) / th ^ 3"
    and "ga \<equiv> (1 - th / 2 * cos (th / 2) / sin (th / 2)) / (th * th)"
  shows "- 0.5 + al - th ^ 2 * (- 0.5 * be + ga * al) = 0"
    and "ga + be + - 0.5 * al - th ^ 2 * ga * be = 0"
proof -
  define h where "h = th / 2"
  have th: "th = 2 * h" by (simp add: h_def)
  have s: "sin h \<noteq> 0" using assms(2) by (simp add: h_def)
  have h0: "h \<noteq> 0" using assms(1) by (simp add: h_def)
  have pyth: "sin h ^ 2 + cos h ^ 2 = 1" by simp
  have c2: "cos th = 1 - 2 * sin h ^ 2" by (simp add: th cos_double_sin)
  have s2: "sin th = 2 * sin h * cos h" by (simp add: th sin_double)
  show "- 0.5 + al - th ^ 2 * (- 0.5 * be + ga * al) = 0"
    unfolding al_def be_def ga_def c2 s2 using s h0 unfolding th
    by (simp add: field_simps) algebra
  show "ga + be + - 0.5 * al - th ^ 2 * ga * be = 0"
    unfolding al_def be_def ga_def c2 s2 using s h0 unfolding th
    by (simp add: field_simps) (insert pyth, algebra)
qed

text \<open>
  Hence \<open>V\<^sup>-\<^sup>1\<close> undoes \<open>V\<close> and \<open>V\<close> undoes \<open>V\<^sup>-\<^sup>1\<close> on every vector,
  for an axis \<open>w\<close> of length \<open>th\<close> with \<open>sin (th / 2) \<noteq> 0\<close>.
\<close>

lemma rodrigues_Vinv_V:
  assumes "length w = 3" "length t = 3" "dot w w = th ^ 2" "0 < th" "sin (th / 2) \<noteq> 0"
  shows "rodrigues (- 0.5) ((1 - 0.5 * th * cos (0.5 * th) / sin (0.5 * th)) / (th * th)) w
           (rodrigues ((1 - cos th) / th ^ 2) ((th - sin th) / th ^ 3) w t) = t"
proof -
  have half: "0.5 * th = th / 2" by simp
  have "rodrigues (- 0.5) ((1 - 0.5 * th * cos (0.5 * th) / sin (0.5 * th)) / (th * th)) w
           (rodrigues ((1 - cos th) / th ^ 2) ((th - sin th) / th ^ 3) w t) = rodrigues 0 0 w t"
    using v_inv_coefficients [OF assms(4,5)] assms(1-3) by (simp add: rodrigues_compose half)
  also have "\<dots> = t" using assms(2) by (rule rodrigues_zero)
  finally show ?thesis .
qed

lemma rodrigues_V_Vinv:
  assumes "length w = 3" "length t = 3" "dot w w = th ^ 2" "0 < th" "sin (th / 2) \<noteq> 0"
  shows "rodrigues ((1 - cos th) / th ^ 2) ((th - sin th) / th ^ 3) w
           (rodrigues (- 0.5) ((1 - 0.5 * th * cos (0.5 * th) / sin (0.5 * th)) / (th * th)) w t) = t"
proof -
  define al where "al = (1 - cos th) / th ^ 2"
  define be where "be = (th - sin th) / th ^ 3"
  define ga where "ga = (1 - th / 2 * cos (th / 2) / sin (th / 2)) / (th * th)"
  have ga: "(1 - 0.5 * th * cos (0.5 * th) / sin (0.5 * th)) / (th * th) = ga" by (simp add: ga_def)
  have e1: "- 0.5 + al - th ^ 2 * (- 0.5 * be + ga * al) = 0"
    unfolding al_def be_def ga_def by (rule v_inv_coefficients(1) [OF assms(4,5)])
  have e2: "ga + be + - 0.5 * al - th ^ 2 * ga * be = 0"
    unfolding al_def be_def ga_def by (rule v_inv_coefficients(2) [OF assms(4,5)])
  have "rodrigues al be w (rodrigues (- 0.5) ga w t) =
          rodrigues (al + - 0.5 - dot w w * (al * ga + be * - 0.5)) (be + ga + al * - 0.5 - dot w w * be * ga) w t"
    using assms(1,2) by (rule rodrigues_compose)
  also have "al + - 0.5 - dot w w * (al * ga + be * - 0.5) = 0"
    using e1 unfolding assms(3) by (simp add: algebra_simps)
  also have "be + ga + al * - 0.5 - dot w w * be * ga = 0"
    using e2 unfolding assms(3) by (simp add: algebra_simps)
  also have "rodrigues 0 0 w t = t" using assms(2) by (rule rodrigues_zero)
  finally show ?thesis unfolding ga al_def be_def .
qed

text \<open>
  A unit quaternion \<open>(s, u)\<close> with \<open>-1 < s\<close> and angle \<open>2 arccos s\<close>
  above the threshold has half-angle \<open>arccos s\<close> in \<open>(0, pi)\<close>, so
  \<open>sin\<close> of it is positive with square \<open>|u|\<^sup>2\<close>.
\<close>

lemma unit_quat_half_angle:
  assumes "s ^ 2 + dot u u = 1" and "theta_eps < 2 * arccos s" and "- 1 < s"
  shows "0 < sin (arccos s)" and "cos (arccos s) = s" and "sin (arccos s) ^ 2 = dot u u"
proof -
  have s1: "s \<le> 1"
  proof -
    have "s ^ 2 \<le> 1" using assms(1) dot_self_nonneg [of u] by linarith
    then show ?thesis by (simp add: abs_square_le_1)
  qed
  have s1': "s < 1"
  proof (rule ccontr)
    assume "\<not> s < 1"
    then have "s = 1" using s1 by simp
    then show False using assms(2) by simp
  qed
  show "0 < sin (arccos s)" using arccos_lt_bounded [OF assms(3) s1'] by (intro sin_gt_zero) auto
  show "cos (arccos s) = s" using assms(3) s1 by simp
  have uu: "dot u u = 1 - s ^ 2" using assms(1) by simp
  show "sin (arccos s) ^ 2 = dot u u"
    using sin_arccos [of s] assms(3) s1 dot_self_nonneg [of u] by (simp add: uu)
qed

subsection \<open>Rotations\<close>

subsection \<open>exp_map above the threshold\<close>

lemma quat_norm_axis_angle:
  assumes "vnorm w \<noteq> 0"
  shows "quat_norm (axis_angle_quat w) = 1"
proof -
  define th where "th = vnorm w"
  have th0: "th \<noteq> 0" using assms by (simp add: th_def)
  have "dot w w = th ^ 2" by (simp add: th_def vnorm_sq)
  then have "quat_norm \<lparr>qw = cos (0.5 * th), qvec = map (\<lambda>x. x * sin (0.5 * th) / th) w\<rparr> = 1"
    using th0 dot_map_mult [of "sin (0.5 * th) / th" w]
    by (simp add: quat_norm_def times_divide_eq_right [symmetric] power_divide
             del: times_divide_eq_right)
  then show ?thesis by (simp add: axis_angle_quat_def th_def)
qed

lemma exp_map_rotation:
  assumes "length t = 3" "length w = 3" "theta_eps < vnorm w"
  shows "rotation (exp_map (t @ w)) =
           \<lparr>qw = cos (0.5 * vnorm w), qvec = map (\<lambda>x. x * sin (0.5 * vnorm w) / vnorm w) w\<rparr>"
proof -
  have "quat_norm (axis_angle_quat w) = 1" using assms(3) by (intro quat_norm_axis_angle) auto
  then show ?thesis
    using assms by (simp add: exp_map_def Let_def unit_quaternion_from_quaternion_def axis_angle_quat_def)
qed

lemma exp_map_translation:
  assumes "length t = 3" "length w = 3" "theta_eps < vnorm w"
  shows "translation (exp_map (t @ w)) =
           rodrigues ((1 - cos (vnorm w)) / vnorm w ^ 2) ((vnorm w - sin (vnorm w)) / vnorm w ^ 3) w t"
  using assms by (simp add: exp_map_def Let_def exp_V_apply)

lemma mat_vec_identity3: "length t = 3 \<Longrightarrow> mat_vec (mat_identity 3) t = t"
  by (auto simp: mat_vec_def mat_identity_def upt_rec elim!: length3_obtain)

lemma length_translation_exp_map [simp, shape_simps]: "length (translation (exp_map xi)) = 3"
  by (simp add: exp_map_def Let_def)

subsection \<open>Properties of the Lie-group utilities\<close>

text \<open>
  C1. Round trip: for a six-vector whose rotation angle \<open>|\<omega>|\<close> lies strictly
  between the threshold \<open>10\<^sup>-\<^sup>6\<close> and \<open>2\<pi>\<close>, \<open>log_map\<close> recovers from
  \<open>exp_map\<close> exactly the vector it was given, translation part included.
\<close>

theorem log_exp_roundtrip:
  assumes "length t = 3" "length w = 3" "theta_eps < vnorm w" "vnorm w < 2 * pi"
  shows "log_map (exp_map (t @ w)) = t @ w"
proof -
  define th where "th = vnorm w"
  have th0: "0 < th" using assms(3) by (simp add: th_def)
  have half: "0.5 * th = th / 2" by simp
  have acos: "2 * arccos (cos (0.5 * th)) = th"
    using th0 assms(4) by (simp add: th_def arccos_cos)
  have sin0: "sin (th / 2) \<noteq> 0"
    using sin_gt_zero [of "th / 2"] th0 assms(4) by (simp add: th_def)
  have ww: "dot w w = th ^ 2" by (simp add: th_def vnorm_sq)
  have omega: "map (\<lambda>x. x * th / sin (0.5 * th)) (map (\<lambda>x. x * sin (0.5 * th) / th) w) = w"
    unfolding half using th0 sin0 by (intro map_mult_cancel) auto
  let ?al = "(1 - cos th) / th ^ 2" and ?be = "(th - sin th) / th ^ 3"
  let ?ga = "(1 - 0.5 * th * cos (0.5 * th) / sin (0.5 * th)) / (th * th)"
  let ?Vinv = "mat_add (mat_sub (mat_identity 3) (mat_smul (skew_sym w) 0.5))
                 (mat_sdiv (mat_smul (mat_mul (skew_sym w) (skew_sym w))
                    (1 - 0.5 * th * cos (0.5 * th) / sin (0.5 * th))) (th * th))"
  have tr: "translation (exp_map (t @ w)) = rodrigues ?al ?be w t"
    using assms by (simp add: th_def exp_map_translation)
  have "mat_vec ?Vinv (translation (exp_map (t @ w))) = rodrigues (- 0.5) ?ga w (rodrigues ?al ?be w t)"
    unfolding tr by (rule log_V_inv_apply) (simp_all add: assms)
  also have "\<dots> = t" using assms(2,1) ww th0 sin0 by (rule rodrigues_Vinv_V)
  finally have vt: "mat_vec ?Vinv (translation (exp_map (t @ w))) = t" .
  show ?thesis
    using assms th0 acos omega vt
    by (simp add: log_map_def Let_def exp_map_rotation th_def [symmetric] vec_write_block_def)
qed

theorem log_exp_roundtrip_witness:
  "theta_eps < vnorm [0, 0, 1] \<and> vnorm [0, 0, 1] < 2 * pi \<and>
   log_map (exp_map ([1, 2, 3] @ [0, 0, 1])) = [1, 2, 3] @ [0, 0, 1]"
proof -
  have n: "vnorm [0, 0, 1] = 1" by (simp add: vnorm_def)
  have h: "theta_eps < vnorm [0, 0, 1]" "vnorm [0, 0, 1] < 2 * pi"
    using pi_ge_two by (simp_all add: n)
  have "log_map (exp_map ([1, 2, 3] @ [0, 0, 1])) = [1, 2, 3] @ [0, 0, 1]"
    by (rule log_exp_roundtrip) (use pi_ge_two in \<open>simp_all add: n\<close>)
  with h show ?thesis by blast
qed

text \<open>
  C6. \<open>skew_sym v\<close> is the cross-product matrix: applied to any three-vector
  \<open>w\<close> it gives \<open>v \<times> w\<close>.
\<close>

theorem skew_sym_cross: "length w = 3 \<Longrightarrow> mat_vec (skew_sym v) w = cross3 v w"
  by (auto simp: skew_sym_eq mat_vec_def cross3_def elim!: length3_obtain)

theorem skew_sym_cross_witness:
  "length [4, 5, 6 :: real] = 3 \<and> mat_vec (skew_sym [1, 2, 3]) [4, 5, 6] = [-3, 6, -3]"
proof -
  have "mat_vec (skew_sym [1, 2, 3]) [4, 5, 6] = cross3 [1, 2, 3] [4, 5, 6]"
    by (rule skew_sym_cross) simp
  then show ?thesis by (simp add: cross3_def)
qed

lemma quat_rotate_rodrigues:
  assumes "length w = 3" "length v = 3"
  shows "quat_rotate \<lparr>qw = c, qvec = map (\<lambda>x. x * k) w\<rparr> v = rodrigues (2 * c * k) (2 * k ^ 2) w v"
proof -
  obtain a b d where w: "w = [a, b, d]" using assms(1) by (rule length3_obtain)
  obtain x y z where v: "v = [x, y, z]" using assms(2) by (rule length3_obtain)
  show ?thesis unfolding w v
    by (simp add: quat_rotate_def rodrigues_def vadd_def vsmul_def cross3_def power2_eq_square algebra_simps)
qed

text \<open>
  C7. The rotation \<open>exp_map\<close> builds from \<open>(t | w)\<close> is the rotation by
  the angle \<open>\<theta> = |w|\<close> about the axis \<open>w\<close>: above the threshold
  \<open>1e-6\<close> it acts on a point by Rodrigues' formula
  \<open>R v = v + sin \<theta> / \<theta> (w \<times> v) + (1 - cos \<theta>) / \<theta>\<^sup>2 (w \<times> (w \<times> v))\<close>,
  below it is the identity.
\<close>

theorem exp_map_rotation_rodrigues:
  assumes "length t = 3" "length w = 3" "length v = 3"
  shows "quat_rotate (rotation (exp_map (t @ w))) v =
           (if theta_eps < vnorm w
            then rodrigues (sin (vnorm w) / vnorm w) ((1 - cos (vnorm w)) / vnorm w ^ 2) w v
            else v)"
proof (cases "theta_eps < vnorm w")
  case True
  define th where "th = vnorm w"
  have r: "rotation (exp_map (t @ w)) = \<lparr>qw = cos (0.5 * th), qvec = map (\<lambda>x. x * (sin (0.5 * th) / th)) w\<rparr>"
    using exp_map_rotation [OF assms(1,2) True] by (simp add: th_def)
  have "quat_rotate (rotation (exp_map (t @ w))) v =
               rodrigues (2 * cos (0.5 * th) * (sin (0.5 * th) / th)) (2 * (sin (0.5 * th) / th) ^ 2) w v"
    by (simp only: r quat_rotate_rodrigues [OF assms(2,3)])
  moreover have "2 * cos (0.5 * th) * (sin (0.5 * th) / th) = sin th / th"
    using sin_double [of "0.5 * th"] by (simp add: mult.commute)
  moreover have "2 * (sin (0.5 * th) / th) ^ 2 = (1 - cos th) / th ^ 2"
    using cos_double_sin [of "0.5 * th"] by (simp add: power_divide)
  ultimately show ?thesis using True by (simp add: th_def)
next
  case False
  then have "rotation (exp_map (t @ w)) = unit_quaternion_identity"
    using assms by (simp add: exp_map_def Let_def)
  then show ?thesis
    using False assms(3)
    by (auto simp: quat_rotate_def unit_quaternion_identity_def cross3_def vsmul_def vadd_def
             elim!: length3_obtain)
qed

theorem exp_map_rotation_rodrigues_witness:
  "quat_rotate (rotation (exp_map ([0, 0, 0] @ [0, 0, pi / 2]))) [1, 0, 0] = [0, 1, 0]"
proof -
  have "dot [0, 0, pi / 2] [0, 0, pi / 2] = (pi / 2) ^ 2" by (simp add: dot_def power2_eq_square)
  then have n: "vnorm [0, 0, pi / 2] = pi / 2" using pi_gt_zero by (simp add: vnorm_def)
  have "theta_eps < pi / 2" using pi_ge_two by simp
  then show ?thesis
    using exp_map_rotation_rodrigues [of "[0, 0, 0]" "[0, 0, pi / 2]" "[1, 0, 0]"] n
    by (simp add: rodrigues_def vadd_def vsmul_def cross3_def power2_eq_square)
qed

subsection \<open>Closed forms used by the calibration\<close>

lemma exp_map_jacobian_eq:
  "exp_map_jacobian q =
     \<lparr>mcols = 6, mrows = [[1, 0, 0, 0, q ! 2, - q ! 1], [0, 1, 0, - q ! 2, 0, q ! 0], [0, 0, 1, q ! 1, - q ! 0, 0]]\<rparr>"
  by (simp add: exp_map_jacobian_def mat_write_block_def skew_sym_eq mat_zeros_def mat_identity_def
      mat_neg_def mat_nrows_def upt_rec)

lemma exp_map_small:
  assumes "length t = 3" and "length w = 3" and "\<not> theta_eps < vnorm w"
  shows "exp_map (t @ w) = iso_translation t"
  using assms by (simp add: exp_map_def Let_def iso_translation_def mat_vec_identity3)

lemma length_quat_rotate [simp, shape_simps]:
  "length v = 3 \<Longrightarrow> length (quat_rotate q v) = 3"
  by (simp add: quat_rotate_def Let_def)

lemma exp_log_inverse:
  assumes "length u = 3" "length t = 3" "s ^ 2 + dot u u = 1"
    and "theta_eps < 2 * arccos s" and "- 1 < s"
  shows "exp_map (log_map \<lparr>rotation = \<lparr>qw = s, qvec = u\<rparr>, translation = t\<rparr>) =
           \<lparr>rotation = \<lparr>qw = s, qvec = u\<rparr>, translation = t\<rparr>"
proof -
  define th where "th = 2 * arccos s"
  note h = unit_quat_half_angle [OF assms(3-5)]
  have th0: "0 < th" using assms(4) by (simp add: th_def)
  have half: "0.5 * th = th / 2" and h_arc: "arccos s = th / 2" by (simp_all add: th_def)
  have sin0: "sin (th / 2) \<noteq> 0" using h(1) by (simp add: h_arc)
  define w where "w = map (\<lambda>x. x * th / sin (th / 2)) u"
  have w3: "length w = 3" using assms(1) by (simp add: w_def)
  have "dot w w = (th / sin (th / 2)) ^ 2 * dot u u"
    unfolding w_def using dot_map_mult [of "th / sin (th / 2)" u] by (simp add: times_divide_eq_right)
  also have "\<dots> = (th / sin (th / 2)) ^ 2 * sin (th / 2) ^ 2" using h(3) by (simp add: h_arc)
  finally have ww: "dot w w = th ^ 2" using sin0 by (simp add: power_divide)
  have nw: "vnorm w = th" using ww th0 by (simp add: vnorm_def)
  have u_back: "map (\<lambda>x. x * sin (th / 2) / th) w = u"
    unfolding w_def using th0 sin0 by (intro map_mult_cancel) auto
  let ?ga = "(1 - 0.5 * th * cos (0.5 * th) / sin (0.5 * th)) / (th * th)"
  let ?Vinv = "mat_add (mat_sub (mat_identity 3) (mat_smul (skew_sym w) 0.5))
                 (mat_sdiv (mat_smul (mat_mul (skew_sym w) (skew_sym w))
                    (1 - 0.5 * th * cos (0.5 * th) / sin (0.5 * th))) (th * th))"
  have gt: "1 < 2000000 * arccos s" using assms(4) by simp
  have log: "log_map \<lparr>rotation = \<lparr>qw = s, qvec = u\<rparr>, translation = t\<rparr> = mat_vec ?Vinv t @ w"
    using gt assms(1,2) unfolding th_def [symmetric]
    by (simp add: log_map_def Let_def th_def [symmetric] w_def vec_write_block_def half)
  have eps: "theta_eps < vnorm w" using assms(4) nw by (simp add: th_def)
  have vt3: "length (mat_vec ?Vinv t) = 3" by simp
  have rot: "rotation (exp_map (mat_vec ?Vinv t @ w)) = \<lparr>qw = s, qvec = u\<rparr>"
    using exp_map_rotation [OF vt3 w3 eps] u_back h(2) by (simp add: nw half h_arc)
  have "translation (exp_map (mat_vec ?Vinv t @ w)) =
          rodrigues ((1 - cos th) / th ^ 2) ((th - sin th) / th ^ 3) w (mat_vec ?Vinv t)"
    using exp_map_translation [OF vt3 w3 eps] unfolding nw .
  also have "\<dots> = t"
    unfolding log_V_inv_apply [OF w3 assms(2)] using w3 assms(2) ww th0 sin0 by (rule rodrigues_V_Vinv)
  finally have tr: "translation (exp_map (mat_vec ?Vinv t @ w)) = t" .
  show ?thesis unfolding log by (rule iso.equality) (simp_all only: rot tr iso.simps unit_eq [of "iso.more _"])
qed

text \<open>
  C27. The other round trip: an isometry whose rotation is a unit quaternion
  \<open>(s, u)\<close> with angle \<open>2 arccos s\<close> above the threshold and below
  \<open>2 pi\<close> (\<open>s > -1\<close>) is rebuilt exactly by \<open>exp_map\<close> from
  \<open>log_map\<close>'s six-vector, translation included.
\<close>

theorem exp_log_roundtrip:
  assumes "length u = 3" "length t = 3" "s ^ 2 + dot u u = 1"
    and "theta_eps < 2 * arccos s" and "- 1 < s"
  shows "exp_map (log_map \<lparr>rotation = \<lparr>qw = s, qvec = u\<rparr>, translation = t\<rparr>) =
           \<lparr>rotation = \<lparr>qw = s, qvec = u\<rparr>, translation = t\<rparr>"
  using assms by (rule exp_log_inverse)

theorem exp_log_roundtrip_witness:
  "exp_map (log_map \<lparr>rotation = \<lparr>qw = 0, qvec = [0, 0, 1]\<rparr>, translation = [1, 2, 3]\<rparr>) =
     \<lparr>rotation = \<lparr>qw = 0, qvec = [0, 0, 1]\<rparr>, translation = [1, 2, 3]\<rparr>"
  by (rule exp_log_roundtrip) (use pi_ge_two in simp_all)

subsection \<open>Derivatives of exp_map at the origin\<close>

lemma iso_apply_translation:
  "length p = 3 \<Longrightarrow> iso_apply (iso_translation t) p = vadd p t"
  by (erule length3_obtain) (simp add: iso_apply_def iso_translation_def quat_rotate_def
      unit_quaternion_identity_def linalg_defs)

lemma unit3_cases: "c < 3 \<Longrightarrow> (replicate 3 (0::real))[c := s] = [s, 0, 0] \<or>
    (replicate 3 (0::real))[c := s] = [0, s, 0] \<or> (replicate 3 (0::real))[c := s] = [0, 0, s]"
  unfolding less3_cases by (elim disjE) (simp_all add: numeral_eq_Suc)

lemma exp_map_axis_translation:
  assumes "c < 3"
  shows "exp_map ((replicate 6 0)[c := s]) = iso_translation ((replicate 3 0)[c := s])"
proof -
  have "(replicate 6 (0::real))[c := s] = (replicate 3 0)[c := s] @ [0, 0, 0]"
    using assms unfolding less3_cases by (elim disjE) (simp_all add: numeral_eq_Suc)
  then show ?thesis
    using exp_map_small [of "(replicate 3 0)[c := s]" "[0, 0, 0]"] assms by (simp add: vnorm_def)
qed

lemma exp_map_small_rotation:
  assumes "c < 3" and "\<bar>s\<bar> \<le> theta_eps"
  shows "exp_map ((replicate 6 0)[3 + c := s]) = iso_translation [0, 0, 0]"
proof -
  let ?w = "(replicate 3 (0::real))[c := s]"
  have split: "(replicate 6 (0::real))[3 + c := s] = [0, 0, 0] @ ?w"
    using assms(1) unfolding less3_cases by (elim disjE) (simp_all add: numeral_eq_Suc)
  have "vnorm ?w = \<bar>s\<bar>"
    using unit3_cases [OF assms(1), of s] by (auto simp: vnorm_def)
  then show ?thesis
    using exp_map_small [of "[0, 0, 0]" ?w] assms split by simp
qed

lemma exp_map_jacobian_translation_block:
  "r < 3 \<Longrightarrow> c < 3 \<Longrightarrow> mat_get (exp_map_jacobian p) r c = (if r = c then 1 else 0)"
  unfolding less3_cases by (elim disjE) (simp_all add: exp_map_jacobian_eq mat_get_def)

lemma vadd_zero3: "length p = 3 \<Longrightarrow> vadd p [0, 0, 0] = p"
  by (erule length3_obtain) (simp add: vadd_def)

text \<open>
  C28. The translation block of \<open>exp_map_jacobian\<close> (the identity) is the
  derivative of \<open>exp_map(\<xi>) p\<close> at \<open>\<xi> = 0\<close> in the translation
  coordinates, as the specification's property 4 asks.
\<close>

theorem exp_map_jacobian_translation_deriv:
  assumes "length p = 3" and "r < 3" and "c < 3"
  shows "((\<lambda>s. iso_apply (exp_map ((replicate 6 0)[c := s])) p ! r) has_real_derivative
            mat_get (exp_map_jacobian p) r c) (at 0)"
proof -
  have f: "iso_apply (exp_map ((replicate 6 0)[c := s])) p ! r = p ! r + (if r = c then s else 0)" for s
    using assms by (simp add: exp_map_axis_translation iso_apply_translation vadd_def nth_list_update)
  have "((\<lambda>s. p ! r + (if r = c then s else 0)) has_real_derivative (if r = c then 1 else 0)) (at 0)"
    by (cases "r = c") (auto intro!: derivative_eq_intros)
  then show ?thesis
    unfolding f exp_map_jacobian_translation_block [OF assms(2,3)] .
qed

theorem exp_map_jacobian_translation_deriv_witness:
  "((\<lambda>s. iso_apply (exp_map ((replicate 6 0)[0 := s])) [1, 2, 3] ! 0) has_real_derivative
      mat_get (exp_map_jacobian [1, 2, 3]) 0 0) (at 0) \<and> mat_get (exp_map_jacobian [1, 2, 3]) 0 0 = 1"
  using exp_map_jacobian_translation_deriv [of "[1, 2, 3]" 0 0] exp_map_jacobian_translation_block [of 0 0 "[1, 2, 3]"]
  by simp

text \<open>
  C29. In the rotation coordinates, \<open>exp_map(\<xi>) p\<close> is constant on the
  ball \<open>|\<omega>| \<le> 1e-6\<close>, where \<open>exp_map\<close> returns the identity rotation, so
  its derivative at \<open>\<xi> = 0\<close> is zero; the rotation block of
  \<open>exp_map_jacobian\<close> is \<open>-[p]\<^sub>\<times>\<close>, non-zero for \<open>p \<noteq> 0\<close> (the
  witness shows an entry \<open>1\<close>). The block is the derivative of the
  un-thresholded exponential, not of the code's \<open>exp_map\<close>.
\<close>

theorem exp_map_rotation_deriv_zero:
  assumes "length p = 3" and "c < 3"
  shows "((\<lambda>s. iso_apply (exp_map ((replicate 6 0)[3 + c := s])) p ! r) has_real_derivative 0) (at 0)"
proof (rule has_field_derivative_transform_within_open [OF DERIV_const])
  show "open {- theta_eps <..< theta_eps :: real}" by simp
  show "(0 :: real) \<in> {- theta_eps <..< theta_eps}" by simp
  fix s :: real
  assume "s \<in> {- theta_eps <..< theta_eps}"
  then have "\<bar>s\<bar> \<le> theta_eps" by auto
  then show "p ! r = iso_apply (exp_map ((replicate 6 0)[3 + c := s])) p ! r"
    using assms by (simp add: exp_map_small_rotation iso_apply_translation vadd_zero3)
qed

theorem exp_map_rotation_deriv_zero_witness:
  "((\<lambda>s. iso_apply (exp_map ((replicate 6 0)[3 + 2 := s])) [1, 0, 0] ! 1) has_real_derivative 0) (at 0) \<and>
   mat_get (exp_map_jacobian [1, 0, 0]) 1 (3 + 2) = 1"
  using exp_map_rotation_deriv_zero [of "[1, 0, 0]" 2 1]
  by (simp add: exp_map_jacobian_eq mat_get_def)

subsection \<open>log_map does not canonicalise\<close>

lemma log_axis_norm:
  assumes "s ^ 2 + dot u u = 1" and "theta_eps < 2 * arccos s" and "- 1 < s"
  shows "dot (map (\<lambda>x. x * (2 * arccos s) / sin (arccos s)) u) (map (\<lambda>x. x * (2 * arccos s) / sin (arccos s)) u) =
           (2 * arccos s) ^ 2"
proof -
  note h = unit_quat_half_angle [OF assms]
  have "dot (map (\<lambda>x. x * (2 * arccos s) / sin (arccos s)) u) (map (\<lambda>x. x * (2 * arccos s) / sin (arccos s)) u) =
          (2 * arccos s / sin (arccos s)) ^ 2 * dot u u"
    using dot_map_mult [of "2 * arccos s / sin (arccos s)" u] by (simp add: times_divide_eq_right)
  also have "\<dots> = (2 * arccos s / sin (arccos s)) ^ 2 * sin (arccos s) ^ 2" using h(3) by simp
  finally show ?thesis using h(1) by (simp add: power_divide)
qed

text \<open>
  C32. \<open>log_map\<close> takes \<open>acos\<close> of the quaternion's scalar part as it
  comes: for a unit quaternion with negative scalar part (the same rotation as
  its negation, whose scalar part is positive) it returns a rotation vector
  longer than \<open>pi\<close>, where the specification canonicalises the scalar part
  to be non-negative first.
\<close>

theorem log_map_angle_beyond_pi:
  assumes "length u = 3" and "s ^ 2 + dot u u = 1" and "- 1 < s" and "s < 0"
  shows "pi < vnorm (drop 3 (log_map \<lparr>rotation = \<lparr>qw = s, qvec = u\<rparr>, translation = t\<rparr>))"
proof -
  have "arccos 0 < arccos s" using assms(3,4) by (intro arccos_less_arccos) auto
  then have big: "pi < 2 * arccos s" by simp
  then have eps: "theta_eps < 2 * arccos s" using pi_ge_two by simp
  have gt: "1 < 2000000 * arccos s" using eps by simp
  have "drop 3 (log_map \<lparr>rotation = \<lparr>qw = s, qvec = u\<rparr>, translation = t\<rparr>) =
          map (\<lambda>x. x * (2 * arccos s) / sin (arccos s)) u"
    using gt assms(1) by (simp add: log_map_def Let_def vec_write_block_def)
  moreover have "vnorm (map (\<lambda>x. x * (2 * arccos s) / sin (arccos s)) u) = 2 * arccos s"
    using big pi_gt_zero
    by (simp only: vnorm_def log_axis_norm [OF assms(2) eps assms(3)] real_sqrt_abs)
  ultimately show ?thesis using big by simp
qed

theorem log_map_angle_beyond_pi_witness:
  "pi < vnorm (drop 3 (log_map \<lparr>rotation = \<lparr>qw = - 1 / 2, qvec = [0, 0, sqrt 3 / 2]\<rparr>, translation = [0, 0, 0]\<rparr>))"
  by (rule log_map_angle_beyond_pi) (simp_all add: power_divide)

subsection \<open>exp_map inverts log_map on its domain\<close>

lemma length_log_map [simp, shape_simps]: "length (qvec (rotation T)) = 3 \<Longrightarrow> length (log_map T) = 6"
  by (simp add: log_map_def Let_def)

lemma exp_log_domain: "log_domain T \<Longrightarrow> exp_map (log_map T) = T"
proof -
  assume "log_domain T"
  moreover obtain s u t where "T = \<lparr>rotation = \<lparr>qw = s, qvec = u\<rparr>, translation = t\<rparr>"
    by (metis iso.cases quat.cases unit.exhaust iso.ext_inject)
  ultimately show ?thesis by (auto simp: log_domain_def intro: exp_log_inverse)
qed

end
