(* ===== verification/Projection.thy ===== *)
theory Projection
  imports Prelude
begin

text \<open>
  The pinhole projection model of \<open>src/src/optimize.rs\<close> (lines 105--148):
  \<open>project\<close> maps a camera-frame point \<open>(x, y, z)\<close> to the pixel
  \<open>(fx x / z + cx, fy y / z + cy)\<close> for the camera model \<open>(fx, fy, cx, cy)\<close>;
  \<open>proj_jacobian_wrt_params\<close> and \<open>proj_jacobian_wrt_point\<close> are its analytic
  partial derivatives with respect to the four intrinsics and to the point.
  The theorems show that the analytic Jacobians are the derivatives of
  \<open>project\<close>, entry by entry.
\<close>

definition project :: "vec \<Rightarrow> vec \<Rightarrow> vec" where
  "project params pt =
     [params ! 0 * pt ! 0 / pt ! 2 + params ! 2,
      params ! 1 * pt ! 1 / pt ! 2 + params ! 3]"

definition proj_jacobian_wrt_params :: "vec \<Rightarrow> mat" where
  "proj_jacobian_wrt_params transformed_pt =
     \<lparr>mcols = 4,
      mrows = [[transformed_pt ! 0 / transformed_pt ! 2, 0, 1, 0],
               [0, transformed_pt ! 1 / transformed_pt ! 2, 0, 1]]\<rparr>"

definition proj_jacobian_wrt_point :: "vec \<Rightarrow> vec \<Rightarrow> mat" where
  "proj_jacobian_wrt_point camera_model transformed_pt =
     \<lparr>mcols = 3,
      mrows = [[camera_model ! 0 / transformed_pt ! 2, 0,
                - transformed_pt ! 0 * camera_model ! 0 / transformed_pt ! 2 ^ 2],
               [0, camera_model ! 1 / transformed_pt ! 2,
                - transformed_pt ! 1 * camera_model ! 1 / transformed_pt ! 2 ^ 2]]\<rparr>"

lemma shape_proj_jacobians [simp, shape_simps]:
  "mat_nrows (proj_jacobian_wrt_params p) = 2" "mcols (proj_jacobian_wrt_params p) = 4"
  "mat_nrows (proj_jacobian_wrt_point c p) = 2" "mcols (proj_jacobian_wrt_point c p) = 3"
  by (simp_all add: proj_jacobian_wrt_params_def proj_jacobian_wrt_point_def mat_nrows_def)

lemma mat_wf_proj_jacobians [simp]:
  "mat_wf (proj_jacobian_wrt_params p)" "mat_wf (proj_jacobian_wrt_point c p)"
  by (simp_all add: proj_jacobian_wrt_params_def proj_jacobian_wrt_point_def mat_wf_def)

lemma length_project [simp, shape_simps]: "length (project c p) = 2"
  by (simp add: project_def)

lemma project_params_deriv:
  assumes "length params = 4" "r < 2" "k < 4"
  shows "((\<lambda>s. project (params[k := s]) pt ! r) has_real_derivative
            mat_get (proj_jacobian_wrt_params pt) r k) (at (params ! k))"
proof -
  obtain fx fy cx cy where p: "params = [fx, fy, cx, cy]"
    using assms(1) by (auto simp: numeral_eq_Suc length_Suc_conv)
  show ?thesis
  proof (cases "pt ! 2 = 0")
    case True
    then show ?thesis
      using assms(2,3) unfolding p less2_cases less4_cases
      by (elim disjE; auto simp: project_def proj_jacobian_wrt_params_def mat_get_def
                           intro!: derivative_eq_intros)
  next
    case False
    then show ?thesis
      using assms(2,3) unfolding p less2_cases less4_cases
      by (elim disjE; auto simp: project_def proj_jacobian_wrt_params_def mat_get_def
                           intro!: derivative_eq_intros)
  qed
qed

text \<open>
  C8. Every entry of \<open>proj_jacobian_wrt_params\<close> is the derivative of the
  corresponding pixel coordinate of \<open>project\<close> with respect to the
  corresponding camera parameter, the other three held fixed.
\<close>

theorem proj_jacobian_wrt_params_deriv:
  assumes "length params = 4" "r < 2" "k < 4"
  shows "((\<lambda>s. project (params[k := s]) pt ! r) has_real_derivative
            mat_get (proj_jacobian_wrt_params pt) r k) (at (params ! k))"
  using assms by (rule project_params_deriv)

theorem proj_jacobian_wrt_params_deriv_witness:
  "((\<lambda>s. project ([540, 540, 320, 240][0 := s]) [1, 2, 4] ! 0) has_real_derivative
      mat_get (proj_jacobian_wrt_params [1, 2, 4]) 0 0) (at ([540, 540, 320, 240] ! 0)) \<and>
   mat_get (proj_jacobian_wrt_params [1, 2, 4]) 0 0 = 1 / 4"
proof
  show "((\<lambda>s. project ([540, 540, 320, 240][0 := s]) [1, 2, 4] ! 0) has_real_derivative
      mat_get (proj_jacobian_wrt_params [1, 2, 4]) 0 0) (at ([540, 540, 320, 240] ! 0))"
    by (rule proj_jacobian_wrt_params_deriv) simp_all
  show "mat_get (proj_jacobian_wrt_params [1, 2, 4]) 0 0 = 1 / 4"
    by (simp add: proj_jacobian_wrt_params_def mat_get_def)
qed

lemma project_point_deriv:
  assumes "length pt = 3" "pt ! 2 \<noteq> 0" "r < 2" "k < 3"
  shows "((\<lambda>s. project camera_model (pt[k := s]) ! r) has_real_derivative
            mat_get (proj_jacobian_wrt_point camera_model pt) r k) (at (pt ! k))"
proof -
  obtain x y z where p: "pt = [x, y, z]" using assms(1) by (rule length3_obtain)
  have z: "z \<noteq> 0" using assms(2) by (simp add: p)
  show ?thesis
    using assms(3,4) z unfolding p less2_cases less3_cases
    by (elim disjE)
       (simp_all add: project_def proj_jacobian_wrt_point_def mat_get_def;
        auto intro!: derivative_eq_intros simp: field_simps power2_eq_square)+
qed

text \<open>The same derivative along a shifted coordinate, by the chain rule.\<close>

lemma project_point_shift_deriv:
  assumes "length pt = 3" "pt ! 2 \<noteq> 0" "r < 2" "k < 3"
  shows "((\<lambda>s. project camera_model (pt[k := a + s]) ! r) has_real_derivative
            mat_get (proj_jacobian_wrt_point camera_model pt) r k) (at (pt ! k - a))"
proof -
  have d: "((\<lambda>s'. project camera_model (pt[k := s']) ! r) has_real_derivative
             mat_get (proj_jacobian_wrt_point camera_model pt) r k) (at (a + (pt ! k - a)))"
    using project_point_deriv [OF assms] by simp
  have g: "((\<lambda>s. a + s) has_real_derivative 1) (at (pt ! k - a))"
    by (auto intro!: derivative_eq_intros)
  show ?thesis
    using DERIV_chain2 [where f = "\<lambda>s'. project camera_model (pt[k := s']) ! r" and g = "\<lambda>s. a + s", OF d g]
    by simp
qed

text \<open>
  C9. Where the point is in front of or behind the camera (\<open>z \<noteq> 0\<close>), every
  entry of \<open>proj_jacobian_wrt_point\<close> is the derivative of the corresponding
  pixel coordinate of \<open>project\<close> with respect to the corresponding coordinate
  of the point.
\<close>

theorem proj_jacobian_wrt_point_deriv:
  assumes "length pt = 3" "pt ! 2 \<noteq> 0" "r < 2" "k < 3"
  shows "((\<lambda>s. project camera_model (pt[k := s]) ! r) has_real_derivative
            mat_get (proj_jacobian_wrt_point camera_model pt) r k) (at (pt ! k))"
  using assms by (rule project_point_deriv)

theorem proj_jacobian_wrt_point_deriv_witness:
  "length [1, 2, 4 :: real] = 3 \<and> [1, 2, 4 :: real] ! 2 \<noteq> 0 \<and>
   ((\<lambda>s. project [540, 540, 320, 240] ([1, 2, 4][2 := s]) ! 0) has_real_derivative
      mat_get (proj_jacobian_wrt_point [540, 540, 320, 240] [1, 2, 4]) 0 2) (at ([1, 2, 4] ! 2))"
proof -
  have "((\<lambda>s. project [540, 540, 320, 240] ([1, 2, 4][2 := s]) ! 0) has_real_derivative
      mat_get (proj_jacobian_wrt_point [540, 540, 320, 240] [1, 2, 4]) 0 2) (at ([1, 2, 4] ! 2))"
    by (rule proj_jacobian_wrt_point_deriv) simp_all
  then show ?thesis by simp
qed

text \<open>
  C23. Back-projection: a pixel \<open>(u, v)\<close> lifted to depth \<open>z\<close> through
  the camera \<open>(f\<^sub>x, f\<^sub>y, c\<^sub>x, c\<^sub>y)\<close> projects back onto
  \<open>(u, v)\<close>, for non-zero focal lengths and depth.
\<close>

theorem project_backproject:
  assumes "fx \<noteq> 0" and "fy \<noteq> 0" and "z \<noteq> 0"
  shows "project [fx, fy, cx, cy] [(u - cx) * z / fx, (v - cy) * z / fy, z] = [u, v]"
  using assms by (simp add: project_def)

theorem project_backproject_witness:
  "project [540, 540, 320, 240] [(500 - 320) * 3 / 540, (240 - 240) * 3 / 540, 3] = [500, 240]"
  using project_backproject [of 540 540 3 320 240 500 240] by simp

end
