(* ===== verification/LM.thy ===== *)
theory LM
  imports Prelude
begin

text \<open>
  The generic Levenberg--Marquardt solver of \<open>src/src/lm.rs\<close>. The trait
  \<open>LMProblem\<close> (a residual and a Jacobian at a parameter vector) is the record
  \<open>lm_problem\<close>; its functions return \<open>None\<close> where the implementation panics
  (the calibration problem does on a parameter vector that is too short).
  nalgebra's dense LU solve \<open>jtj_with_lambda.lu().solve(b)\<close> is library code:
  it is a parameter \<open>solve\<close> of the solver, \<open>None\<close> for a singular system.

  One pass of the \<open>while\<close> loop is \<open>lm_step\<close>; it either asks to stop
  (\<open>Break\<close>, the \<open>break\<close> on the tolerance test) or gives the next parameter
  vector and damping (\<open>Continue\<close>). The loop \<open>lm_loop\<close> counts the iterations
  as the code does and stops at \<open>max_iter\<close>, so it terminates by a measure.
\<close>

record lm_problem =
  residual_fn :: "vec \<Rightarrow> vec option"
  jacobian_fn :: "vec \<Rightarrow> mat option"

type_synonym lu_solver = "mat \<Rightarrow> vec \<Rightarrow> vec option"

record lm_state =
  lm_x :: vec
  lm_lambda :: real

datatype lm_outcome = Continue lm_state | Break

text \<open>\<open>for i in 0..nrows { jtj_with_lambda[(i, i)] += lambda_current }\<close>\<close>

definition add_lambda_diag :: "mat \<Rightarrow> real \<Rightarrow> mat" where
  "add_lambda_diag jtj lambda_current =
     fold (\<lambda>i m. mat_set m i i (mat_get m i i + lambda_current)) [0..<mat_nrows jtj] jtj"

definition lm_step :: "lm_problem \<Rightarrow> lu_solver \<Rightarrow> real \<Rightarrow> real \<Rightarrow> lm_state \<Rightarrow> lm_outcome option" where
  "lm_step problem solve tol gamma st =
     (case residual_fn problem (lm_x st) of None \<Rightarrow> None | Some fx \<Rightarrow>
      case jacobian_fn problem (lm_x st) of None \<Rightarrow> None | Some j \<Rightarrow>
      if length fx \<noteq> mat_nrows j then None
      else
        (let jtj = mat_mul (mat_transpose j) j;
             jtj_with_lambda = add_lambda_diag jtj (lm_lambda st);
             delta_x = solve jtj_with_lambda (mat_vec (mat_transpose j) (vneg fx))
         in case delta_x of
              Some dx \<Rightarrow>
                if length dx \<noteq> length (lm_x st) then None
                else
                  (let new_x = vadd (lm_x st) dx
                   in case residual_fn problem new_x of None \<Rightarrow> None | Some fx_new \<Rightarrow>
                        (let fx_norm = vnorm fx;
                             fx_new_norm = vnorm fx_new
                         in if \<bar>fx_norm - fx_new_norm\<bar> < tol then Some Break
                            else if fx_new_norm < fx_norm
                            then Some (Continue \<lparr>lm_x = new_x, lm_lambda = lm_lambda st / gamma\<rparr>)
                            else Some (Continue (st\<lparr>lm_lambda := lm_lambda st * gamma\<rparr>))))
            | None \<Rightarrow> Some (Continue (st\<lparr>lm_lambda := lm_lambda st * gamma\<rparr>))))"

function lm_loop ::
  "lm_problem \<Rightarrow> lu_solver \<Rightarrow> nat \<Rightarrow> real \<Rightarrow> real \<Rightarrow> nat \<Rightarrow> lm_state \<Rightarrow> vec option" where
  "lm_loop problem solve max_iter tol gamma iteration st =
     (if iteration < max_iter then
        (case lm_step problem solve tol gamma st of
           None \<Rightarrow> None
         | Some Break \<Rightarrow> Some (lm_x st)
         | Some (Continue st') \<Rightarrow> lm_loop problem solve max_iter tol gamma (Suc iteration) st')
      else Some (lm_x st))"
  by pat_completeness auto
termination
  by (relation "measure (\<lambda>(_, _, max_iter, _, _, iteration, _). max_iter - iteration)") auto

declare lm_loop.simps [simp del]

definition levenberg_marquardt ::
  "lm_problem \<Rightarrow> lu_solver \<Rightarrow> vec \<Rightarrow> nat \<Rightarrow> real \<Rightarrow> real \<Rightarrow> real \<Rightarrow> vec option" where
  "levenberg_marquardt problem solve init_param max_iter tol lambda gamma =
     lm_loop problem solve max_iter tol gamma 0 \<lparr>lm_x = init_param, lm_lambda = lambda\<rparr>"

text \<open>
  The dimensions a problem promises: at a parameter vector of length \<open>n\<close> the
  residual has length \<open>m\<close> and the Jacobian is \<open>m \<times> n\<close>; the linear solver
  returns a vector as long as its right-hand side.
\<close>

definition lm_dims :: "lm_problem \<Rightarrow> lu_solver \<Rightarrow> nat \<Rightarrow> nat \<Rightarrow> bool" where
  "lm_dims problem solve n m \<longleftrightarrow>
     (\<forall>x. length x = n \<longrightarrow>
        (\<exists>r. residual_fn problem x = Some r \<and> length r = m) \<and>
        (\<exists>j. jacobian_fn problem x = Some j \<and> mat_nrows j = m \<and> mcols j = n)) \<and>
     (\<forall>a b d. solve a b = Some d \<longrightarrow> length d = length b)"

text \<open>
  A one-parameter problem, the residual \<open>x - 3\<close>, and a solver for \<open>1 \<times> 1\<close>
  systems: concrete inputs at which the solver's theorems are instantiated.
\<close>

definition offset_problem :: lm_problem where
  "offset_problem =
     \<lparr>residual_fn = (\<lambda>x. if length x = 1 then Some [x ! 0 - 3] else None),
      jacobian_fn = (\<lambda>x. if length x = 1 then Some \<lparr>mcols = 1, mrows = [[1]]\<rparr> else None)\<rparr>"

definition solve_1x1 :: lu_solver where
  "solve_1x1 a b =
     (if mat_nrows a = 1 \<and> mcols a = 1 \<and> length b = 1 \<and> mat_get a 0 0 \<noteq> 0
      then Some [b ! 0 / mat_get a 0 0] else None)"

text \<open>
  The solver as a state machine: the states reachable from a start state in
  \<open>k\<close> passes of the loop that did not stop it.
\<close>

inductive lm_reach ::
  "lm_problem \<Rightarrow> lu_solver \<Rightarrow> real \<Rightarrow> real \<Rightarrow> lm_state \<Rightarrow> nat \<Rightarrow> lm_state \<Rightarrow> bool"
  for problem solve tol gamma st0 where
  lm_reach_start: "lm_reach problem solve tol gamma st0 0 st0"
| lm_reach_step: "lm_reach problem solve tol gamma st0 k st \<Longrightarrow>
    lm_step problem solve tol gamma st = Some (Continue st') \<Longrightarrow>
    lm_reach problem solve tol gamma st0 (Suc k) st'"

text \<open>
  The contract of a dense LU solve on \<open>n \<times> n\<close> systems: every
  well-formed nonsingular system gets its solution.
\<close>

definition lu_solves :: "lu_solver \<Rightarrow> nat \<Rightarrow> bool" where
  "lu_solves solve n \<longleftrightarrow>
     (\<forall>a b. mat_wf a \<and> mat_nrows a = n \<and> mcols a = n \<and> length b = n \<and>
            (\<forall>x. length x = n \<and> mat_vec a x = replicate n 0 \<longrightarrow> x = replicate n 0)
            \<longrightarrow> (\<exists>d. solve a b = Some d \<and> length d = n \<and> mat_vec a d = b))"

text \<open>Continuity of the residual norm at a point, over vectors of the same length.\<close>

definition residual_continuous_at :: "lm_problem \<Rightarrow> vec \<Rightarrow> bool" where
  "residual_continuous_at problem x \<longleftrightarrow>
     (\<exists>fx. residual_fn problem x = Some fx \<and>
        (\<forall>e > 0. \<exists>d > 0. \<forall>y. length y = length x \<and> vnorm (vsub y x) < d \<longrightarrow>
           (\<exists>fy. residual_fn problem y = Some fy \<and> \<bar>vnorm fx - vnorm fy\<bar> < e)))"

subsection \<open>One step\<close>

lemma lm_step_Continue:
  assumes "lm_step problem solve tol gamma st = Some (Continue st')"
    and "residual_fn problem (lm_x st) = Some fx"
  shows "(lm_x st' = lm_x st \<and> lm_lambda st' = lm_lambda st * gamma) \<or>
         (\<exists>fx'. residual_fn problem (lm_x st') = Some fx' \<and> vnorm fx' < vnorm fx \<and>
                 lm_lambda st' = lm_lambda st / gamma)"
  using assms
  by (auto simp: lm_step_def Let_def split: option.splits if_splits)

lemma lm_step_Continue_length:
  assumes "lm_step problem solve tol gamma st = Some (Continue st')"
  shows "length (lm_x st') = length (lm_x st)"
  using assms
  by (auto simp: lm_step_def Let_def split: option.splits if_splits)

lemma lm_step_defined:
  assumes "lm_dims problem solve n m" and "length (lm_x st) = n"
  shows "lm_step problem solve tol gamma st \<noteq> None"
proof -
  from assms obtain fx j where fx: "residual_fn problem (lm_x st) = Some fx" "length fx = m"
    and j: "jacobian_fn problem (lm_x st) = Some j" "mat_nrows j = m" "mcols j = n"
    by (auto simp: lm_dims_def)
  have solve_len: "\<And>a b d. solve a b = Some d \<Longrightarrow> length d = length b"
    using assms(1) by (simp add: lm_dims_def)
  have new: "residual_fn problem (vadd (lm_x st) dx) \<noteq> None" if "length dx = mcols j" for dx
  proof -
    have "length (vadd (lm_x st) dx) = n" using that assms(2) j(3) by simp
    with assms(1) show ?thesis unfolding lm_dims_def by blast
  qed
  show ?thesis
    using fx j assms(2)
    by (auto simp: lm_step_def Let_def split: option.splits dest!: solve_len dest: new)
qed

subsection \<open>Reachable states\<close>

inductive_simps lm_reach_0_iff: "lm_reach problem solve tol gamma st0 0 st"
inductive_cases lm_reach_SucE: "lm_reach problem solve tol gamma st0 (Suc k) st"

lemma lm_reach_length:
  "lm_reach problem solve tol gamma st0 k st \<Longrightarrow> length (lm_x st) = length (lm_x st0)"
proof (induction k arbitrary: st)
  case 0
  then show ?case by (simp add: lm_reach_0_iff)
next
  case (Suc k)
  from Suc.prems show ?case
    by (rule lm_reach_SucE) (use Suc.IH lm_step_Continue_length in metis)
qed

subsection \<open>The loop\<close>

lemma lm_loop_residual_le:
  assumes "lm_loop problem solve max_iter tol gamma iteration st = Some y"
    and "residual_fn problem (lm_x st) = Some r"
  shows "\<exists>r'. residual_fn problem y = Some r' \<and> vnorm r' \<le> vnorm r"
  using assms
proof (induction problem solve max_iter tol gamma iteration st arbitrary: r
       rule: lm_loop.induct)
  case (1 problem solve max_iter tol gamma iteration st)
  show ?case
  proof (cases "iteration < max_iter")
    case False
    with "1.prems" show ?thesis by (auto simp: lm_loop.simps)
  next
    case True
    show ?thesis
    proof (cases "lm_step problem solve tol gamma st")
      case None
      with True "1.prems" show ?thesis by (simp add: lm_loop.simps)
    next
      case (Some out)
      show ?thesis
      proof (cases out)
        case Break
        with True Some "1.prems" show ?thesis by (auto simp: lm_loop.simps)
      next
        case (Continue st')
        with True Some "1.prems"(1)
        have y: "lm_loop problem solve max_iter tol gamma (Suc iteration) st' = Some y"
          by (simp add: lm_loop.simps)
        from lm_step_Continue [OF Some [unfolded Continue] "1.prems"(2)]
        obtain r1 where r1: "residual_fn problem (lm_x st') = Some r1" "vnorm r1 \<le> vnorm r"
          using "1.prems"(2) by fastforce
        from "1.IH" [OF True Some Continue y r1(1)] r1(2) show ?thesis
          by fastforce
      qed
    qed
  qed
qed

lemma lm_loop_total:
  assumes "lm_dims problem solve n m" and "length (lm_x st) = n"
  shows "\<exists>y. lm_loop problem solve max_iter tol gamma iteration st = Some y \<and> length y = n"
  using assms
proof (induction problem solve max_iter tol gamma iteration st rule: lm_loop.induct)
  case (1 problem' solve' max_iter tol gamma iteration st)
  show ?case
  proof (cases "iteration < max_iter")
    case False
    with "1.prems"(2) show ?thesis by (simp add: lm_loop.simps)
  next
    case True
    show ?thesis
    proof (cases "lm_step problem' solve' tol gamma st")
      case None
      with lm_step_defined [OF "1.prems"] show ?thesis by blast
    next
      case (Some out)
      show ?thesis
      proof (cases out)
        case Break
        with True Some "1.prems"(2) show ?thesis by (simp add: lm_loop.simps)
      next
        case (Continue st')
        have "length (lm_x st') = n"
          using lm_step_Continue_length [OF Some [unfolded Continue]] "1.prems"(2) by simp
        from "1.IH" [OF True Some Continue "1.prems"(1) this] True Some Continue show ?thesis
          by (simp add: lm_loop.simps)
      qed
    qed
  qed
qed

lemma lm_loop_reach:
  assumes "lm_loop problem solve max_iter tol gamma iteration st = Some y"
  shows "\<exists>k st'. lm_reach problem solve tol gamma st k st' \<and> k \<le> max_iter - iteration \<and> lm_x st' = y"
  using assms
proof (induction problem solve max_iter tol gamma iteration st rule: lm_loop.induct)
  case (1 problem solve max_iter tol gamma iteration st)
  show ?case
  proof (cases "iteration < max_iter")
    case False
    with "1.prems" show ?thesis by (auto simp: lm_loop.simps intro: lm_reach_start)
  next
    case True
    show ?thesis
    proof (cases "lm_step problem solve tol gamma st")
      case None
      with True "1.prems" show ?thesis by (simp add: lm_loop.simps)
    next
      case (Some out)
      show ?thesis
      proof (cases out)
        case Break
        with True Some "1.prems" show ?thesis by (auto simp: lm_loop.simps intro: lm_reach_start)
      next
        case (Continue st')
        with True Some "1.prems"
        have "lm_loop problem solve max_iter tol gamma (Suc iteration) st' = Some y"
          by (simp add: lm_loop.simps)
        from "1.IH" [OF True Some Continue this] obtain k st'' where
          r: "lm_reach problem solve tol gamma st' k st''" "k \<le> max_iter - Suc iteration" "lm_x st'' = y"
          by blast
        have first: "lm_reach problem solve tol gamma st (Suc 0) st'"
          using lm_reach_step [OF lm_reach_start] Some Continue by simp
        have "lm_reach problem solve tol gamma st (Suc k) st''"
          using r(1) first
        proof (induction rule: lm_reach.induct)
          case lm_reach_start
          then show ?case by simp
        next
          case (lm_reach_step k st1 st2)
          then show ?case by (blast intro: lm_reach.lm_reach_step)
        qed
        with r(2,3) True show ?thesis by (intro exI [of _ "Suc k"]) auto
      qed
    qed
  qed
qed

subsection \<open>Properties of the solver\<close>

text \<open>
  C2. The solver never makes the fit worse: whatever parameter vector
  \<open>levenberg_marquardt\<close> returns has a residual norm no larger than that of the
  initial guess, since a step is only taken when it lowers the norm.
\<close>

theorem levenberg_marquardt_residual_le:
  assumes "levenberg_marquardt problem solve x0 max_iter tol lambda gamma = Some y"
    and "residual_fn problem x0 = Some r0"
  shows "\<exists>r. residual_fn problem y = Some r \<and> vnorm r \<le> vnorm r0"
  using lm_loop_residual_le [OF assms(1) [unfolded levenberg_marquardt_def]] assms(2) by simp

lemma offset_problem_run:
  "levenberg_marquardt offset_problem solve_1x1 [1] 1 (1 / 1000) 1 2 = Some [2]"
  by (simp add: levenberg_marquardt_def lm_loop.simps lm_step_def offset_problem_def solve_1x1_def
                add_lambda_diag_def linalg_defs vnorm_def upt_rec)

theorem levenberg_marquardt_residual_le_witness:
  "levenberg_marquardt offset_problem solve_1x1 [1] 1 (1 / 1000) 1 2 = Some [2] \<and>
   residual_fn offset_problem [1] = Some [-2] \<and>
   (\<exists>r. residual_fn offset_problem [2] = Some r \<and> vnorm r \<le> vnorm [-2])"
proof -
  have r0: "residual_fn offset_problem [1] = Some [-2]" by (simp add: offset_problem_def)
  show ?thesis
    using levenberg_marquardt_residual_le [OF offset_problem_run r0] offset_problem_run r0 by simp
qed

text \<open>
  C3. On a problem whose residual, Jacobian and linear solver have consistent
  dimensions, \<open>levenberg_marquardt\<close> terminates without a panic and returns a
  parameter vector of the length of the initial guess.
\<close>

theorem levenberg_marquardt_total:
  assumes "lm_dims problem solve n m" and "length x0 = n"
  shows "\<exists>y. levenberg_marquardt problem solve x0 max_iter tol lambda gamma = Some y \<and> length y = n"
  unfolding levenberg_marquardt_def using lm_loop_total [OF assms(1)] assms(2) by simp

lemma offset_problem_dims: "lm_dims offset_problem solve_1x1 1 1"
  by (auto simp: lm_dims_def offset_problem_def solve_1x1_def mat_nrows_def split: if_splits)

theorem levenberg_marquardt_total_witness:
  "lm_dims offset_problem solve_1x1 1 1 \<and> length [5 :: real] = 1 \<and>
   (\<exists>y. levenberg_marquardt offset_problem solve_1x1 [5] 100 0 1 10 = Some y \<and> length y = 1)"
  using levenberg_marquardt_total [OF offset_problem_dims, of "[5]"] offset_problem_dims by simp

text \<open>
  C4. The stopping test comes before the acceptance test: when the candidate
  step changes the residual norm by less than \<open>tol\<close>, the solver returns the
  current parameter vector, even when the candidate has the smaller residual.
\<close>

theorem levenberg_marquardt_stops_before_accepting:
  assumes "0 < max_iter"
    and "residual_fn problem x0 = Some fx" and "jacobian_fn problem x0 = Some j"
    and "length fx = mat_nrows j"
    and "solve (add_lambda_diag (mat_mul (mat_transpose j) j) lambda)
                (mat_vec (mat_transpose j) (vneg fx)) = Some dx"
    and "length dx = length x0"
    and "residual_fn problem (vadd x0 dx) = Some fx_new"
    and "\<bar>vnorm fx - vnorm fx_new\<bar> < tol"
  shows "levenberg_marquardt problem solve x0 max_iter tol lambda gamma = Some x0"
  using assms
  by (simp add: levenberg_marquardt_def lm_loop.simps lm_step_def Let_def)

theorem levenberg_marquardt_stops_before_accepting_witness:
  "levenberg_marquardt offset_problem solve_1x1 [1] 5 10 1 2 = Some [1] \<and>
   residual_fn offset_problem [1] = Some [-2] \<and> residual_fn offset_problem [2] = Some [-1] \<and>
   vnorm [-1] < vnorm [-2]"
proof -
  have "levenberg_marquardt offset_problem solve_1x1 [1] 5 10 1 2 = Some [1]"
    by (rule levenberg_marquardt_stops_before_accepting [where j = "\<lparr>mcols = 1, mrows = [[1]]\<rparr>"
          and fx = "[-2]" and dx = "[1]" and fx_new = "[-1]"])
       (simp_all add: offset_problem_def solve_1x1_def add_lambda_diag_def linalg_defs vnorm_def upt_rec)
  then show ?thesis by (simp add: offset_problem_def vnorm_def)
qed

lemma lm_step_Some_residual:
  "lm_step problem solve tol gamma st = Some out \<Longrightarrow> \<exists>fx. residual_fn problem (lm_x st) = Some fx"
  by (auto simp: lm_step_def split: option.splits)

lemma lm_reach_damping_count:
  assumes "lm_reach problem solve tol gamma st0 k st" and "0 < gamma"
  shows "\<exists>a \<le> k. lm_lambda st = lm_lambda st0 * gamma ^ (k - a) / gamma ^ a \<and>
           (a = 0 \<longrightarrow> lm_x st = lm_x st0) \<and>
           (0 < a \<longrightarrow> (\<exists>r r0. residual_fn problem (lm_x st) = Some r \<and>
                              residual_fn problem (lm_x st0) = Some r0 \<and> vnorm r < vnorm r0))"
  using assms(1)
proof (induction rule: lm_reach.induct)
  case lm_reach_start
  then show ?case by simp
next
  case (lm_reach_step k st st')
  then obtain a where a: "a \<le> k" and lam: "lm_lambda st = lm_lambda st0 * gamma ^ (k - a) / gamma ^ a"
    and a0: "a = 0 \<longrightarrow> lm_x st = lm_x st0"
    and apos: "0 < a \<longrightarrow> (\<exists>r r0. residual_fn problem (lm_x st) = Some r \<and>
                              residual_fn problem (lm_x st0) = Some r0 \<and> vnorm r < vnorm r0)"
    by blast
  obtain fx where fx: "residual_fn problem (lm_x st) = Some fx"
    using lm_step_Some_residual [OF lm_reach_step.hyps(2)] by blast
  from lm_step_Continue [OF lm_reach_step.hyps(2) fx] show ?case
  proof
    assume rej: "lm_x st' = lm_x st \<and> lm_lambda st' = lm_lambda st * gamma"
    have "lm_lambda st' = lm_lambda st0 * gamma ^ (Suc k - a) / gamma ^ a"
      using rej lam a by (simp add: Suc_diff_le)
    then show ?thesis using rej a a0 apos by (intro exI [of _ a]) auto
  next
    assume "\<exists>fx'. residual_fn problem (lm_x st') = Some fx' \<and> vnorm fx' < vnorm fx \<and>
                   lm_lambda st' = lm_lambda st / gamma"
    then obtain fx' where fx': "residual_fn problem (lm_x st') = Some fx'" "vnorm fx' < vnorm fx"
      and acc: "lm_lambda st' = lm_lambda st / gamma" by blast
    have "lm_lambda st' = lm_lambda st0 * gamma ^ (Suc k - Suc a) / gamma ^ Suc a"
      using acc lam by simp
    moreover have "\<exists>r r0. residual_fn problem (lm_x st') = Some r \<and>
                     residual_fn problem (lm_x st0) = Some r0 \<and> vnorm r < vnorm r0"
    proof (cases "a = 0")
      case True
      then show ?thesis using a0 fx fx' by auto
    next
      case False
      then show ?thesis using apos fx fx' by fastforce
    qed
    ultimately show ?thesis using a by (intro exI [of _ "Suc a"]) auto
  qed
qed

text \<open>
  C5. The damping records the history of the run: after \<open>k\<close> passes of
  which \<open>a\<close> accepted a step, \<open>\<lambda> = \<lambda>\<^sub>0 \<gamma>\<^sup>k\<^sup>-\<^sup>a / \<gamma>\<^sup>a\<close>: rejected and singular
  passes multiply by \<open>\<gamma>\<close>, accepted ones divide, nothing clamps it; and
  \<open>a = 0\<close> exactly when the point has not moved (an accepted step lowers
  the residual, which never rises again).
\<close>

theorem lm_reach_damping:
  assumes "lm_reach problem solve tol gamma st0 k st" and "0 < gamma"
  shows "\<exists>a \<le> k. lm_lambda st = lm_lambda st0 * gamma ^ (k - a) / gamma ^ a \<and>
           (a = 0 \<longleftrightarrow> lm_x st = lm_x st0)"
proof -
  obtain a where "a \<le> k" and "lm_lambda st = lm_lambda st0 * gamma ^ (k - a) / gamma ^ a"
    and "a = 0 \<longrightarrow> lm_x st = lm_x st0"
    and "0 < a \<longrightarrow> (\<exists>r r0. residual_fn problem (lm_x st) = Some r \<and>
                              residual_fn problem (lm_x st0) = Some r0 \<and> vnorm r < vnorm r0)"
    using lm_reach_damping_count [OF assms] by blast
  then show ?thesis by (intro exI [of _ a]) auto
qed

theorem lm_reach_damping_witness:
  "lm_reach offset_problem solve_1x1 (1 / 1000) 2 \<lparr>lm_x = [1], lm_lambda = 1\<rparr> 1
     \<lparr>lm_x = [2], lm_lambda = 1 / 2\<rparr> \<and>
   (\<exists>a \<le> 1. (1 :: real) / 2 = 1 * 2 ^ (1 - a) / 2 ^ a \<and> (a = 0 \<longleftrightarrow> [2 :: real] = [1]))"
proof -
  have step: "lm_step offset_problem solve_1x1 (1 / 1000) 2 \<lparr>lm_x = [1], lm_lambda = 1\<rparr> =
      Some (Continue \<lparr>lm_x = [2], lm_lambda = 1 / 2\<rparr>)"
    by (simp add: lm_step_def offset_problem_def solve_1x1_def add_lambda_diag_def linalg_defs
                  vnorm_def upt_rec)
  have r: "lm_reach offset_problem solve_1x1 (1 / 1000) 2 \<lparr>lm_x = [1], lm_lambda = 1\<rparr> 1
     \<lparr>lm_x = [2], lm_lambda = 1 / 2\<rparr>"
    using lm_reach_step [OF lm_reach_start step] by simp
  from lm_reach_damping [OF r] r show ?thesis by simp
qed

subsection \<open>The damped normal equations\<close>

lemma mat_wf_add_lambda_diag [simp]: "mat_wf A \<Longrightarrow> mat_wf (add_lambda_diag A l)"
proof -
  have "mat_wf (fold (\<lambda>i m. mat_set m i i (mat_get m i i + l)) xs A)" if "mat_wf A" for xs A
    using that by (induction xs arbitrary: A) simp_all
  then show "mat_wf A \<Longrightarrow> mat_wf (add_lambda_diag A l)" by (simp add: add_lambda_diag_def)
qed

lemma add_lambda_diag_fold:
  assumes "mat_wf A" and "mcols A = mat_nrows A" and "k \<le> mat_nrows A"
  shows "mat_wf (fold (\<lambda>i m. mat_set m i i (mat_get m i i + l)) [0..<k] A) \<and>
         mcols (fold (\<lambda>i m. mat_set m i i (mat_get m i i + l)) [0..<k] A) = mcols A \<and>
         mat_nrows (fold (\<lambda>i m. mat_set m i i (mat_get m i i + l)) [0..<k] A) = mat_nrows A \<and>
         (\<forall>i j. i < mat_nrows A \<longrightarrow> j < mcols A \<longrightarrow>
            mat_get (fold (\<lambda>i m. mat_set m i i (mat_get m i i + l)) [0..<k] A) i j =
              mat_get A i j + (if i = j \<and> i < k then l else 0))"
  using assms(3)
proof (induction k)
  case 0
  then show ?case using assms(1) by simp
next
  case (Suc k)
  then show ?case using assms(2) by (auto simp: mat_get_set)
qed

lemma add_lambda_diag_sum:
  assumes "mat_wf A" and "mcols A = mat_nrows A"
  shows "add_lambda_diag A l = mat_add A (mat_smul (mat_identity (mat_nrows A)) l)"
proof -
  note fold = add_lambda_diag_fold [OF assms order_refl, of l]
  show ?thesis
    unfolding add_lambda_diag_def
  proof (rule mat_eqI)
    show "mat_wf (mat_add A (mat_smul (mat_identity (mat_nrows A)) l))"
      using assms by simp
    fix i j
    assume "i < mat_nrows (fold (\<lambda>i m. mat_set m i i (mat_get m i i + l)) [0..<mat_nrows A] A)"
      and "j < mcols (fold (\<lambda>i m. mat_set m i i (mat_get m i i + l)) [0..<mat_nrows A] A)"
    then show "mat_get (fold (\<lambda>i m. mat_set m i i (mat_get m i i + l)) [0..<mat_nrows A] A) i j =
               mat_get (mat_add A (mat_smul (mat_identity (mat_nrows A)) l)) i j"
      using fold assms by (simp add: mat_get_add mat_get_smul)
  qed (use fold assms in simp_all)
qed

lemma lm_step_moves:
  assumes "lm_step problem solve tol gamma st = Some (Continue st')" and "lm_x st' \<noteq> lm_x st"
    and "residual_fn problem (lm_x st) = Some fx" and "jacobian_fn problem (lm_x st) = Some j"
  shows "\<exists>dx. solve (add_lambda_diag (mat_mul (mat_transpose j) j) (lm_lambda st))
                   (mat_vec (mat_transpose j) (vneg fx)) = Some dx \<and>
              length dx = length (lm_x st) \<and> lm_x st' = vadd (lm_x st) dx"
  using assms by (auto simp: lm_step_def Let_def split: option.splits if_splits)

text \<open>
  C21. The damping loop \<open>for i in 0..nrows { jtj_with_lambda[(i, i)] += lambda_current }\<close>
  computes \<open>J\<^sup>T J + \<lambda> I\<close>: on a square well-formed matrix it equals
  the matrix plus \<open>\<lambda>\<close> times the identity.
\<close>

theorem add_lambda_diag_eq:
  assumes "mat_wf A" and "mcols A = mat_nrows A"
  shows "add_lambda_diag A l = mat_add A (mat_smul (mat_identity (mat_nrows A)) l)"
  using assms by (rule add_lambda_diag_sum)

theorem add_lambda_diag_eq_witness:
  "add_lambda_diag \<lparr>mcols = 2, mrows = [[1, 2], [3, 4]]\<rparr> 10 = \<lparr>mcols = 2, mrows = [[11, 2], [3, 14]]\<rparr>"
proof -
  have "mat_wf \<lparr>mcols = 2, mrows = [[1 :: real, 2], [3, 4]]\<rparr>"
       "mcols \<lparr>mcols = 2, mrows = [[1 :: real, 2], [3, 4]]\<rparr> = mat_nrows \<lparr>mcols = 2, mrows = [[1 :: real, 2], [3, 4]]\<rparr>"
    by (simp_all add: mat_wf_def mat_nrows_def)
  from add_lambda_diag_eq [OF this, of 10] show ?thesis
    by (simp add: mat_add_def mat_smul_def mat_identity_def mat_nrows_def upt_rec)
qed

text \<open>
  C22. Every pass of the loop that moves the parameter vector moves it by a
  solution of the damped normal equations \<open>(J\<^sup>T J + \<lambda> I) dx = -J\<^sup>T f\<close> at
  the current point, provided the linear solver returns solutions.
\<close>

theorem lm_step_normal_equations:
  assumes "\<forall>a b d. mat_wf a \<longrightarrow> solve a b = Some d \<longrightarrow> mat_vec a d = b"
    and "residual_fn problem (lm_x st) = Some fx" and "jacobian_fn problem (lm_x st) = Some j"
    and "lm_step problem solve tol gamma st = Some (Continue st')" and "lm_x st' \<noteq> lm_x st"
  shows "mat_vec (mat_add (mat_mul (mat_transpose j) j) (mat_smul (mat_identity (mcols j)) (lm_lambda st)))
                 (vsub (lm_x st') (lm_x st)) =
         mat_vec (mat_transpose j) (vneg fx)"
proof -
  obtain dx where dx: "solve (add_lambda_diag (mat_mul (mat_transpose j) j) (lm_lambda st))
                         (mat_vec (mat_transpose j) (vneg fx)) = Some dx"
      and len: "length dx = length (lm_x st)" and x': "lm_x st' = vadd (lm_x st) dx"
    using lm_step_moves [OF assms(4,5,2,3)] by blast
  have "add_lambda_diag (mat_mul (mat_transpose j) j) (lm_lambda st) =
          mat_add (mat_mul (mat_transpose j) j) (mat_smul (mat_identity (mcols j)) (lm_lambda st))"
    using add_lambda_diag_sum [of "mat_mul (mat_transpose j) j" "lm_lambda st"] by simp
  moreover have "mat_wf (add_lambda_diag (mat_mul (mat_transpose j) j) (lm_lambda st))"
    by simp
  ultimately show ?thesis using assms(1) dx len x' by (simp add: vsub_vadd_self)
qed

theorem lm_step_normal_equations_witness:
  "lm_step offset_problem solve_1x1 (1 / 1000) 2 \<lparr>lm_x = [1], lm_lambda = 1\<rparr> =
     Some (Continue \<lparr>lm_x = [2], lm_lambda = 1 / 2\<rparr>) \<and>
   mat_vec (mat_add (mat_mul (mat_transpose \<lparr>mcols = 1, mrows = [[1]]\<rparr>) \<lparr>mcols = 1, mrows = [[1]]\<rparr>)
                    (mat_smul (mat_identity 1) 1)) (vsub [2] [1]) =
   mat_vec (mat_transpose \<lparr>mcols = 1, mrows = [[1]]\<rparr>) (vneg [- 2])"
proof -
  have contract: "\<forall>a b d. mat_wf a \<longrightarrow> solve_1x1 a b = Some d \<longrightarrow> mat_vec a d = b"
    by (auto simp: solve_1x1_def mat_vec_def mat_get_def mat_nrows_def mat_wf_def length_Suc_conv
             split: if_splits)
  have step: "lm_step offset_problem solve_1x1 (1 / 1000) 2 \<lparr>lm_x = [1], lm_lambda = 1\<rparr> =
                Some (Continue \<lparr>lm_x = [2], lm_lambda = 1 / 2\<rparr>)"
    by (simp add: lm_step_def offset_problem_def solve_1x1_def add_lambda_diag_def linalg_defs
        mat_nrows_def vnorm_def upt_rec)
  have h: "residual_fn offset_problem (lm_x \<lparr>lm_x = [1 :: real], lm_lambda = 1\<rparr>) = Some [- 2]"
          "jacobian_fn offset_problem (lm_x \<lparr>lm_x = [1 :: real], lm_lambda = 1\<rparr>) = Some \<lparr>mcols = 1, mrows = [[1]]\<rparr>"
    by (simp_all add: offset_problem_def)
  show ?thesis
    using lm_step_normal_equations [OF contract h step] step by (simp add: vsub_vadd_self)
qed

subsection \<open>Strict descent\<close>

lemma lm_reach_descent:
  assumes "lm_reach problem solve tol gamma st0 k st" and "residual_fn problem (lm_x st0) = Some r0"
  shows "lm_x st = lm_x st0 \<or> (\<exists>r. residual_fn problem (lm_x st) = Some r \<and> vnorm r < vnorm r0)"
  using assms(1)
proof (induction rule: lm_reach.induct)
  case lm_reach_start
  then show ?case by simp
next
  case (lm_reach_step k st st')
  from lm_reach_step.IH show ?case
  proof
    assume same: "lm_x st = lm_x st0"
    show ?thesis
      using lm_step_Continue [OF lm_reach_step.hyps(2)] assms(2) same by auto
  next
    assume "\<exists>r. residual_fn problem (lm_x st) = Some r \<and> vnorm r < vnorm r0"
    then obtain r where r: "residual_fn problem (lm_x st) = Some r" "vnorm r < vnorm r0" by blast
    show ?thesis
      using lm_step_Continue [OF lm_reach_step.hyps(2) r(1)] r by auto
  qed
qed

text \<open>
  C25. Strict descent: if \<open>levenberg_marquardt\<close> returns anything other
  than the initial guess, the returned vector has a strictly smaller residual
  norm. Proved by rule induction on the reachable states \<open>lm_reach\<close>:
  every state either still holds the initial guess or a strictly better one.
\<close>

theorem levenberg_marquardt_strict_descent:
  assumes "levenberg_marquardt problem solve x0 max_iter tol lambda gamma = Some y"
    and "residual_fn problem x0 = Some r0" and "y \<noteq> x0"
  shows "\<exists>r. residual_fn problem y = Some r \<and> vnorm r < vnorm r0"
proof -
  obtain k st where reach: "lm_reach problem solve tol gamma \<lparr>lm_x = x0, lm_lambda = lambda\<rparr> k st"
      and y: "lm_x st = y"
    using lm_loop_reach [OF assms(1) [unfolded levenberg_marquardt_def]] by blast
  have "residual_fn problem (lm_x \<lparr>lm_x = x0, lm_lambda = lambda\<rparr>) = Some r0" using assms(2) by simp
  from lm_reach_descent [OF reach this] show ?thesis using y assms(3) by auto
qed

theorem levenberg_marquardt_strict_descent_witness:
  "levenberg_marquardt offset_problem solve_1x1 [1] 1 (1 / 1000) 1 2 = Some [2] \<and>
   residual_fn offset_problem [1] = Some [-2] \<and> [2] \<noteq> [1 :: real] \<and>
   (\<exists>r. residual_fn offset_problem [2] = Some r \<and> vnorm r < vnorm [-2])"
proof -
  have r0: "residual_fn offset_problem [1] = Some [-2]" by (simp add: offset_problem_def)
  show ?thesis
    using levenberg_marquardt_strict_descent [OF offset_problem_run r0] offset_problem_run r0 by simp
qed

subsection \<open>A singular system\<close>

text \<open>
  C31. A singular damped system (\<open>lu().solve\<close> returns \<open>None\<close>) is
  recovered locally, as the specification's \<open>SingularSystem\<close> requires: the
  pass keeps the parameter vector, multiplies \<open>\<lambda>\<close> by \<open>\<gamma>\<close> and continues.
\<close>

theorem lm_step_singular:
  assumes "residual_fn problem (lm_x st) = Some fx" and "jacobian_fn problem (lm_x st) = Some j"
    and "length fx = mat_nrows j"
    and "solve (add_lambda_diag (mat_mul (mat_transpose j) j) (lm_lambda st))
               (mat_vec (mat_transpose j) (vneg fx)) = None"
  shows "lm_step problem solve tol gamma st = Some (Continue (st\<lparr>lm_lambda := lm_lambda st * gamma\<rparr>))"
  using assms by (simp add: lm_step_def Let_def)

theorem lm_step_singular_witness:
  "lm_step offset_problem (\<lambda>a b. None) (1 / 1000) 2 \<lparr>lm_x = [1], lm_lambda = 1\<rparr> =
     Some (Continue \<lparr>lm_x = [1], lm_lambda = 2\<rparr>)"
proof -
  have h: "residual_fn offset_problem (lm_x \<lparr>lm_x = [1 :: real], lm_lambda = 1\<rparr>) = Some [- 2]"
    "jacobian_fn offset_problem (lm_x \<lparr>lm_x = [1 :: real], lm_lambda = 1\<rparr>) = Some \<lparr>mcols = 1, mrows = [[1]]\<rparr>"
    "length [- 2 :: real] = mat_nrows \<lparr>mcols = 1, mrows = [[1 :: real]]\<rparr>"
    by (simp_all add: offset_problem_def mat_nrows_def)
  show ?thesis
    using lm_step_singular [OF h, of "\<lambda>a b. None" "1 / 1000" 2] by simp
qed

subsection \<open>The damped matrix is nonsingular\<close>

lemma dot_damped_form:
  assumes "mat_wf j" and "length x = mcols j"
  shows "dot x (mat_vec (mat_add (mat_mul (mat_transpose j) j) (mat_smul (mat_identity (mcols j)) l)) x) =
           dot (mat_vec j x) (mat_vec j x) + l * dot x x"
proof -
  let ?n = "mcols j" and ?A = "mat_mul (mat_transpose j) j" and ?D = "mat_smul (mat_identity (mcols j)) l"
  have wfA: "mat_wf ?A" and wfD: "mat_wf ?D" by simp_all
  have row: "mat_vec (mat_add ?A ?D) x ! i = mat_vec ?A x ! i + l * x ! i" if "i < ?n" for i
  proof -
    have "mat_vec (mat_add ?A ?D) x ! i = (\<Sum>c<?n. (mat_get ?A i c + mat_get ?D i c) * x ! c)"
      using that assms wfA wfD by (simp add: mat_vec_sum mat_get_add)
    also have "\<dots> = (\<Sum>c<?n. mat_get ?A i c * x ! c) + (\<Sum>c<?n. mat_get ?D i c * x ! c)"
      by (simp add: sum.distrib algebra_simps)
    also have "(\<Sum>c<?n. mat_get ?D i c * x ! c) = (\<Sum>c<?n. if c = i then l * x ! i else 0)"
      using that by (intro sum.cong refl) (auto simp: mat_get_smul)
    also have "\<dots> = l * x ! i" using that by simp
    also have "(\<Sum>c<?n. mat_get ?A i c * x ! c) = mat_vec ?A x ! i"
      using that assms wfA by (simp add: mat_vec_sum)
    finally show ?thesis .
  qed
  have "dot x (mat_vec (mat_add ?A ?D) x) = (\<Sum>i<?n. x ! i * (mat_vec ?A x ! i + l * x ! i))"
    using assms by (simp add: dot_sum [of _ ?n] row)
  also have "\<dots> = dot x (mat_vec ?A x) + l * dot x x"
    using assms by (simp add: dot_sum [of _ ?n] algebra_simps sum.distrib sum_distrib_left)
  also have "mat_vec ?A x = mat_vec (mat_transpose j) (mat_vec j x)"
    using assms by (intro mat_vec_mul) simp_all
  also have "dot x (mat_vec (mat_transpose j) (mat_vec j x)) = dot (mat_vec j x) (mat_vec j x)"
    using assms by (intro dot_mat_vec_transpose) simp_all
  finally show ?thesis .
qed

lemma shape_add_lambda_diag [simp, shape_simps]:
  "mat_nrows (add_lambda_diag A l) = mat_nrows A" "mcols (add_lambda_diag A l) = mcols A"
proof -
  have "mat_nrows (fold (\<lambda>i m. mat_set m i i (mat_get m i i + l)) xs A) = mat_nrows A \<and>
        mcols (fold (\<lambda>i m. mat_set m i i (mat_get m i i + l)) xs A) = mcols A" for xs A
    by (induction xs arbitrary: A) (simp_all add: mat_set_def mat_nrows_def)
  then show "mat_nrows (add_lambda_diag A l) = mat_nrows A" "mcols (add_lambda_diag A l) = mcols A"
    by (simp_all add: add_lambda_diag_def)
qed

lemma damped_quadratic:
  assumes "mat_wf j" and "length x = mcols j"
  shows "dot x (mat_vec (add_lambda_diag (mat_mul (mat_transpose j) j) l) x) =
           dot (mat_vec j x) (mat_vec j x) + l * dot x x"
proof -
  have "add_lambda_diag (mat_mul (mat_transpose j) j) l =
          mat_add (mat_mul (mat_transpose j) j) (mat_smul (mat_identity (mcols j)) l)"
    using add_lambda_diag_sum [of "mat_mul (mat_transpose j) j" l] by simp
  then show ?thesis using dot_damped_form [OF assms, of l] by simp
qed

lemma damped_null_vector:
  assumes "mat_wf j" and "0 < l" and "length x = mcols j"
    and "mat_vec (add_lambda_diag (mat_mul (mat_transpose j) j) l) x = replicate (mcols j) 0"
  shows "x = replicate (mcols j) 0"
proof -
  have "dot (mat_vec j x) (mat_vec j x) + l * dot x x = 0"
    using damped_quadratic [OF assms(1,3), of l] assms(4) by simp
  moreover have "0 \<le> dot (mat_vec j x) (mat_vec j x)" "0 \<le> l * dot x x" using assms(2) by simp_all
  ultimately have "l * dot x x = 0" by linarith
  then have "dot x x = 0" using assms(2) by simp
  then show ?thesis using dot_self_eq_0 assms(3) by metis
qed

text \<open>
  C33. For \<open>\<lambda> > 0\<close> the damped matrix \<open>J\<^sup>T J + \<lambda> I\<close> that
  \<open>levenberg_marquardt\<close> builds is nonsingular: \<open>x\<^sup>T (J\<^sup>T J + \<lambda> I) x =
  |J x|\<^sup>2 + \<lambda> |x|\<^sup>2\<close>, so only \<open>x = 0\<close> solves the homogeneous system.
  Since \<open>\<lambda>\<close> stays positive (C5), the singular branch (C31) can only be taken
  through floating-point breakdown, never in exact arithmetic.
\<close>

theorem damped_system_nonsingular:
  assumes "mat_wf j" and "0 < l" and "length x = mcols j"
    and "mat_vec (add_lambda_diag (mat_mul (mat_transpose j) j) l) x = replicate (mcols j) 0"
  shows "x = replicate (mcols j) 0"
  using assms by (rule damped_null_vector)

theorem damped_system_nonsingular_witness:
  "mat_vec (add_lambda_diag (mat_mul (mat_transpose \<lparr>mcols = 2, mrows = [[1, 2]]\<rparr>) \<lparr>mcols = 2, mrows = [[1, 2]]\<rparr>) 1)
     [0, 0] = replicate (mcols \<lparr>mcols = 2, mrows = [[1 :: real, 2]]\<rparr>) 0 \<and>
   [0, 0 :: real] = replicate (mcols \<lparr>mcols = 2, mrows = [[1 :: real, 2]]\<rparr>) 0"
proof -
  have h: "mat_wf \<lparr>mcols = 2, mrows = [[1 :: real, 2]]\<rparr>" "length [0, 0 :: real] = mcols \<lparr>mcols = 2, mrows = [[1 :: real, 2]]\<rparr>"
    by (simp_all add: mat_wf_def)
  have e: "mat_vec (add_lambda_diag (mat_mul (mat_transpose \<lparr>mcols = 2, mrows = [[1, 2]]\<rparr>) \<lparr>mcols = 2, mrows = [[1, 2]]\<rparr>) 1)
     [0, 0] = replicate (mcols \<lparr>mcols = 2, mrows = [[1 :: real, 2]]\<rparr>) 0"
    by (simp add: mat_vec_def add_lambda_diag_def mat_mul_def mat_transpose_def mat_col_def mat_nrows_def
        mat_set_def mat_get_def upt_rec numeral_2_eq_2)
  have "[0, 0 :: real] = replicate (mcols \<lparr>mcols = 2, mrows = [[1 :: real, 2]]\<rparr>) 0"
    by (rule damped_system_nonsingular [OF h(1) _ h(2) e]) simp
  with e show ?thesis by (rule conjI)
qed

subsection \<open>The loop as a run of the step relation\<close>

text \<open>
  C35. \<open>levenberg_marquardt\<close> refines the state machine \<open>lm_reach\<close>: what
  it returns is the parameter vector of a state reached from the initial one
  by at most \<open>max_iter\<close> passes of \<open>lm_step\<close>.
\<close>

theorem levenberg_marquardt_run:
  assumes "levenberg_marquardt problem solve x0 max_iter tol lambda gamma = Some y"
  shows "\<exists>k st. lm_reach problem solve tol gamma \<lparr>lm_x = x0, lm_lambda = lambda\<rparr> k st \<and>
                k \<le> max_iter \<and> lm_x st = y"
  using lm_loop_reach [OF assms [unfolded levenberg_marquardt_def]] by simp

theorem levenberg_marquardt_run_witness:
  "levenberg_marquardt offset_problem solve_1x1 [1] 1 (1 / 1000) 1 2 = Some [2] \<and>
   (\<exists>k st. lm_reach offset_problem solve_1x1 (1 / 1000) 2 \<lparr>lm_x = [1], lm_lambda = 1\<rparr> k st \<and>
           k \<le> 1 \<and> lm_x st = [2])"
  using levenberg_marquardt_run [OF offset_problem_run] offset_problem_run by simp

subsection \<open>Rejections end\<close>

lemma dot_amgm:
  fixes l :: real
  shows "length x = length y \<Longrightarrow> 2 * l * dot x y \<le> l ^ 2 * dot x x + dot y y"
proof (induction x y rule: list_induct2)
  case Nil
  then show ?case by (simp add: dot_def)
next
  case (Cons a x b y)
  have "0 \<le> (l * a - b) ^ 2" by simp
  then have "2 * l * (a * b) \<le> l ^ 2 * (a * a) + b * b" by (simp add: power2_eq_square algebra_simps)
  with Cons.IH show ?case by (simp add: dot_def algebra_simps)
qed

text \<open>The damped step is short: \<open>\<lambda> |dx| \<le> |b|\<close>.\<close>

lemma damped_step_bound:
  assumes "mat_wf j" and "0 < l" and "length dx = mcols j"
    and "mat_vec (add_lambda_diag (mat_mul (mat_transpose j) j) l) dx = b"
  shows "l ^ 2 * dot dx dx \<le> dot b b"
proof -
  have q: "dot dx b = dot (mat_vec j dx) (mat_vec j dx) + l * dot dx dx"
    using damped_quadratic [OF assms(1,3), of l] assms(4) by simp
  have "length b = length dx"
    using assms(3,4) [symmetric] by (simp add: shape_simps)
  then have "2 * l * dot dx b \<le> l ^ 2 * dot dx dx + dot b b"
    using dot_amgm [of dx b l] by simp
  moreover have "l * dot dx dx \<le> dot dx b" using q by simp
  moreover have "2 * l * (l * dot dx dx) \<le> 2 * l * dot dx b"
    using \<open>l * dot dx dx \<le> dot dx b\<close> assms(2) by (intro mult_left_mono) simp_all
  ultimately have "2 * (l ^ 2 * dot dx dx) \<le> l ^ 2 * dot dx dx + dot b b"
    by (simp add: power2_eq_square algebra_simps)
  then show ?thesis by linarith
qed

text \<open>The pass ends the rejections: it stops the loop or moves the point.\<close>

lemma lm_reach_rejections:
  assumes "lm_dims problem solve (length (lm_x st)) m"
  shows "(\<exists>k' st'. lm_reach problem solve tol gamma st k' st' \<and> lm_x st' = lm_x st \<and>
            (lm_step problem solve tol gamma st' = Some Break \<or>
             (\<exists>st''. lm_step problem solve tol gamma st' = Some (Continue st'') \<and> lm_x st'' \<noteq> lm_x st))) \<or>
         lm_reach problem solve tol gamma st k (st\<lparr>lm_lambda := lm_lambda st * gamma ^ k\<rparr>)"
proof (induction k)
  case 0
  show ?case by (simp add: lm_reach_0_iff)
next
  case (Suc k)
  let ?st = "st\<lparr>lm_lambda := lm_lambda st * gamma ^ k\<rparr>"
  show ?case
  proof (cases "lm_reach problem solve tol gamma st k ?st")
    case False
    with Suc.IH show ?thesis by blast
  next
    case reach: True
    obtain out where out: "lm_step problem solve tol gamma ?st = Some out"
      using lm_step_defined [OF assms, of ?st] by auto
    show ?thesis
    proof (cases out)
      case Break
      then show ?thesis using reach out by (intro disjI1 exI [of _ k] exI [of _ ?st]) simp
    next
      case (Continue st'')
      show ?thesis
      proof (cases "lm_x st'' = lm_x st")
        case False
        then show ?thesis using reach out Continue by (intro disjI1 exI [of _ k] exI [of _ ?st]) auto
      next
        case True
        obtain fx where fx: "residual_fn problem (lm_x ?st) = Some fx"
          using out by (auto simp: lm_step_def split: option.splits)
        have "lm_lambda st'' = lm_lambda ?st * gamma"
          using lm_step_Continue [OF out [unfolded Continue] fx] True fx by auto
        then have "st'' = st\<lparr>lm_lambda := lm_lambda st * gamma ^ Suc k\<rparr>"
          using True by (intro lm_state.equality) (simp_all add: algebra_simps)
        then show ?thesis
          using lm_reach_step [OF reach out [unfolded Continue]] by simp
      qed
    qed
  qed
qed

lemma lm_step_breaks_at_large_damping:
  assumes dims: "lm_dims problem solve (length (lm_x st)) m" and solves: "lu_solves solve (length (lm_x st))"
    and j: "jacobian_fn problem (lm_x st) = Some j" "mat_wf j"
    and fx: "residual_fn problem (lm_x st) = Some fx"
    and near: "\<And>y. length y = length (lm_x st) \<Longrightarrow> vnorm (vsub y (lm_x st)) < d \<Longrightarrow>
                 \<exists>fy. residual_fn problem y = Some fy \<and> \<bar>vnorm fx - vnorm fy\<bar> < tol"
    and pos: "0 < d" "0 < lm_lambda st"
    and big: "dot (mat_vec (mat_transpose j) (vneg fx)) (mat_vec (mat_transpose j) (vneg fx))
                < (lm_lambda st * d) ^ 2"
  shows "lm_step problem solve tol gamma st = Some Break"
proof -
  let ?x = "lm_x st" and ?b = "mat_vec (mat_transpose j) (vneg fx)"
  let ?A = "add_lambda_diag (mat_mul (mat_transpose j) j) (lm_lambda st)"
  have shape: "length fx = mat_nrows j" "mcols j = length ?x"
    using dims fx j(1) unfolding lm_dims_def by fastforce+
  have "mat_wf ?A \<and> mat_nrows ?A = mcols j \<and> mcols ?A = mcols j \<and> length ?b = mcols j \<and>
        (\<forall>x. length x = mcols j \<and> mat_vec ?A x = replicate (mcols j) 0 \<longrightarrow> x = replicate (mcols j) 0)"
    using j(2) damped_null_vector [OF j(2) pos(2)] by (simp add: shape_simps)
  then have "\<exists>dx. solve ?A ?b = Some dx \<and> length dx = mcols j \<and> mat_vec ?A dx = ?b"
    using solves unfolding lu_solves_def shape(2) by blast
  then obtain dx where dx: "solve ?A ?b = Some dx" "length dx = mcols j" "mat_vec ?A dx = ?b"
    by blast
  have "lm_lambda st ^ 2 * dot dx dx < (lm_lambda st * d) ^ 2"
    using damped_step_bound [OF j(2) pos(2) dx(2,3)] big by linarith
  then have "dot dx dx < d ^ 2"
    using pos by (simp add: power_mult_distrib)
  then have "vnorm dx < d"
    using pos(1) real_sqrt_less_mono [of "dot dx dx" "d ^ 2"] unfolding vnorm_def by simp
  then obtain fy where fy: "residual_fn problem (vadd ?x dx) = Some fy" "\<bar>vnorm fx - vnorm fy\<bar> < tol"
    using near [of "vadd ?x dx"] vsub_vadd_self [of dx ?x] dx(2) shape(2) by auto
  show ?thesis
    using fx j(1) shape dx(1,2) fy by (simp add: lm_step_def Let_def)
qed

text \<open>
  C36. Liveness of the damping: the loop cannot reject steps forever. With
  a positive tolerance, a residual continuous at the current point and an
  LU solve that solves every nonsingular system of the problem's size, the
  passes that keep the point multiply \<open>\<lambda>\<close> by \<open>\<gamma> > 1\<close>, the damped step
  shrinks like \<open>|J\<^sup>T f| / \<lambda>\<close>, and after finitely many passes the loop
  either stops on the tolerance test or moves the point.
\<close>

theorem lm_rejections_end:
  assumes dims: "lm_dims problem solve (length (lm_x st)) m" and solves: "lu_solves solve (length (lm_x st))"
    and j: "jacobian_fn problem (lm_x st) = Some j" "mat_wf j"
    and cont: "residual_continuous_at problem (lm_x st)"
    and pos: "0 < tol" "0 < lm_lambda st" and g: "1 < gamma"
  shows "\<exists>k st'. lm_reach problem solve tol gamma st k st' \<and> lm_x st' = lm_x st \<and>
           (lm_step problem solve tol gamma st' = Some Break \<or>
            (\<exists>st''. lm_step problem solve tol gamma st' = Some (Continue st'') \<and> lm_x st'' \<noteq> lm_x st))"
proof -
  obtain fx d where fx: "residual_fn problem (lm_x st) = Some fx" and d: "0 < d"
    and near: "\<And>y. length y = length (lm_x st) \<Longrightarrow> vnorm (vsub y (lm_x st)) < d \<Longrightarrow>
                 \<exists>fy. residual_fn problem y = Some fy \<and> \<bar>vnorm fx - vnorm fy\<bar> < tol"
    using cont pos(1) unfolding residual_continuous_at_def by blast
  let ?b = "mat_vec (mat_transpose j) (vneg fx)"
  obtain k where "vnorm ?b / d / lm_lambda st < gamma ^ k"
    using real_arch_pow [OF g, of "vnorm ?b / d / lm_lambda st"] by (elim exE)
  then have "vnorm ?b < lm_lambda st * gamma ^ k * d"
    using d pos(2) by (simp add: divide_less_eq algebra_simps)
  then have big: "dot ?b ?b < (lm_lambda st * gamma ^ k * d) ^ 2"
    using power_strict_mono [of "vnorm ?b" _ 2] by (simp add: vnorm_sq [symmetric])
  let ?st = "st\<lparr>lm_lambda := lm_lambda st * gamma ^ k\<rparr>"
  have "lm_step problem solve tol gamma ?st = Some Break"
  proof (rule lm_step_breaks_at_large_damping [where m = m and j = j and fx = fx and d = d])
    show "lm_dims problem solve (length (lm_x ?st)) m" using dims by simp
    show "residual_fn problem (lm_x ?st) = Some fx" "jacobian_fn problem (lm_x ?st) = Some j"
      using fx j by simp_all
    show "\<exists>fy. residual_fn problem y = Some fy \<and> \<bar>vnorm fx - vnorm fy\<bar> < tol"
      if "length y = length (lm_x ?st)" "vnorm (vsub y (lm_x ?st)) < d" for y
      using near that by simp
    show "lu_solves solve (length (lm_x ?st))" using solves by simp
  qed (use j(2) d pos(2) g big in simp_all)
  moreover note lm_reach_rejections [OF dims, of tol gamma k]
  ultimately show ?thesis by force
qed

lemma solve_1x1_solves: "lu_solves solve_1x1 1"
  unfolding lu_solves_def
proof (intro allI impI)
  fix a :: mat and b :: vec
  assume h: "mat_wf a \<and> mat_nrows a = 1 \<and> mcols a = 1 \<and> length b = 1 \<and>
             (\<forall>x. length x = 1 \<and> mat_vec a x = replicate 1 0 \<longrightarrow> x = replicate 1 0)"
  then obtain r where rows: "mrows a = [r]" "length r = 1"
    by (auto simp: mat_wf_def mat_nrows_def length_Suc_conv)
  then obtain c where c: "mrows a = [[c]]" by (auto simp: length_Suc_conv)
  obtain b0 where b: "b = [b0]" using h by (auto simp: length_Suc_conv)
  have "c \<noteq> 0"
  proof
    assume "c = 0"
    then have "length [1 :: real] = 1 \<and> mat_vec a [1] = replicate 1 0" by (simp add: mat_vec_def c dot_def)
    with h have "[1 :: real] = replicate 1 0" by blast
    then show False by simp
  qed
  then show "\<exists>d. solve_1x1 a b = Some d \<and> length d = 1 \<and> mat_vec a d = b"
    using h by (simp add: solve_1x1_def mat_get_def mat_vec_def dot_def c b mat_nrows_def)
qed

lemma vnorm_single [simp]: "vnorm [a] = \<bar>a\<bar>"
  by (simp add: vnorm_def dot_def real_sqrt_abs2)

lemma offset_problem_continuous: "residual_continuous_at offset_problem [1]"
proof -
  have "\<exists>d>0. \<forall>y. length y = 1 \<and> vnorm (vsub y [1]) < d \<longrightarrow>
          (\<exists>fy. residual_fn offset_problem y = Some fy \<and> \<bar>vnorm [-2] - vnorm fy\<bar> < e)"
    if e: "0 < e" for e
  proof -
    have "\<exists>fy. residual_fn offset_problem y = Some fy \<and> \<bar>vnorm [-2] - vnorm fy\<bar> < e"
      if y: "length y = 1" "vnorm (vsub y [1]) < e" for y
    proof -
      obtain y0 where y0: "y = [y0]" using y(1) by (auto simp: length_Suc_conv)
      have "\<bar>y0 - 1\<bar> < e" using y(2) by (simp add: y0 vsub_def)
      then have "\<bar>2 - \<bar>y0 - 3\<bar>\<bar> < e" by arith
      then show ?thesis by (simp add: y0 offset_problem_def)
    qed
    with e show ?thesis by blast
  qed
  then show ?thesis unfolding residual_continuous_at_def by (simp add: offset_problem_def)
qed

theorem lm_rejections_end_witness:
  "\<exists>k st'. lm_reach offset_problem solve_1x1 (1 / 1000) 10 \<lparr>lm_x = [1], lm_lambda = 1 / 1000\<rparr> k st' \<and>
     lm_x st' = [1] \<and>
     (lm_step offset_problem solve_1x1 (1 / 1000) 10 st' = Some Break \<or>
      (\<exists>st''. lm_step offset_problem solve_1x1 (1 / 1000) 10 st' = Some (Continue st'') \<and> lm_x st'' \<noteq> [1]))"
  using lm_rejections_end [of offset_problem solve_1x1 "\<lparr>lm_x = [1], lm_lambda = 1 / 1000\<rparr>" 1
      "\<lparr>mcols = 1, mrows = [[1]]\<rparr>" "1 / 1000" 10]
    offset_problem_dims solve_1x1_solves offset_problem_continuous
  by (simp add: offset_problem_def mat_wf_def)

end
