(* ===== verification/Calibration.thy ===== *)
theory Calibration
  imports Lie Projection LM
begin

text \<open>
  The calibration problem of \<open>src/src/optimize.rs\<close> (lines 150--268): the
  struct \<open>Calibration\<close> holds the target points (three-vectors in the model
  frame) and one list of observed pixels (two-vectors) per image. Its
  \<open>decode_params\<close> splits the flat parameter vector into the camera model
  (the first four entries) and one pose per image (six entries each, passed
  through \<open>exp_map\<close>); its \<open>LMProblem\<close> implementation assembles the residual
  vector and the Jacobian matrix two rows per (image, target point) pair.
  The nested \<open>for\<close> loops with their running \<open>residual_idx\<close> are the recursive
  functions \<open>residual_points\<close>/\<open>residual_images\<close> and
  \<open>jacobian_points\<close>/\<open>jacobian_images\<close>, each carrying the vector or matrix and
  the index; every \<open>fixed_view\<close> and \<open>fixed_view_mut\<close> on a dynamic vector or
  matrix is bounds-checked (\<open>None\<close> for the panic).
\<close>

record calibration =
  model_pts :: "vec list"
  image_pts_set :: "vec list list"

definition decode_params :: "calibration \<Rightarrow> vec \<Rightarrow> (vec \<times> iso list) option" where
  "decode_params cal param =
     (case fixed_view param 0 4 of
        None \<Rightarrow> None
      | Some camera_model \<Rightarrow>
          (case those (map (\<lambda>i. map_option exp_map (fixed_view param (4 + 6 * i) 6))
                           [0..<length (image_pts_set cal)]) of
             None \<Rightarrow> None
           | Some transforms \<Rightarrow> Some (camera_model, transforms)))"

text \<open>The inner loop of \<open>residual\<close>: one image, its observations zipped with the target points.\<close>

fun residual_points :: "vec \<Rightarrow> iso \<Rightarrow> (vec \<times> vec) list \<Rightarrow> vec \<times> nat \<Rightarrow> (vec \<times> nat) option" where
  "residual_points camera_model transform [] acc = Some acc"
| "residual_points camera_model transform ((observed_image_pt, target_pt) # pts) (residual, residual_idx) =
     (let transformed_point = iso_apply transform target_pt;
          projected_pt = project camera_model transformed_point;
          individual_residual = vsub projected_pt observed_image_pt
      in case vec_copy_block residual residual_idx individual_residual of
           None \<Rightarrow> None
         | Some residual' \<Rightarrow> residual_points camera_model transform pts (residual', residual_idx + 2))"

text \<open>The outer loop: the observation lists zipped with the decoded transforms.\<close>

fun residual_images :: "vec \<Rightarrow> vec list \<Rightarrow> (vec list \<times> iso) list \<Rightarrow> vec \<times> nat \<Rightarrow> (vec \<times> nat) option" where
  "residual_images camera_model model [] acc = Some acc"
| "residual_images camera_model model ((image_pts, transform) # imgs) acc =
     (case residual_points camera_model transform (zip image_pts model) acc of
        None \<Rightarrow> None
      | Some acc' \<Rightarrow> residual_images camera_model model imgs acc')"

definition residual :: "calibration \<Rightarrow> vec \<Rightarrow> vec option" where
  "residual cal p =
     (case decode_params cal p of
        None \<Rightarrow> None
      | Some (camera_model, transforms) \<Rightarrow>
          (let num_images = length (image_pts_set cal);
               num_target_points = length (model_pts cal);
               num_residuals = num_images * num_target_points
           in map_option fst
                (residual_images camera_model (model_pts cal) (zip (image_pts_set cal) transforms)
                   (replicate (num_residuals * 2) 0, 0))))"

text \<open>The inner loop of \<open>jacobian\<close>: one transform (number \<open>tform_idx\<close>), every target point.\<close>

fun jacobian_points :: "vec \<Rightarrow> iso \<Rightarrow> nat \<Rightarrow> vec list \<Rightarrow> mat \<times> nat \<Rightarrow> (mat \<times> nat) option" where
  "jacobian_points camera_model transform tform_idx [] acc = Some acc"
| "jacobian_points camera_model transform tform_idx (target_pt # pts) (jac, residual_idx) =
     (let transformed_point = iso_apply transform target_pt
      in case mat_copy_block jac residual_idx 0 (proj_jacobian_wrt_params transformed_point) of
           None \<Rightarrow> None
         | Some jac' \<Rightarrow>
             (let proj_jac_wrt_point = proj_jacobian_wrt_point camera_model transformed_point;
                  transform_jacobian_wrt_transform = exp_map_jacobian transformed_point
              in case mat_copy_block jac' residual_idx (4 + tform_idx * 6)
                        (mat_mul proj_jac_wrt_point transform_jacobian_wrt_transform) of
                   None \<Rightarrow> None
                 | Some jac'' \<Rightarrow>
                     jacobian_points camera_model transform tform_idx pts (jac'', residual_idx + 2)))"

text \<open>The outer loop: the transforms, enumerated.\<close>

fun jacobian_images :: "vec \<Rightarrow> vec list \<Rightarrow> nat \<Rightarrow> iso list \<Rightarrow> mat \<times> nat \<Rightarrow> (mat \<times> nat) option" where
  "jacobian_images camera_model model tform_idx [] acc = Some acc"
| "jacobian_images camera_model model tform_idx (transform # transforms) acc =
     (case jacobian_points camera_model transform tform_idx model acc of
        None \<Rightarrow> None
      | Some acc' \<Rightarrow> jacobian_images camera_model model (Suc tform_idx) transforms acc')"

definition jacobian :: "calibration \<Rightarrow> vec \<Rightarrow> mat option" where
  "jacobian cal p =
     (case decode_params cal p of
        None \<Rightarrow> None
      | Some (camera_model, transforms) \<Rightarrow>
          (let num_images = length (image_pts_set cal);
               num_target_points = length (model_pts cal);
               num_residuals = num_images * num_target_points;
               num_unknowns = 6 * num_images + 4
           in map_option fst
                (jacobian_images camera_model (model_pts cal) 0 transforms
                   (mat_zeros (num_residuals * 2) num_unknowns, 0))))"

text \<open>\<open>impl lm::LMProblem for Calibration\<close>.\<close>

definition calibration_problem :: "calibration \<Rightarrow> lm_problem" where
  "calibration_problem cal = \<lparr>residual_fn = residual cal, jacobian_fn = jacobian cal\<rparr>"

text \<open>
  A small synthetic scene in the spirit of the test: camera \<open>(540, 540, 320, 240)\<close>,
  two target points, one image taken three metres in front of the target.
\<close>

definition example_cal :: calibration where
  "example_cal = \<lparr>model_pts = [[0, 0, 0], [1, 0, 0]], image_pts_set = [[[320, 240], [500, 240]]]\<rparr>"

definition example_param :: vec where
  "example_param = [540, 540, 320, 240, 0, 0, 3, 0, 0, 0]"

text \<open>
  A scene whose first image misses the observation of the second target
  point: camera \<open>(1, 1, 0, 0)\<close>, both images one metre in front of the target.
\<close>

definition misaligned_cal :: calibration where
  "misaligned_cal = \<lparr>model_pts = [[0, 0, 0], [1, 0, 0]], image_pts_set = [[[0, 0]], [[5, 0], [0, 0]]]\<rparr>"

definition misaligned_param :: vec where
  "misaligned_param = [1, 1, 0, 0, 0, 0, 1, 0, 0, 0, 0, 0, 1, 0, 0, 0]"

text \<open>The example scene seen twice: two images, both complete.\<close>

definition two_image_cal :: calibration where
  "two_image_cal = \<lparr>model_pts = [[0, 0, 0], [1, 0, 0]],
                    image_pts_set = [[[320, 240], [500, 240]], [[320, 240], [500, 240]]]\<rparr>"

definition two_image_param :: vec where
  "two_image_param = [540, 540, 320, 240, 0, 0, 3, 0, 0, 0, 0, 0, 3, 0, 0, 0]"

subsection \<open>Reference forms\<close>

text \<open>
  Well-formed input, as the Rust types guarantee it: target points are
  \<open>Point3\<close>, observations \<open>Point2\<close>.
\<close>

definition calibration_wf :: "calibration \<Rightarrow> bool" where
  "calibration_wf cal \<longleftrightarrow>
     list_all (\<lambda>q. length q = 3) (model_pts cal) \<and>
     list_all (list_all (\<lambda>ob. length ob = 2)) (image_pts_set cal)"

text \<open>The pose of image \<open>i\<close> and the camera model, as read from the parameter vector.\<close>

definition pose_of :: "vec \<Rightarrow> nat \<Rightarrow> iso" where
  "pose_of p i = exp_map (take 6 (drop (4 + 6 * i) p))"

definition point_residual :: "vec \<Rightarrow> iso \<Rightarrow> vec \<times> vec \<Rightarrow> vec" where
  "point_residual camera_model transform obs_tp =
     vsub (project camera_model (iso_apply transform (snd obs_tp))) (fst obs_tp)"

text \<open>
  The residual entries of a list of (observation list, transform) pairs, in
  the order the loops produce them: image by image, and within an image the
  observations zipped with the target points.
\<close>

definition image_residuals :: "vec \<Rightarrow> vec list \<Rightarrow> (vec list \<times> iso) list \<Rightarrow> vec" where
  "image_residuals camera_model model imgs =
     concat (map (\<lambda>img. concat (map (point_residual camera_model (snd img)) (zip (fst img) model))) imgs)"

text \<open>
  The two Jacobian rows of one target point under transform number \<open>t\<close>,
  for \<open>n\<close> unknowns: the intrinsic partials in columns \<open>[0, 4)\<close>, the pose
  partials in columns \<open>[4 + 6 t, 10 + 6 t)\<close>, zeros elsewhere; and the rows of
  all images from transform number \<open>t\<close> on.
\<close>

definition jac_point_rows :: "vec \<Rightarrow> iso \<Rightarrow> nat \<Rightarrow> nat \<Rightarrow> vec \<Rightarrow> real list list" where
  "jac_point_rows camera_model transform t n target_pt =
     (let q = iso_apply transform target_pt
      in map2 (\<lambda>ra rc. ra @ replicate (6 * t) 0 @ rc @ replicate (n - (10 + 6 * t)) 0)
           (mrows (proj_jacobian_wrt_params q))
           (mrows (mat_mul (proj_jacobian_wrt_point camera_model q) (exp_map_jacobian q))))"

fun jac_rows_from :: "vec \<Rightarrow> vec list \<Rightarrow> nat \<Rightarrow> iso list \<Rightarrow> nat \<Rightarrow> real list list" where
  "jac_rows_from camera_model model t [] n = []"
| "jac_rows_from camera_model model t (transform # transforms) n =
     concat (map (jac_point_rows camera_model transform t n) model) @
     jac_rows_from camera_model model (Suc t) transforms n"

subsection \<open>Decoding the parameter vector\<close>

lemma those_map_Some:
  "(\<And>x. x \<in> set xs \<Longrightarrow> f x \<noteq> None) \<Longrightarrow> those (map f xs) = Some (map (\<lambda>x. the (f x)) xs)"
  by (induction xs) (auto split: option.split)

lemma those_map_None: "x \<in> set xs \<Longrightarrow> f x = None \<Longrightarrow> those (map f xs) = None"
  by (induction xs) (auto split: option.splits)

lemma decode_params_Some:
  assumes "4 + 6 * length (image_pts_set cal) \<le> length p"
  shows "decode_params cal p = Some (take 4 p, map (pose_of p) [0..<length (image_pts_set cal)])"
proof -
  have "those (map (\<lambda>i. map_option exp_map (fixed_view p (4 + 6 * i) 6))
                   [0..<length (image_pts_set cal)]) =
        Some (map (pose_of p) [0..<length (image_pts_set cal)])"
    using assms by (subst those_map_Some) (auto simp: fixed_view_def pose_of_def)
  then show ?thesis using assms by (simp add: decode_params_def fixed_view_def)
qed

lemma decode_params_None:
  assumes "length p < 4 + 6 * length (image_pts_set cal)"
  shows "decode_params cal p = None"
proof (cases "image_pts_set cal = []")
  case True
  with assms show ?thesis by (simp add: decode_params_def fixed_view_def)
next
  case False
  let ?m = "length (image_pts_set cal) - 1"
  have "?m \<in> set [0..<length (image_pts_set cal)]" using False by simp
  moreover have "map_option exp_map (fixed_view p (4 + 6 * ?m) 6) = None"
    using assms False by (simp add: fixed_view_def algebra_simps)
  ultimately show ?thesis
    by (simp add: decode_params_def those_map_None split: option.splits)
qed

subsection \<open>Writing blocks\<close>

lemma vec_write_block_append:
  assumes "off + length a + length b \<le> length v"
  shows "vec_write_block (vec_write_block v off a) (off + length a) b = vec_write_block v off (a @ b)"
proof -
  have "length v \<le> off \<Longrightarrow> a = []" using assms by (cases a) auto
  then show ?thesis using assms by (auto simp: vec_write_block_def min_def ac_simps)
qed

lemma vec_write_block_over:
  "length u = length w \<Longrightarrow> vec_write_block (xs @ u @ zs) (length xs) w = xs @ w @ zs"
  by (simp add: vec_write_block_def)

lemma vec_write_block_Nil [simp]: "vec_write_block v off [] = v"
  by (simp add: vec_write_block_def)

subsection \<open>The residual loops\<close>

lemma length_point_residual [simp]:
  "length (fst obs_tp) = 2 \<Longrightarrow> length (point_residual c T obs_tp) = 2"
  by (simp add: point_residual_def)

lemma residual_points_eq:
  assumes "list_all (\<lambda>ot. length (fst ot) = 2) pts"
    and "idx + 2 * length pts \<le> length res"
  shows "residual_points camera_model transform pts (res, idx) =
           Some (vec_write_block res idx (concat (map (point_residual camera_model transform) pts)),
                 idx + 2 * length pts)"
  using assms
proof (induction pts arbitrary: res idx)
  case Nil
  then show ?case by simp
next
  case (Cons ot pts)
  obtain obs tp where ot: "ot = (obs, tp)" by (cases ot)
  let ?b = "point_residual camera_model transform (obs, tp)"
  have lb: "length ?b = 2" using Cons.prems(1) ot by simp
  have b: "vsub (project camera_model (iso_apply transform tp)) obs = ?b"
    by (simp add: point_residual_def)
  have fits: "idx + 2 \<le> length res" using Cons.prems(2) by simp
  have IH: "residual_points camera_model transform pts (vec_write_block res idx ?b, idx + 2) =
      Some (vec_write_block (vec_write_block res idx ?b) (idx + 2)
              (concat (map (point_residual camera_model transform) pts)), idx + 2 + 2 * length pts)"
    using Cons.prems lb fits by (intro Cons.IH) (simp_all add: ot)
  have len: "length (concat (map (point_residual camera_model transform) pts)) = 2 * length pts"
    using Cons.prems(1) by (induction pts) auto
  have "vec_write_block (vec_write_block res idx ?b) (idx + 2)
          (concat (map (point_residual camera_model transform) pts)) =
        vec_write_block res idx (?b @ concat (map (point_residual camera_model transform) pts))"
    using vec_write_block_append [of idx ?b "concat (map (point_residual camera_model transform) pts)" res]
      Cons.prems(2) lb len by simp
  then show ?case
    using IH lb fits by (simp add: ot b Let_def vec_copy_block_def)
qed

lemma length_concat_point_residual:
  "list_all (\<lambda>ot. length (fst ot) = 2) pts \<Longrightarrow>
   length (concat (map (point_residual c T) pts)) = 2 * length pts"
  by (induction pts) auto

lemma residual_images_eq:
  assumes "list_all (\<lambda>img. list_all (\<lambda>ob. length ob = 2) (fst img)) imgs"
    and "idx + length (image_residuals camera_model model imgs) \<le> length res"
  shows "residual_images camera_model model imgs (res, idx) =
           Some (vec_write_block res idx (image_residuals camera_model model imgs),
                 idx + length (image_residuals camera_model model imgs))"
  using assms
proof (induction imgs arbitrary: res idx)
  case Nil
  then show ?case by (simp add: image_residuals_def)
next
  case (Cons img imgs)
  obtain obs T where img: "img = (obs, T)" by (cases img)
  let ?zs = "zip obs model"
  let ?b = "concat (map (point_residual camera_model T) ?zs)"
  let ?rest = "image_residuals camera_model model imgs"
  have wf: "list_all (\<lambda>ot. length (fst ot) = 2) ?zs"
    using Cons.prems(1) img by (auto simp: list_all_iff dest: set_zip_leftD)
  have lb: "length ?b = 2 * length ?zs" using wf by (rule length_concat_point_residual)
  have all: "image_residuals camera_model model (img # imgs) = ?b @ ?rest"
    by (simp add: image_residuals_def img)
  have pts: "residual_points camera_model T ?zs (res, idx) =
               Some (vec_write_block res idx ?b, idx + 2 * length ?zs)"
    using wf Cons.prems(2) lb all by (intro residual_points_eq) simp_all
  have IH: "residual_images camera_model model imgs (vec_write_block res idx ?b, idx + length ?b) =
              Some (vec_write_block (vec_write_block res idx ?b) (idx + length ?b) ?rest,
                    idx + length ?b + length ?rest)"
    using Cons.prems all by (intro Cons.IH) (simp_all add: img)
  have "vec_write_block (vec_write_block res idx ?b) (idx + length ?b) ?rest =
        vec_write_block res idx (?b @ ?rest)"
    using Cons.prems(2) all by (intro vec_write_block_append) simp
  then show ?case using pts IH lb all by (simp add: img)
qed

lemma length_image_residuals_le:
  assumes "list_all (\<lambda>img. list_all (\<lambda>ob. length ob = 2) (fst img)) imgs"
  shows "length (image_residuals camera_model model imgs) \<le> 2 * (length imgs * length model)"
  using assms
proof (induction imgs)
  case Nil
  then show ?case by (simp add: image_residuals_def)
next
  case (Cons img imgs)
  have wf: "list_all (\<lambda>ot. length (fst ot) = 2) (zip (fst img) model)"
    using Cons.prems by (auto simp: list_all_iff dest: set_zip_leftD)
  have "length (concat (map (point_residual camera_model (snd img)) (zip (fst img) model)))
          \<le> 2 * length model"
    using length_concat_point_residual [OF wf] by simp
  with Cons show ?case by (simp add: image_residuals_def)
qed

lemma residual_eq:
  assumes "calibration_wf cal" and "4 + 6 * length (image_pts_set cal) \<le> length p"
  shows "residual cal p =
           Some (vec_write_block (replicate (2 * (length (image_pts_set cal) * length (model_pts cal))) 0) 0
                   (image_residuals (take 4 p) (model_pts cal)
                      (zip (image_pts_set cal) (map (pose_of p) [0..<length (image_pts_set cal)]))))"
proof -
  let ?imgs = "zip (image_pts_set cal) (map (pose_of p) [0..<length (image_pts_set cal)])"
  have wf: "list_all (\<lambda>img. list_all (\<lambda>ob. length ob = 2) (fst img)) ?imgs"
    using assms(1) by (auto simp: calibration_wf_def list_all_iff dest: set_zip_leftD)
  have le: "length (image_residuals (take 4 p) (model_pts cal) ?imgs)
              \<le> 2 * (length (image_pts_set cal) * length (model_pts cal))"
    using length_image_residuals_le [OF wf] by simp
  show ?thesis
    using assms(2) residual_images_eq [OF wf, of 0] le
    by (simp add: residual_def decode_params_Some Let_def mult.commute)
qed

subsection \<open>The Jacobian loops\<close>

lemma exp_map_jacobian_shape [simp, shape_simps]:
  "mat_nrows (exp_map_jacobian v) = 3" "mcols (exp_map_jacobian v) = 6"
  by (simp_all add: exp_map_jacobian_def)

lemma length_jac_point_rows [simp]: "length (jac_point_rows c T t n q) = 2"
  by (simp add: jac_point_rows_def Let_def proj_jacobian_wrt_params_def proj_jacobian_wrt_point_def
                mat_mul_def)

lemma row_write:
  assumes "length a = 4" and "length c = 6" and "10 + 6 * t \<le> n"
  shows "take (4 + t * 6) (a @ drop 4 (replicate n 0)) @ c @
           drop (10 + t * 6) (a @ drop 4 (replicate n 0)) =
         a @ replicate (6 * t) (0 :: real) @ c @ replicate (n - (10 + 6 * t)) 0"
  using assms by (simp add: min_def mult.commute)

lemma jac_point_rows_write:
  assumes "10 + 6 * t \<le> n"
  shows "map2 (\<lambda>row brow. take (4 + t * 6) row @ brow @ drop (10 + t * 6) row)
           (map2 (\<lambda>row brow. brow @ drop 4 row) [replicate n 0, replicate n 0]
              (mrows (proj_jacobian_wrt_params (iso_apply T q))))
           (mrows (mat_mul (proj_jacobian_wrt_point c (iso_apply T q)) (exp_map_jacobian (iso_apply T q))))
         = jac_point_rows c T t n q"
proof -
  let ?q = "iso_apply T q"
  obtain a0 a1 where a: "mrows (proj_jacobian_wrt_params ?q) = [a0, a1]" "length a0 = 4" "length a1 = 4"
    by (simp add: proj_jacobian_wrt_params_def)
  obtain c0 c1 where c: "mrows (mat_mul (proj_jacobian_wrt_point c ?q) (exp_map_jacobian ?q)) = [c0, c1]"
      "length c0 = 6" "length c1 = 6"
    by (simp add: mat_mul_def proj_jacobian_wrt_point_def)
  show ?thesis
    using assms by (simp add: jac_point_rows_def a c row_write)
qed

lemma jacobian_points_rows:
  assumes "mrows jac = pre @ replicate k (replicate n 0)" and "mcols jac = n"
    and "2 * length pts \<le> k" and "10 + 6 * t \<le> n"
  shows "jacobian_points c T t pts (jac, length pre) =
           Some (\<lparr>mcols = n, mrows = pre @ concat (map (jac_point_rows c T t n) pts) @
                                     replicate (k - 2 * length pts) (replicate n 0)\<rparr>,
                 length pre + 2 * length pts)"
  using assms
proof (induction pts arbitrary: jac pre k)
  case Nil
  then show ?case by (cases jac) simp
next
  case (Cons tp pts)
  let ?q = "iso_apply T tp"
  let ?A = "proj_jacobian_wrt_params ?q"
  let ?C = "mat_mul (proj_jacobian_wrt_point c ?q) (exp_map_jacobian ?q)"
  let ?z = "replicate n (0 :: real)"
  obtain k' where k: "k = Suc (Suc k')" "2 * length pts \<le> k'"
    using Cons.prems(3) by (cases k; cases "k - 1") auto
  have rows: "mrows jac = pre @ [?z, ?z] @ replicate k' ?z"
    using Cons.prems(1) k by simp
  have nr: "mat_nrows jac = length pre + Suc (Suc k')" using rows by (simp add: mat_nrows_def)
  define jac1 where "jac1 = mat_write_block jac (length pre) 0 ?A"
  have rows1: "mrows jac1 = pre @ map2 (\<lambda>row brow. take 0 row @ brow @ drop (0 + 4) row) [?z, ?z] (mrows ?A)
                            @ replicate k' ?z"
    unfolding jac1_def by (subst mrows_write_block_split [OF rows]) simp_all
  have c1: "mcols jac1 = n" "mat_nrows jac1 = length pre + Suc (Suc k')"
    using Cons.prems(2) nr by (simp_all add: jac1_def)
  define jac2 where "jac2 = mat_write_block jac1 (length pre) (4 + t * 6) ?C"
  have lA: "length (mrows ?A) = 2" by (simp add: proj_jacobian_wrt_params_def)
  have rows2: "mrows jac2 = pre @ jac_point_rows c T t n tp @ replicate k' ?z"
    unfolding jac2_def
    by (subst mrows_write_block_split [OF rows1])
       (simp_all add: jac_point_rows_write Cons.prems(4) lA mat_nrows_def [symmetric])
  have c2: "mcols jac2 = n" using c1 by (simp add: jac2_def)
  have IH: "jacobian_points c T t pts (jac2, length (pre @ jac_point_rows c T t n tp)) =
      Some (\<lparr>mcols = n, mrows = (pre @ jac_point_rows c T t n tp) @
               concat (map (jac_point_rows c T t n) pts) @ replicate (k' - 2 * length pts) ?z\<rparr>,
            length (pre @ jac_point_rows c T t n tp) + 2 * length pts)"
    using rows2 c2 k Cons.prems(4) by (intro Cons.IH) simp_all
  have fit1: "mat_copy_block jac (length pre) 0 ?A = Some jac1"
    using nr Cons.prems(2,4) by (simp add: jac1_def)
  have fit2: "mat_copy_block jac1 (length pre) (4 + t * 6) ?C = Some jac2"
    using c1 Cons.prems(4) by (simp add: jac2_def)
  have "jacobian_points c T t (tp # pts) (jac, length pre) =
          jacobian_points c T t pts (jac2, length (pre @ jac_point_rows c T t n tp))"
    by (simp only: jacobian_points.simps Let_def fit1 fit2 option.case)
       (simp add: jac2_def jac1_def)
  then show ?case using IH k by simp
qed

lemma length_concat_jac_point_rows [simp]:
  "length (concat (map (jac_point_rows c T t n) model)) = 2 * length model"
  by (induction model) simp_all

lemma length_jac_rows_from [simp]:
  "length (jac_rows_from c model t Ts n) = 2 * (length Ts * length model)"
  by (induction Ts arbitrary: t) simp_all

lemma jacobian_images_rows:
  assumes "mrows jac = pre @ replicate k (replicate n 0)" and "mcols jac = n"
    and "2 * (length Ts * length model) \<le> k" and "4 + 6 * (t + length Ts) \<le> n"
  shows "jacobian_images c model t Ts (jac, length pre) =
           Some (\<lparr>mcols = n, mrows = pre @ jac_rows_from c model t Ts n @
                                     replicate (k - 2 * (length Ts * length model)) (replicate n 0)\<rparr>,
                 length pre + 2 * (length Ts * length model))"
  using assms
proof (induction Ts arbitrary: jac pre k t)
  case Nil
  then show ?case by (cases jac) simp
next
  case (Cons T Ts)
  let ?z = "replicate n (0 :: real)"
  let ?rows = "concat (map (jac_point_rows c T t n) model)"
  have pts: "jacobian_points c T t model (jac, length pre) =
               Some (\<lparr>mcols = n, mrows = pre @ ?rows @ replicate (k - 2 * length model) ?z\<rparr>,
                     length pre + 2 * length model)"
    using Cons.prems by (intro jacobian_points_rows) simp_all
  have lr: "length ?rows = 2 * length model" by simp
  have IH: "jacobian_images c model (Suc t) Ts
              (\<lparr>mcols = n, mrows = (pre @ ?rows) @ replicate (k - 2 * length model) ?z\<rparr>,
               length (pre @ ?rows)) =
            Some (\<lparr>mcols = n, mrows = (pre @ ?rows) @ jac_rows_from c model (Suc t) Ts n @
                     replicate (k - 2 * length model - 2 * (length Ts * length model)) ?z\<rparr>,
                  length (pre @ ?rows) + 2 * (length Ts * length model))"
    using Cons.prems by (intro Cons.IH) simp_all
  show ?case using pts IH lr by (simp add: algebra_simps)
qed

lemma jacobian_eq:
  assumes "4 + 6 * length (image_pts_set cal) \<le> length p"
  shows "jacobian cal p =
           Some \<lparr>mcols = 6 * length (image_pts_set cal) + 4,
                 mrows = jac_rows_from (take 4 p) (model_pts cal) 0
                           (map (pose_of p) [0..<length (image_pts_set cal)])
                           (6 * length (image_pts_set cal) + 4)\<rparr>"
proof -
  let ?M = "length (image_pts_set cal)" and ?N = "length (model_pts cal)"
  have "jacobian_images (take 4 p) (model_pts cal) 0 (map (pose_of p) [0..<?M])
          (mat_zeros (?M * ?N * 2) (6 * ?M + 4), 0) =
        Some (\<lparr>mcols = 6 * ?M + 4, mrows = jac_rows_from (take 4 p) (model_pts cal) 0
                  (map (pose_of p) [0..<?M]) (6 * ?M + 4)\<rparr>, 2 * (?M * ?N))"
    using jacobian_images_rows [where jac = "mat_zeros (?M * ?N * 2) (6 * ?M + 4)" and pre = "[]"
        and k = "?M * ?N * 2" and n = "6 * ?M + 4" and Ts = "map (pose_of p) [0..<?M]" and t = 0
        and c = "take 4 p" and model = "model_pts cal"]
    by (simp add: mat_zeros_def)
  then show ?thesis
    using assms by (simp add: jacobian_def decode_params_Some Let_def)
qed

subsection \<open>Entries\<close>

lemma vec_write_block_whole: "length w = length v \<Longrightarrow> vec_write_block v 0 w = w"
  by (simp add: vec_write_block_def)

lemma image_residuals_nth:
  assumes "list_all (\<lambda>img. length (fst img) = length model \<and> list_all (\<lambda>ob. length ob = 2) (fst img)) imgs"
    and "i < length imgs" and "j < length model" and "k < 2"
  shows "image_residuals c model imgs ! (2 * (i * length model + j) + k) =
           point_residual c (snd (imgs ! i)) (fst (imgs ! i) ! j, model ! j) ! k"
proof -
  let ?blk = "\<lambda>img. concat (map (point_residual c (snd img)) (zip (fst img) model))"
  have blk_len: "length (?blk img) = 2 * length model" if "img \<in> set imgs" for img
  proof -
    have "list_all (\<lambda>ot. length (fst ot) = 2) (zip (fst img) model)"
      using assms(1) that by (auto simp: list_all_iff dest: set_zip_leftD)
    then show ?thesis
      using assms(1) that length_concat_point_residual by (auto simp: list_all_iff)
  qed
  have idx: "2 * (i * length model + j) + k = i * (2 * length model) + (j * 2 + k)"
    by (simp add: algebra_simps)
  have "image_residuals c model imgs ! (i * (2 * length model) + (j * 2 + k)) = ?blk (imgs ! i) ! (j * 2 + k)"
    unfolding image_residuals_def using assms(2-4) blk_len
    by (subst nth_concat_uniform [where n = "2 * length model"]) auto
  also have "\<dots> = point_residual c (snd (imgs ! i)) (zip (fst (imgs ! i)) model ! j) ! k"
  proof -
    have mem: "imgs ! i \<in> set imgs" using assms(2) by simp
    have wf: "list_all (\<lambda>ot. length (fst ot) = 2) (zip (fst (imgs ! i)) model)"
      using assms(1) mem by (auto simp: list_all_iff dest!: set_zip_leftD)
    have lz: "length (zip (fst (imgs ! i)) model) = length model"
      using assms(1,2) by (auto simp: list_all_iff)
    show ?thesis
      using wf lz assms(3,4)
      by (subst nth_concat_uniform [where n = 2]) (auto simp: list_all_iff in_set_conv_nth)
  qed
  finally have h: "image_residuals c model imgs ! (i * (2 * length model) + (j * 2 + k)) =
      point_residual c (snd (imgs ! i)) (zip (fst (imgs ! i)) model ! j) ! k" .
  have "length (fst (imgs ! i)) = length model" using assms(1,2) by (auto simp: list_all_iff)
  then show ?thesis unfolding idx using h assms(3) by simp
qed

lemma jac_rows_from_concat:
  "jac_rows_from c model t Ts n =
     concat (map (\<lambda>i. concat (map (jac_point_rows c (Ts ! i) (t + i) n) model)) [0..<length Ts])"
proof (induction Ts arbitrary: t)
  case Nil
  then show ?case by simp
next
  case (Cons T Ts)
  have "map (\<lambda>i. concat (map (jac_point_rows c ((T # Ts) ! i) (t + i) n) model)) [0..<Suc (length Ts)] =
        concat (map (jac_point_rows c T t n) model) #
        map (\<lambda>i. concat (map (jac_point_rows c (Ts ! i) (Suc t + i) n) model)) [0..<length Ts]"
    by (simp add: upt_conv_Cons map_Suc_upt [symmetric] del: upt_Suc)
  then show ?case using Cons.IH by simp
qed

lemma jac_rows_from_nth:
  assumes "i < length Ts" and "j < length model" and "k < 2"
  shows "jac_rows_from c model 0 Ts n ! (2 * (i * length model + j) + k) =
           jac_point_rows c (Ts ! i) i n (model ! j) ! k"
proof -
  have idx: "2 * (i * length model + j) + k = i * (2 * length model) + (j * 2 + k)"
    by (simp add: algebra_simps)
  show ?thesis
    unfolding jac_rows_from_concat idx using assms
    by (subst nth_concat_uniform [where n = "2 * length model"], auto)
       (subst nth_concat_uniform [where n = 2], auto)
qed

lemma jac_point_rows_nth:
  assumes "k < 2" and "c < n" and "10 + 6 * t \<le> n"
  shows "jac_point_rows cm T t n tp ! k ! c =
           (let q = iso_apply T tp
            in if c < 4 then mat_get (proj_jacobian_wrt_params q) k c
               else if 4 + 6 * t \<le> c \<and> c < 10 + 6 * t
               then mat_get (mat_mul (proj_jacobian_wrt_point cm q) (exp_map_jacobian q)) k (c - (4 + 6 * t))
               else 0)"
proof -
  let ?q = "iso_apply T tp"
  obtain a0 a1 where a: "mrows (proj_jacobian_wrt_params ?q) = [a0, a1]" "length a0 = 4" "length a1 = 4"
    by (simp add: proj_jacobian_wrt_params_def)
  obtain c0 c1 where cc: "mrows (mat_mul (proj_jacobian_wrt_point cm ?q) (exp_map_jacobian ?q)) = [c0, c1]"
      "length c0 = 6" "length c1 = 6"
    by (simp add: mat_mul_def proj_jacobian_wrt_point_def)
  have k: "k = 0 \<or> k = 1" using assms(1) by auto
  show ?thesis
    using k assms(2,3) a cc
    by (auto simp: jac_point_rows_def mat_get_def nth_append Let_def)
qed

lemma length_image_residuals_matched:
  assumes "list_all (\<lambda>img. length (fst img) = length model \<and> list_all (\<lambda>ob. length ob = 2) (fst img)) imgs"
  shows "length (image_residuals c model imgs) = 2 * (length imgs * length model)"
  using assms
proof (induction imgs)
  case Nil
  then show ?case by (simp add: image_residuals_def)
next
  case (Cons img imgs)
  have wf: "list_all (\<lambda>ot. length (fst ot) = 2) (zip (fst img) model)"
    using Cons.prems by (auto simp: list_all_iff dest!: set_zip_leftD)
  have "length (concat (map (point_residual c (snd img)) (zip (fst img) model))) = 2 * length model"
    using length_concat_point_residual [OF wf] Cons.prems by simp
  with Cons show ?case by (simp add: image_residuals_def)
qed

lemma residual_Some_length:
  "residual cal p = Some r \<Longrightarrow> 4 + 6 * length (image_pts_set cal) \<le> length p"
  using decode_params_None [of p cal] by (fastforce simp: residual_def)

lemma jacobian_Some_length:
  "jacobian cal p = Some J \<Longrightarrow> 4 + 6 * length (image_pts_set cal) \<le> length p"
  using decode_params_None [of p cal] by (fastforce simp: jacobian_def)

lemma jac_rows_from_row_length:
  assumes "row \<in> set (jac_rows_from c model t Ts n)" and "4 + 6 * (t + length Ts) \<le> n"
  shows "length row = n"
  using assms
proof (induction Ts arbitrary: t)
  case Nil
  then show ?case by simp
next
  case (Cons T Ts)
  show ?case
  proof (cases "row \<in> set (jac_rows_from c model (Suc t) Ts n)")
    case True
    with Cons show ?thesis by simp
  next
    case False
    with Cons.prems obtain tp where "row \<in> set (jac_point_rows c T t n tp)" by auto
    with Cons.prems(2) show ?thesis
      by (auto simp: jac_point_rows_def Let_def proj_jacobian_wrt_params_def
                     proj_jacobian_wrt_point_def mat_mul_def)
  qed
qed

subsection \<open>Properties of the calibration problem\<close>

text \<open>
  C10. \<open>decode_params\<close> fails (the \<open>fixed_view\<close> panics) exactly when the
  parameter vector is shorter than \<open>4 + 6 M\<close> for \<open>M\<close> images.
\<close>

theorem decode_params_None_iff:
  "decode_params cal p = None \<longleftrightarrow> length p < 4 + 6 * length (image_pts_set cal)"
  using decode_params_Some [of cal p] decode_params_None [of p cal] by fastforce

lemma residual_Some:
  assumes "calibration_wf cal" and "4 + 6 * length (image_pts_set cal) \<le> length p"
  shows "\<exists>r. residual cal p = Some r \<and>
             length r = 2 * (length (image_pts_set cal) * length (model_pts cal))"
proof -
  let ?imgs = "zip (image_pts_set cal) (map (pose_of p) [0..<length (image_pts_set cal)])"
  have wf: "list_all (\<lambda>img. list_all (\<lambda>ob. length ob = 2) (fst img)) ?imgs"
    using assms(1) by (auto simp: calibration_wf_def list_all_iff dest!: set_zip_leftD)
  have "length (image_residuals (take 4 p) (model_pts cal) ?imgs)
          \<le> 2 * (length (image_pts_set cal) * length (model_pts cal))"
    using length_image_residuals_le [OF wf] by simp
  then show ?thesis using residual_eq [OF assms] by simp
qed

text \<open>
  C11. On well-formed input and a parameter vector long enough for every
  pose, \<open>residual\<close> never panics and returns \<open>2 M N\<close> entries, whatever the
  lengths of the observation lists.
\<close>

theorem residual_total:
  assumes "calibration_wf cal" and "4 + 6 * length (image_pts_set cal) \<le> length p"
  shows "\<exists>r. residual cal p = Some r \<and>
             length r = 2 * (length (image_pts_set cal) * length (model_pts cal))"
  using assms by (rule residual_Some)

theorem residual_total_witness:
  "calibration_wf example_cal \<and> 4 + 6 * length (image_pts_set example_cal) \<le> length example_param \<and>
   (\<exists>r. residual example_cal example_param = Some r \<and>
        length r = 2 * (length (image_pts_set example_cal) * length (model_pts example_cal)))"
proof -
  have h: "calibration_wf example_cal" "4 + 6 * length (image_pts_set example_cal) \<le> length example_param"
    by (simp_all add: calibration_wf_def example_cal_def example_param_def)
  show ?thesis using residual_total [OF h] h by blast
qed

lemma residual_nth:
  assumes "calibration_wf cal"
    and "list_all (\<lambda>obs. length obs = length (model_pts cal)) (image_pts_set cal)"
    and "residual cal p = Some r"
    and "i < length (image_pts_set cal)" and "j < length (model_pts cal)" and "k < 2"
  shows "r ! (2 * (i * length (model_pts cal) + j) + k) =
           project (take 4 p) (iso_apply (pose_of p i) (model_pts cal ! j)) ! k -
           image_pts_set cal ! i ! j ! k"
proof -
  let ?M = "length (image_pts_set cal)" and ?N = "length (model_pts cal)"
  let ?imgs = "zip (image_pts_set cal) (map (pose_of p) [0..<?M])"
  have len: "4 + 6 * ?M \<le> length p" using assms(3) by (rule residual_Some_length)
  have wf: "list_all (\<lambda>img. length (fst img) = ?N \<and> list_all (\<lambda>ob. length ob = 2) (fst img)) ?imgs"
    using assms(1,2) by (auto simp: calibration_wf_def list_all_iff dest!: set_zip_leftD)
  have r: "r = image_residuals (take 4 p) (model_pts cal) ?imgs"
    using residual_eq [OF assms(1) len] assms(3) length_image_residuals_matched [OF wf]
    by (simp add: vec_write_block_whole)
  have mi: "image_pts_set cal ! i \<in> set (image_pts_set cal)" using assms(4) by simp
  have li: "length (image_pts_set cal ! i) = ?N" using assms(2) mi by (simp add: list_all_iff)
  have "image_pts_set cal ! i ! j \<in> set (image_pts_set cal ! i)" using li assms(5) by simp
  then have obs: "length (image_pts_set cal ! i ! j) = 2"
    using assms(1) mi by (auto simp: calibration_wf_def list_all_iff)
  show ?thesis
    unfolding r using image_residuals_nth [OF wf _ assms(5,6), of i] assms(4,6) obs
    by (simp add: point_residual_def vsub_def project_def)
qed

lemma example_residual: "residual example_cal example_param = Some [0, 0, 0, 0]"
  by (simp add: eval_nat_numeral vec_copy_block_def fixed_view_def residual_def decode_params_def
      example_cal_def example_param_def exp_map_def vnorm_def Let_def skew_sym_def iso_apply_def
      quat_rotate_def unit_quaternion_identity_def project_def linalg_defs vec_write_block_def upt_rec)

lemma example_cal_wf:
  "calibration_wf example_cal"
  "list_all (\<lambda>obs. length obs = length (model_pts example_cal)) (image_pts_set example_cal)"
  by (simp_all add: calibration_wf_def example_cal_def)

text \<open>
  C12. When every image has exactly one observation per target point, entry
  \<open>2 (i N + j) + k\<close> of the residual is coordinate \<open>k\<close> of the projection of
  target point \<open>j\<close> under pose \<open>i\<close>, minus the observed pixel.
\<close>

theorem residual_entry:
  assumes "calibration_wf cal"
    and "list_all (\<lambda>obs. length obs = length (model_pts cal)) (image_pts_set cal)"
    and "residual cal p = Some r"
    and "i < length (image_pts_set cal)" and "j < length (model_pts cal)" and "k < 2"
  shows "r ! (2 * (i * length (model_pts cal) + j) + k) =
           project (take 4 p) (iso_apply (pose_of p i) (model_pts cal ! j)) ! k -
           image_pts_set cal ! i ! j ! k"
  using assms by (rule residual_nth)

theorem residual_entry_witness:
  "residual example_cal example_param = Some [0, 0, 0, 0] \<and>
   [0, 0, 0, 0] ! (2 * (0 * 2 + 1) + 0) =
     project (take 4 example_param) (iso_apply (pose_of example_param 0) [1, 0, 0]) ! 0 - 500"
proof -
  have h: "0 < length (image_pts_set example_cal)" "1 < length (model_pts example_cal)"
    by (simp_all add: example_cal_def)
  from residual_entry [OF example_cal_wf example_residual h, of 0] example_residual show ?thesis
    by (simp add: example_cal_def)
qed

lemma jacobian_Some:
  assumes len: "4 + 6 * length (image_pts_set cal) \<le> length p"
  shows "\<exists>J. jacobian cal p = Some J \<and> mat_nrows J = 2 * (length (image_pts_set cal) * length (model_pts cal)) \<and>
        mcols J = 6 * length (image_pts_set cal) + 4 \<and> mat_wf J"
proof -
  have "mat_wf \<lparr>mcols = 6 * length (image_pts_set cal) + 4,
                 mrows = jac_rows_from (take 4 p) (model_pts cal) 0
                           (map (pose_of p) [0..<length (image_pts_set cal)])
                           (6 * length (image_pts_set cal) + 4)\<rparr>"
    unfolding mat_wf_def list_all_iff by (auto intro: jac_rows_from_row_length)
  then show ?thesis
    using jacobian_eq [OF len] by (simp add: mat_nrows_def)
qed

text \<open>
  C13. \<open>jacobian\<close> succeeds exactly when the parameter vector holds every
  pose, and then returns a well-formed \<open>2 M N \<times> (6 M + 4)\<close> matrix.
\<close>

theorem jacobian_shape:
  "(\<exists>J. jacobian cal p = Some J \<and> mat_nrows J = 2 * (length (image_pts_set cal) * length (model_pts cal)) \<and>
        mcols J = 6 * length (image_pts_set cal) + 4 \<and> mat_wf J) \<longleftrightarrow>
   4 + 6 * length (image_pts_set cal) \<le> length p"
  using jacobian_Some [of cal p] by (blast dest: jacobian_Some_length)

lemma jacobian_row:
  assumes "jacobian cal p = Some J"
    and "i < length (image_pts_set cal)" and "j < length (model_pts cal)" and "k < 2"
  shows "mrows J ! (2 * (i * length (model_pts cal) + j) + k) =
           jac_point_rows (take 4 p) (pose_of p i) i (6 * length (image_pts_set cal) + 4) (model_pts cal ! j) ! k"
proof -
  let ?M = "length (image_pts_set cal)"
  let ?Ts = "map (pose_of p) [0..<?M]"
  have len: "4 + 6 * ?M \<le> length p" using assms(1) by (rule jacobian_Some_length)
  have "mrows J = jac_rows_from (take 4 p) (model_pts cal) 0 ?Ts (6 * ?M + 4)"
    using jacobian_eq [OF len] assms(1) by auto
  then show ?thesis
    using jac_rows_from_nth [of i ?Ts j "model_pts cal" k "take 4 p" "6 * ?M + 4"] assms(2-4) by simp
qed

text \<open>
  C14. Row \<open>2 (i N + j) + k\<close> of the Jacobian holds, in columns \<open>[0, 4)\<close>,
  row \<open>k\<close> of \<open>proj_jacobian_wrt_params\<close> at the transformed point, in the
  six columns of pose \<open>i\<close> row \<open>k\<close> of the chain-rule product
  \<open>proj_jacobian_wrt_point \<cdot> exp_map_jacobian\<close>, and zero in every other column.
\<close>

theorem jacobian_entry:
  assumes "jacobian cal p = Some J"
    and "i < length (image_pts_set cal)" and "j < length (model_pts cal)" and "k < 2"
    and "c < 6 * length (image_pts_set cal) + 4"
  shows "mat_get J (2 * (i * length (model_pts cal) + j) + k) c =
           (let q = iso_apply (pose_of p i) (model_pts cal ! j)
            in if c < 4 then mat_get (proj_jacobian_wrt_params q) k c
               else if 4 + 6 * i \<le> c \<and> c < 10 + 6 * i
               then mat_get (mat_mul (proj_jacobian_wrt_point (take 4 p) q) (exp_map_jacobian q))
                      k (c - (4 + 6 * i))
               else 0)"
proof -
  have fit: "10 + 6 * i \<le> 6 * length (image_pts_set cal) + 4" using assms(2) by simp
  show ?thesis
    using jacobian_row [OF assms(1-4)] jac_point_rows_nth [OF assms(4,5) fit] by (simp add: mat_get_def)
qed

theorem jacobian_entry_witness:
  "\<exists>J. jacobian example_cal example_param = Some J \<and> mat_get J (2 * (0 * 2 + 1) + 0) 0 = 1 / 3"
proof -
  have len: "4 + 6 * length (image_pts_set example_cal) \<le> length example_param"
    by (simp add: example_cal_def example_param_def)
  obtain J where J: "jacobian example_cal example_param = Some J"
    using jacobian_eq [OF len] by blast
  have q: "iso_apply (pose_of example_param 0) (model_pts example_cal ! 1) = [1, 0, 3]"
    by (simp add: pose_of_def example_param_def example_cal_def exp_map_def vnorm_def Let_def
                  iso_apply_def quat_rotate_def unit_quaternion_identity_def linalg_defs upt_rec)
  have "mat_get J (2 * (0 * length (model_pts example_cal) + 1) + 0) 0 = 1 / 3"
    using jacobian_entry [OF J, of 0 1 0 0] q
    by (simp add: example_cal_def proj_jacobian_wrt_params_def mat_get_def)
  with J show ?thesis by (auto simp: example_cal_def)
qed

subsection \<open>The running index\<close>

text \<open>
  The inner residual loop advances \<open>residual_idx\<close> by two per
  (observation, target point) pair and never changes the vector's length.
\<close>

fun_cases residual_points_ConsE: "residual_points cm T (ob # pts) acc = Some acc'"

lemma residual_points_index:
  "residual_points cm T pts (r, idx) = Some (r', idx') \<Longrightarrow>
   length r' = length r \<and> idx' = idx + 2 * length pts"
proof (induction pts arbitrary: r idx)
  case Nil
  then show ?case by simp
next
  case (Cons ob pts)
  obtain obs tp where ob: "ob = (obs, tp)" by (cases ob)
  from Cons.prems show ?case
    unfolding ob by (elim residual_points_ConsE) (fastforce simp: Let_def split: option.splits dest: Cons.IH [OF sym])
qed

subsection \<open>Entries of the Jacobian by block\<close>

lemma pose_jacobian_raw:
  "mat_mul (proj_jacobian_wrt_point cam q) (exp_map_jacobian q) =
    \<lparr>mcols = 6,
     mrows = [[cam ! 0 / q ! 2, 0, - q ! 0 * cam ! 0 / q ! 2 ^ 2,
               - q ! 0 * cam ! 0 / q ! 2 ^ 2 * q ! 1, cam ! 0 / q ! 2 * q ! 2 + q ! 0 * cam ! 0 / q ! 2 ^ 2 * q ! 0,
               - (cam ! 0 / q ! 2 * q ! 1)],
              [0, cam ! 1 / q ! 2, - q ! 1 * cam ! 1 / q ! 2 ^ 2,
               - (cam ! 1 / q ! 2 * q ! 2) - q ! 1 * cam ! 1 / q ! 2 ^ 2 * q ! 1,
               q ! 1 * cam ! 1 / q ! 2 ^ 2 * q ! 0, cam ! 1 / q ! 2 * q ! 0]]\<rparr>"
  by (simp add: exp_map_jacobian_eq proj_jacobian_wrt_point_def mat_mul_def mat_col_def dot_def upt_rec)

lemma jacobian_intrinsic_entry:
  assumes "jacobian cal p = Some J"
    and "i < length (image_pts_set cal)" and "j < length (model_pts cal)" and "k < 2" and "c < 4"
  shows "mat_get J (2 * (i * length (model_pts cal) + j) + k) c =
           mat_get (proj_jacobian_wrt_params (iso_apply (pose_of p i) (model_pts cal ! j))) k c"
  using jacobian_row [OF assms(1-4)] assms(2,4,5)
    jac_point_rows_nth [of k c "6 * length (image_pts_set cal) + 4" i "take 4 p" "pose_of p i" "model_pts cal ! j"]
  by (simp add: mat_get_def Let_def)

lemma jacobian_pose_entry:
  assumes "jacobian cal p = Some J"
    and "i < length (image_pts_set cal)" and "j < length (model_pts cal)" and "k < 2" and "c < 6"
  shows "mat_get J (2 * (i * length (model_pts cal) + j) + k) (4 + 6 * i + c) =
           (let q = iso_apply (pose_of p i) (model_pts cal ! j)
            in mat_get (mat_mul (proj_jacobian_wrt_point (take 4 p) q) (exp_map_jacobian q)) k c)"
proof -
  have "10 + 6 * i \<le> 6 * length (image_pts_set cal) + 4" using assms(2) by simp
  then show ?thesis
    using jacobian_row [OF assms(1-4)] assms(4,5) jac_point_rows_nth
      [of k "4 + 6 * i + c" "6 * length (image_pts_set cal) + 4" i "take 4 p" "pose_of p i" "model_pts cal ! j"]
    by (simp add: mat_get_def Let_def)
qed

lemma jacobian_offblock_entry:
  assumes "jacobian cal p = Some J"
    and "i < length (image_pts_set cal)" and "j < length (model_pts cal)" and "k < 2"
    and "i' < length (image_pts_set cal)" and "i' \<noteq> i" and "c < 6"
  shows "mat_get J (2 * (i * length (model_pts cal) + j) + k) (4 + 6 * i' + c) = 0"
proof -
  let ?n = "6 * length (image_pts_set cal) + 4"
  have fit: "10 + 6 * i \<le> ?n" using assms(2) by simp
  have cn: "4 + 6 * i' + c < ?n" using assms(5,7) by simp
  have nb: "\<not> (4 + 6 * i \<le> 4 + 6 * i' + c \<and> 4 + 6 * i' + c < 10 + 6 * i)"
    using assms(6,7) by (cases "i' < i") auto
  have "jac_point_rows (take 4 p) (pose_of p i) i ?n (model_pts cal ! j) ! k ! (4 + 6 * i' + c) = 0"
    using jac_point_rows_nth [OF assms(4) cn fit] nb by (auto simp: Let_def)
  then show ?thesis using jacobian_row [OF assms(1-4)] by (simp add: mat_get_def)
qed

lemma pose_of_zero_rotation:
  assumes "take 3 (drop (7 + 6 * i) p) = [0, 0, 0]" and "4 + 6 * i + 6 \<le> length p"
  shows "pose_of p i = iso_translation (take 3 (drop (4 + 6 * i) p))"
proof -
  have "take 6 (drop (4 + 6 * i) p) = take 3 (drop (4 + 6 * i) p) @ take 3 (drop (7 + 6 * i) p)"
    by (simp add: take_add [of 3 3, simplified] add.assoc)
  then show ?thesis
    using exp_map_small [of "take 3 (drop (4 + 6 * i) p)" "[0, 0, 0]"] assms
    by (simp add: pose_of_def vnorm_def)
qed

lemma pose_block_translation_cols:
  assumes "k < 2" and "c < 3"
  shows "mat_get (mat_mul (proj_jacobian_wrt_point cam q) (exp_map_jacobian q)) k c =
           mat_get (proj_jacobian_wrt_point cam q) k c"
  using assms unfolding pose_jacobian_raw less2_cases less3_cases
  by (elim disjE) (simp_all add: mat_get_def proj_jacobian_wrt_point_def)

text \<open>
  At a pose without rotation, moving translation coordinate \<open>c\<close> of image
  \<open>i\<close> moves the transformed point along axis \<open>c\<close> and nothing else.
\<close>

lemma residual_translation_entry:
  assumes "calibration_wf cal"
    and "list_all (\<lambda>obs. length obs = length (model_pts cal)) (image_pts_set cal)"
    and len: "4 + 6 * length (image_pts_set cal) \<le> length p"
    and "i < length (image_pts_set cal)" and "j < length (model_pts cal)" and "k < 2" and "c < 3"
    and "take 3 (drop (7 + 6 * i) p) = [0, 0, 0]"
  shows "iso_apply (pose_of p i) (model_pts cal ! j) = vadd (model_pts cal ! j) (take 3 (drop (4 + 6 * i) p))"
    and "(\<lambda>s. the (residual cal (p[4 + 6 * i + c := s])) ! (2 * (i * length (model_pts cal) + j) + k)) =
         (\<lambda>s. project (take 4 p) ((vadd (model_pts cal ! j) (take 3 (drop (4 + 6 * i) p)))
                  [c := model_pts cal ! j ! c + s]) ! k - image_pts_set cal ! i ! j ! k)"
proof -
  let ?X = "model_pts cal ! j" and ?t = "take 3 (drop (4 + 6 * i) p)"
  have leni: "4 + 6 * i + 6 \<le> length p" using len assms(4) by simp
  have X: "length ?X = 3" using assms(1,5) by (simp add: calibration_wf_def list_all_iff)
  have t: "length ?t = 3" using leni by simp
  show "iso_apply (pose_of p i) ?X = vadd ?X ?t"
    using pose_of_zero_rotation [OF assms(8) leni] iso_apply_translation [OF X] by simp
  have pose: "pose_of (p[4 + 6 * i + c := s]) i = iso_translation (?t[c := s])" for s
  proof -
    have "take 3 (drop (7 + 6 * i) (p[4 + 6 * i + c := s])) = [0, 0, 0]"
      using assms(7,8) by simp
    moreover have "take 3 (drop (4 + 6 * i) (p[4 + 6 * i + c := s])) = ?t[c := s]"
      using assms(7) by (simp add: drop_update_swap take_update_swap)
    ultimately show ?thesis using pose_of_zero_rotation [of i "p[4 + 6 * i + c := s]"] leni by simp
  qed
  have "the (residual cal (p[4 + 6 * i + c := s])) ! (2 * (i * length (model_pts cal) + j) + k) =
          project (take 4 p) ((vadd ?X ?t)[c := ?X ! c + s]) ! k - image_pts_set cal ! i ! j ! k" for s
  proof -
    obtain r where r: "residual cal (p[4 + 6 * i + c := s]) = Some r"
      using residual_Some [OF assms(1), of "p[4 + 6 * i + c := s]"] len by auto
    have "iso_apply (iso_translation (?t[c := s])) ?X = (vadd ?X ?t)[c := ?X ! c + s]"
      using iso_apply_translation [OF X] vadd_update [of c ?X ?t s] assms(7) X t by simp
    then show ?thesis
      using residual_nth [OF assms(1,2) r assms(4-6)] r pose by simp
  qed
  then show "(\<lambda>s. the (residual cal (p[4 + 6 * i + c := s])) ! (2 * (i * length (model_pts cal) + j) + k)) =
         (\<lambda>s. project (take 4 p) ((vadd ?X ?t)[c := ?X ! c + s]) ! k - image_pts_set cal ! i ! j ! k)"
    by (intro ext)
qed

lemma pose_of_update_other:
  assumes "i' \<noteq> i" and "c < 6"
  shows "pose_of (p[4 + 6 * i' + c := s]) i = pose_of p i"
proof (cases "i' < i")
  case True
  then have "4 + 6 * i' + c < 4 + 6 * i" using assms(2) by simp
  then show ?thesis by (simp add: pose_of_def)
next
  case False
  then have "4 + 6 * i + 6 \<le> 4 + 6 * i' + c" using assms(1) by simp
  then show ?thesis by (simp add: pose_of_def drop_update_swap)
qed

subsection \<open>Observation lists shorter than the target\<close>

lemma exp_map_pure_translation:
  "exp_map [a, b, c, 0, 0, 0] = iso_translation [a, b, c]"
  by (simp add: exp_map_def vnorm_def Let_def iso_translation_def mat_vec_def mat_identity_def upt_rec)

lemma residual_misaligned_value: "residual misaligned_cal misaligned_param = Some [0, 0, -5, 0, 1, 0, 0, 0]"
  by (simp add: residual_def decode_params_def fixed_view_def misaligned_cal_def misaligned_param_def
      exp_map_pure_translation iso_apply_translation vec_copy_block_def vec_write_block_def project_def linalg_defs
      numeral_eq_Suc)

lemma length_image_residuals_sum:
  assumes "list_all (\<lambda>img. list_all (\<lambda>ob. length ob = 2) (fst img)) imgs"
  shows "length (image_residuals c model imgs) =
           2 * sum_list (map (\<lambda>img. min (length (fst img)) (length model)) imgs)"
  using assms
proof (induction imgs)
  case Nil
  then show ?case by (simp add: image_residuals_def)
next
  case (Cons img imgs)
  have "list_all (\<lambda>ot. length (fst ot) = 2) (zip (fst img) model)"
    using Cons.prems by (auto simp: list_all_iff dest: set_zip_leftD)
  then show ?case
    using Cons length_concat_point_residual [of "zip (fst img) model" c "snd img"]
    by (simp add: image_residuals_def)
qed

lemma image_residuals_nth_shifted:
  assumes "list_all (\<lambda>img. list_all (\<lambda>ob. length ob = 2) (fst img)) imgs"
    and "i < length imgs" and "j < length (fst (imgs ! i))" and "j < length model" and "k < 2"
  shows "image_residuals c model imgs !
           (2 * (sum_list (map (\<lambda>img. min (length (fst img)) (length model)) (take i imgs)) + j) + k) =
         point_residual c (snd (imgs ! i)) (fst (imgs ! i) ! j, model ! j) ! k"
  using assms
proof (induction imgs arbitrary: i)
  case Nil
  then show ?case by simp
next
  case (Cons img imgs)
  let ?blk = "concat (map (point_residual c (snd img)) (zip (fst img) model))"
  have wf: "list_all (\<lambda>ot. length (fst ot) = 2) (zip (fst img) model)"
    using Cons.prems(1) by (auto simp: list_all_iff dest: set_zip_leftD)
  have blk: "length ?blk = 2 * min (length (fst img)) (length model)"
    using length_concat_point_residual [OF wf] by simp
  have ir: "image_residuals c model (img # imgs) = ?blk @ image_residuals c model imgs"
    by (simp add: image_residuals_def)
  show ?case
  proof (cases i)
    case 0
    have "?blk ! (j * 2 + k) = point_residual c (snd img) (zip (fst img) model ! j) ! k"
      using wf Cons.prems(3-5) 0
      by (subst nth_concat_uniform [where n = 2]) (auto simp: list_all_iff in_set_conv_nth)
    moreover have "2 * j + k < length ?blk" using blk Cons.prems(3-5) 0 by simp
    ultimately show ?thesis using 0 Cons.prems(3,4) ir by (simp add: nth_append mult.commute)
  next
    case (Suc i')
    have "image_residuals c model imgs !
            (2 * (sum_list (map (\<lambda>img. min (length (fst img)) (length model)) (take i' imgs)) + j) + k) =
          point_residual c (snd (imgs ! i')) (fst (imgs ! i') ! j, model ! j) ! k"
      using Cons.IH [of i'] Cons.prems Suc by simp
    then show ?thesis
      using Suc ir blk by (simp add: nth_append algebra_simps)
  qed
qed

lemma map_fst_zip_eq:
  "length xs = length ys \<Longrightarrow> map (\<lambda>img. f (fst img)) (zip xs ys) = map f xs"
  by (induction xs ys rule: list_induct2) auto

lemma map_fst_take_zip:
  "length xs = length ys \<Longrightarrow> map (\<lambda>img. f (fst img)) (take i (zip xs ys)) = map f (take i xs)"
  by (simp add: take_zip map_fst_zip_eq)

lemma sum_list_take_nth_le:
  fixes f :: "'a \<Rightarrow> nat"
  assumes "i < length xs"
  shows "sum_list (map f (take i xs)) + f (xs ! i) \<le> sum_list (map f xs)"
proof -
  have "sum_list (map f xs) = sum_list (map f (take i xs)) + f (xs ! i) + sum_list (map f (drop (Suc i) xs))"
    using id_take_nth_drop [OF assms]
    by (metis (no_types, lifting) add.assoc list.simps(9) map_append sum_list.Cons sum_list_append)
  then show ?thesis by simp
qed

text \<open>
  C16. \<open>residual\<close> does not check that every image observes every target
  point: the residuals of image \<open>i\<close> start after the
  \<open>2 \<Sigma>\<^sub>i\<^sub>' \<^sub>< \<^sub>i min |obs\<^sub>i\<^sub>'| N\<close> entries of the earlier images, not at
  row \<open>2 i N\<close> where the Jacobian puts them (C14), and the vector ends in
  zeros. With complete observation lists the offset is \<open>2 i N\<close> (C12). In
  the witness image 0 has one observation of two, so the first residual of
  image 1 lands in row 2, a row of image 0 in the Jacobian.
\<close>

theorem residual_shifted:
  assumes "calibration_wf cal" and "4 + 6 * length (image_pts_set cal) \<le> length p"
    and "i < length (image_pts_set cal)" and "j < length (image_pts_set cal ! i)"
    and "j < length (model_pts cal)" and "k < 2"
  shows "\<exists>r. residual cal p = Some r \<and>
           r ! (2 * (sum_list (map (\<lambda>obs. min (length obs) (length (model_pts cal)))
                                   (take i (image_pts_set cal))) + j) + k) =
             project (take 4 p) (iso_apply (pose_of p i) (model_pts cal ! j)) ! k -
             image_pts_set cal ! i ! j ! k \<and>
           (\<forall>q. 2 * sum_list (map (\<lambda>obs. min (length obs) (length (model_pts cal))) (image_pts_set cal)) \<le> q \<and>
                q < length r \<longrightarrow> r ! q = 0)"
proof -
  let ?M = "length (image_pts_set cal)" and ?N = "length (model_pts cal)"
  let ?imgs = "zip (image_pts_set cal) (map (pose_of p) [0..<?M])"
  let ?ir = "image_residuals (take 4 p) (model_pts cal) ?imgs"
  let ?sz = "\<lambda>obs. min (length obs) ?N"
  have wf: "list_all (\<lambda>img. list_all (\<lambda>ob. length ob = 2) (fst img)) ?imgs"
    using assms(1) by (auto simp: calibration_wf_def list_all_iff dest: set_zip_leftD)
  have mz: "map (\<lambda>img. min (length (fst img)) ?N) ?imgs = map ?sz (image_pts_set cal)"
    by (rule map_fst_zip_eq) simp
  have mzt: "map (\<lambda>img. min (length (fst img)) ?N) (take i ?imgs) = map ?sz (take i (image_pts_set cal))"
    by (rule map_fst_take_zip) simp
  have len: "length ?ir = 2 * sum_list (map ?sz (image_pts_set cal))"
    unfolding length_image_residuals_sum [OF wf] mz ..
  have le: "length ?ir \<le> 2 * (?M * ?N)"
    using length_image_residuals_le [OF wf] by simp
  define r where "r = vec_write_block (replicate (2 * (?M * ?N)) 0) 0 ?ir"
  have r_eq: "r = ?ir @ replicate (2 * (?M * ?N) - length ?ir) 0"
    using le by (simp add: r_def vec_write_block_def)
  have obs: "length (image_pts_set cal ! i ! j) = 2"
    using assms(1) nth_mem [OF assms(3)] nth_mem [OF assms(4)] by (auto simp: calibration_wf_def list_all_iff)
  have "?ir ! (2 * (sum_list (map ?sz (take i (image_pts_set cal))) + j) + k) =
          point_residual (take 4 p) (pose_of p i) (image_pts_set cal ! i ! j, model_pts cal ! j) ! k"
    using image_residuals_nth_shifted [OF wf, of i j "model_pts cal" k "take 4 p"] assms(3-6)
    unfolding mzt by simp
  moreover have "2 * (sum_list (map ?sz (take i (image_pts_set cal))) + j) + k < length ?ir"
    using sum_list_take_nth_le [OF assms(3), of ?sz] len assms(4-6) by simp
  ultimately have entry: "r ! (2 * (sum_list (map ?sz (take i (image_pts_set cal))) + j) + k) =
          project (take 4 p) (iso_apply (pose_of p i) (model_pts cal ! j)) ! k -
          image_pts_set cal ! i ! j ! k"
    using obs assms(6) by (simp add: r_eq nth_append point_residual_def vsub_def)
  have zeros: "r ! q = 0" if "2 * sum_list (map ?sz (image_pts_set cal)) \<le> q" "q < length r" for q
    using that len by (simp add: r_eq nth_append)
  have "residual cal p = Some r" using residual_eq [OF assms(1,2)] by (simp add: r_def)
  with entry zeros show ?thesis by blast
qed

theorem residual_shifted_witness:
  "\<exists>r. residual misaligned_cal misaligned_param = Some r \<and>
     r ! (2 * (sum_list (map (\<lambda>obs. min (length obs) (length (model_pts misaligned_cal)))
                             (take 1 (image_pts_set misaligned_cal))) + 0) + 0) =
       project (take 4 misaligned_param) (iso_apply (pose_of misaligned_param 1) (model_pts misaligned_cal ! 0)) ! 0 -
       image_pts_set misaligned_cal ! 1 ! 0 ! 0 \<and>
     r ! 2 = -5"
proof -
  have h: "calibration_wf misaligned_cal" "4 + 6 * length (image_pts_set misaligned_cal) \<le> length misaligned_param"
    "1 < length (image_pts_set misaligned_cal)" "0 < length (image_pts_set misaligned_cal ! 1)"
    "0 < length (model_pts misaligned_cal)"
    by (simp_all add: calibration_wf_def misaligned_cal_def misaligned_param_def)
  obtain r where "residual misaligned_cal misaligned_param = Some r \<and>
     r ! (2 * (sum_list (map (\<lambda>obs. min (length obs) (length (model_pts misaligned_cal)))
                             (take 1 (image_pts_set misaligned_cal))) + 0) + 0) =
       project (take 4 misaligned_param) (iso_apply (pose_of misaligned_param 1) (model_pts misaligned_cal ! 0)) ! 0 -
       image_pts_set misaligned_cal ! 1 ! 0 ! 0"
    using residual_shifted [OF h, of 0] by auto
  then show ?thesis using residual_misaligned_value by auto
qed

subsection \<open>Zero residual\<close>

lemma row_index_decomp:
  fixes n N :: nat
  assumes "n < 2 * (M * N)"
  shows "n = 2 * (n div (2 * N) * N + n mod (2 * N) div 2) + n mod 2 \<and>
         n div (2 * N) < M \<and> n mod (2 * N) div 2 < N \<and> n mod 2 < 2"
proof -
  have N: "0 < N" using assms by (cases N) auto
  have "n = 2 * N * (n div (2 * N)) + n mod (2 * N)" by simp
  moreover have "n mod (2 * N) mod 2 = n mod 2" by (simp add: mod_mod_cancel)
  then have "n mod (2 * N) = 2 * (n mod (2 * N) div 2) + n mod 2"
    using div_mult_mod_eq [of "n mod (2 * N)" 2] by (simp add: mult.commute)
  ultimately have e: "n = 2 * (n div (2 * N) * N + n mod (2 * N) div 2) + n mod 2"
    by (simp add: algebra_simps)
  have "n div (2 * N) < M" using assms by (simp add: div_less_iff_less_mult mult.commute mult.left_commute N)
  moreover have "n mod (2 * N) < 2 * N" using N by simp
  then have "n mod (2 * N) div 2 < N" by (simp add: div_less_iff_less_mult mult.commute)
  ultimately show ?thesis using e by simp
qed

lemma row_index_bound:
  fixes i j k M N :: nat
  assumes "i < M" and "j < N" and "k < 2"
  shows "2 * (i * N + j) + k < 2 * (M * N)"
proof -
  have "i * N + j < (i + 1) * N" using assms(2) by simp
  also have "\<dots> \<le> M * N" using assms(1) by (intro mult_le_mono1) simp
  finally show ?thesis using assms(3) by simp
qed

lemma rows_replicate_zero:
  fixes r :: "real list"
  assumes "length r = 2 * (M * N)"
    and "\<And>i j k. i < M \<Longrightarrow> j < N \<Longrightarrow> k < 2 \<Longrightarrow> r ! (2 * (i * N + j) + k) = 0"
  shows "r = replicate (length r) 0"
proof (rule nth_equalityI)
  fix n
  assume "n < length r"
  then have n: "n < 2 * (M * N)" using assms(1) by simp
  note d = row_index_decomp [OF n]
  have "r ! n = r ! (2 * (n div (2 * N) * N + n mod (2 * N) div 2) + n mod 2)" using d by simp
  also have "\<dots> = 0" using assms(2) d by blast
  finally show "r ! n = replicate (length r) 0 ! n" using \<open>n < length r\<close> by simp
qed simp

lemma obs_length:
  assumes "calibration_wf cal" and "list_all (\<lambda>obs. length obs = length (model_pts cal)) (image_pts_set cal)"
    and "i < length (image_pts_set cal)" and "j < length (model_pts cal)"
  shows "length (image_pts_set cal ! i ! j) = 2"
proof -
  have mi: "image_pts_set cal ! i \<in> set (image_pts_set cal)" using assms(3) by simp
  have "length (image_pts_set cal ! i) = length (model_pts cal)" using assms(2) mi by (simp add: list_all_iff)
  then have "image_pts_set cal ! i ! j \<in> set (image_pts_set cal ! i)" using assms(4) by simp
  then show ?thesis using assms(1) mi by (auto simp: calibration_wf_def list_all_iff)
qed

text \<open>
  C26. With complete observation lists, the residual vanishes exactly when
  every observed pixel is the projection of its target point under the
  decoded camera and pose: a zero residual characterises a perfect fit.
\<close>

theorem residual_zero_iff:
  assumes "calibration_wf cal"
    and "list_all (\<lambda>obs. length obs = length (model_pts cal)) (image_pts_set cal)"
    and "residual cal p = Some r"
  shows "r = replicate (length r) 0 \<longleftrightarrow>
         (\<forall>i < length (image_pts_set cal). \<forall>j < length (model_pts cal).
            project (take 4 p) (iso_apply (pose_of p i) (model_pts cal ! j)) = image_pts_set cal ! i ! j)"
  (is "_ \<longleftrightarrow> ?fit")
proof -
  let ?M = "length (image_pts_set cal)" and ?N = "length (model_pts cal)"
  let ?proj = "\<lambda>i j. project (take 4 p) (iso_apply (pose_of p i) (model_pts cal ! j))"
  have len: "length r = 2 * (?M * ?N)"
    using residual_Some [OF assms(1) residual_Some_length [OF assms(3)]] assms(3) by auto
  have entry: "r ! (2 * (i * ?N + j) + k) = ?proj i j ! k - image_pts_set cal ! i ! j ! k"
    if "i < ?M" "j < ?N" "k < 2" for i j k
    using residual_nth [OF assms that] .
  show ?thesis
  proof
    assume z: "r = replicate (length r) 0"
    show ?fit
    proof (intro allI impI)
      fix i j
      assume ij: "i < ?M" "j < ?N"
      have "?proj i j ! k = image_pts_set cal ! i ! j ! k" if "k < 2" for k
        using entry [OF ij that] row_index_bound [OF ij that] len z
        by (metis eq_iff_diff_eq_0 nth_replicate)
      then show "?proj i j = image_pts_set cal ! i ! j"
        using obs_length [OF assms(1,2) ij] by (intro nth_equalityI) auto
    qed
  next
    assume ?fit
    then show "r = replicate (length r) 0"
      using rows_replicate_zero [OF len] entry by simp
  qed
qed

theorem residual_zero_iff_witness:
  "residual example_cal example_param = Some [0, 0, 0, 0] \<and>
   project (take 4 example_param) (iso_apply (pose_of example_param 0) (model_pts example_cal ! 1)) =
     image_pts_set example_cal ! 0 ! 1"
proof -
  have "[0, 0, 0, 0 :: real] = replicate (length [0, 0, 0, 0 :: real]) 0" by simp
  with residual_zero_iff [OF example_cal_wf example_residual]
  have "\<forall>i < length (image_pts_set example_cal). \<forall>j < length (model_pts example_cal).
          project (take 4 example_param) (iso_apply (pose_of example_param i) (model_pts example_cal ! j)) =
          image_pts_set example_cal ! i ! j" by blast
  moreover have "0 < length (image_pts_set example_cal)" "1 < length (model_pts example_cal)"
    by (simp_all add: example_cal_def)
  ultimately have "project (take 4 example_param) (iso_apply (pose_of example_param 0) (model_pts example_cal ! 1)) =
               image_pts_set example_cal ! 0 ! 1"
    by blast
  then show ?thesis using example_residual by simp
qed

subsection \<open>Encoding poses and decoding them again\<close>

lemma block_of_concat:
  assumes "\<forall>x \<in> set xs. length (f x) = n" and "i < length xs"
  shows "take n (drop (n * i) (concat (map f xs))) = f (xs ! i)"
  using assms
proof (induction xs arbitrary: i)
  case Nil
  then show ?case by simp
next
  case (Cons x xs)
  show ?case
  proof (cases i)
    case 0
    then show ?thesis using Cons.prems by simp
  next
    case (Suc i')
    have "drop (n * i) (concat (map f (x # xs))) = drop (n * i') (concat (map f xs))"
      using Cons.prems by (simp add: Suc)
    then show ?thesis using Cons Suc by simp
  qed
qed

text \<open>
  C34. Round trip of the parameter layout: a camera model followed by the
  \<open>log_map\<close> coordinates of one isometry per image (the encoding
  \<open>test_opt\<close> uses for its initial guess) is decoded by \<open>decode_params\<close>
  into the same camera model and the same isometries, whenever every
  isometry lies in the domain on which \<open>exp_map\<close> inverts \<open>log_map\<close>.
\<close>

theorem decode_encode_roundtrip:
  assumes "length cam = 4" and "length Ts = length (image_pts_set cal)"
    and "\<forall>T \<in> set Ts. log_domain T"
  shows "decode_params cal (cam @ concat (map log_map Ts)) = Some (cam, Ts)"
proof -
  let ?p = "cam @ concat (map log_map Ts)"
  have six: "\<forall>T \<in> set Ts. length (log_map T) = 6" using assms(3) by (simp add: log_domain_def)
  have len: "length (concat (map log_map Ts)) = 6 * length Ts"
    using six by (induction Ts) simp_all
  then have "4 + 6 * length (image_pts_set cal) \<le> length ?p" using assms(1,2) by simp
  note dec = decode_params_Some [OF this]
  have "pose_of ?p i = Ts ! i" if "i < length Ts" for i
  proof -
    have "drop (4 + 6 * i) ?p = drop (6 * i) (concat (map log_map Ts))" using assms(1) by simp
    then have "take 6 (drop (4 + 6 * i) ?p) = log_map (Ts ! i)"
      using block_of_concat [OF six that] by simp
    then show ?thesis using assms(3) that by (simp add: pose_of_def exp_log_domain)
  qed
  then have "map (pose_of ?p) [0..<length (image_pts_set cal)] = Ts"
    using assms(2) by (intro nth_equalityI) simp_all
  then show ?thesis using dec assms(1) by simp
qed

theorem decode_encode_roundtrip_witness:
  "decode_params example_cal ([540, 540, 320, 240] @
      concat (map log_map [\<lparr>rotation = \<lparr>qw = 0, qvec = [0, 0, 1]\<rparr>, translation = [0, 0, 3]\<rparr>])) =
   Some ([540, 540, 320, 240], [\<lparr>rotation = \<lparr>qw = 0, qvec = [0, 0, 1]\<rparr>, translation = [0, 0, 3]\<rparr>])"
proof -
  have h: "length [540, 540, 320, 240 :: real] = 4"
    "length [\<lparr>rotation = \<lparr>qw = 0, qvec = [0, 0, 1]\<rparr>, translation = [0, 0, 3 :: real]\<rparr>] = length (image_pts_set example_cal)"
    "\<forall>T \<in> set [\<lparr>rotation = \<lparr>qw = 0, qvec = [0, 0, 1]\<rparr>, translation = [0, 0, 3 :: real]\<rparr>]. log_domain T"
    using pi_ge_two by (simp_all add: example_cal_def log_domain_def)
  show ?thesis by (rule decode_encode_roundtrip [OF h])
qed

subsection \<open>The dimension contract of the solver\<close>

lemma calibration_lm_dims:
  assumes "calibration_wf cal" and "\<forall>a b d. solve a b = Some d \<longrightarrow> length d = length b"
  shows "lm_dims (calibration_problem cal) solve (4 + 6 * length (image_pts_set cal))
           (2 * (length (image_pts_set cal) * length (model_pts cal)))"
  unfolding lm_dims_def calibration_problem_def
proof (intro conjI allI impI)
  fix x :: vec
  assume x: "length x = 4 + 6 * length (image_pts_set cal)"
  then show "\<exists>r. residual_fn \<lparr>residual_fn = residual cal, jacobian_fn = jacobian cal\<rparr> x = Some r \<and>
               length r = 2 * (length (image_pts_set cal) * length (model_pts cal))"
    using residual_Some [OF assms(1), of x] by simp
  show "\<exists>j. jacobian_fn \<lparr>residual_fn = residual cal, jacobian_fn = jacobian cal\<rparr> x = Some j \<and>
               mat_nrows j = 2 * (length (image_pts_set cal) * length (model_pts cal)) \<and>
               mcols j = 4 + 6 * length (image_pts_set cal)"
    using jacobian_Some [of cal x] x by auto
next
  fix a b d
  assume "solve a b = Some d"
  then show "length d = length b" using assms(2) by blast
qed

end
