(* ===== verification/Problem.thy ===== *)
theory Problem
  imports Lie "HOL-Library.Monad_Syntax"
begin

text \<open>
  The problem loader of \<open>src/src/problem.rs\<close>. The struct \<open>Problem\<close> is the
  record \<open>problem\<close>: the intrinsics matrix \<open>K\<close>, the planar target points, the
  ground-truth poses and one list of observed pixels per image. File input
  and JSON decoding are external: the file system is a parameter that maps a
  path to its contents (or to the failure of \<open>File::open\<close> or of
  \<open>read_to_string\<close>), and \<open>serde_json::from_str\<close> is a parameter that
  returns a problem or an error message. A panic is \<open>None\<close>, a
  \<open>Result\<close> is a sum with the error on the left.
\<close>

record problem =
  K :: mat
  world_points :: "vec list"
  extrinsics :: "iso list"
  image_points :: "vec list list"

datatype file_entry = No_file | Unreadable | Contents string

type_synonym file_system = "string \<Rightarrow> file_entry"

type_synonym json_parser = "string \<Rightarrow> string + problem"

text \<open>\<open>Result::unwrap\<close> and \<open>assert!\<close>: a panic is \<open>None\<close>.\<close>

definition result_unwrap :: "'e + 'a \<Rightarrow> 'a option" where
  "result_unwrap r = (case r of Inl e \<Rightarrow> None | Inr x \<Rightarrow> Some x)"

definition rust_assert :: "bool \<Rightarrow> unit option" where
  "rust_assert b = (if b then Some () else None)"

text \<open>
  \<open>load\<close>: \<open>File::open(path).expect(..)\<close> and \<open>read_to_string(..).expect(..)\<close>
  panic, \<open>serde_json::from_str(&content)?\<close> returns its error.
\<close>

definition load :: "file_system \<Rightarrow> json_parser \<Rightarrow> string \<Rightarrow> (string + problem) option" where
  "load fs from_str path =
     (case fs path of
        No_file \<Rightarrow> None
      | Unreadable \<Rightarrow> None
      | Contents content \<Rightarrow>
          (case from_str content of
             Inl err \<Rightarrow> Some (Inl err)
           | Inr p \<Rightarrow> Some (Inr p)))"

definition test_load :: "file_system \<Rightarrow> json_parser \<Rightarrow> unit option" where
  "test_load fs from_str =
     do {
       r \<leftarrow> load fs from_str ''problem.json'';
       _ \<leftarrow> result_unwrap r;
       rust_assert ((1::int) = 2)
     }"

text \<open>
  The shapes the Rust types of a decoded \<open>Problem\<close> guarantee: \<open>K\<close> is
  \<open>3 \<times> 3\<close>, points are \<open>Point2\<close>, a pose has a quaternion with a
  three-vector part and a three-vector translation. (serde does not
  normalise the quaternion of a \<open>UnitQuaternion\<close>.)
\<close>

definition problem_wf :: "problem \<Rightarrow> bool" where
  "problem_wf p \<longleftrightarrow>
     mat_wf (K p) \<and> mat_nrows (K p) = 3 \<and> mcols (K p) = 3 \<and>
     list_all (\<lambda>q. length q = 2) (world_points p) \<and>
     list_all (\<lambda>T. length (qvec (rotation T)) = 3 \<and> length (translation T) = 3) (extrinsics p) \<and>
     list_all (list_all (\<lambda>ob. length ob = 2)) (image_points p)"

lemma load_Some_iff:
  "load fs from_str path = Some r \<longleftrightarrow> (\<exists>content. fs path = Contents content \<and> from_str content = r)"
  by (auto simp: load_def split: file_entry.splits sum.splits)

lemma test_load_fails: "test_load fs from_str = None"
  by (simp add: test_load_def rust_assert_def split: Option.bind_splits)

end
