(* ===== verification/TestOpt.thy ===== *)
theory TestOpt
  imports Calibration Problem
begin

text \<open>
  The test \<open>test_opt\<close> of \<open>src/src/optimize.rs\<close> (lines 270--345), the
  program that composes every part: it loads \<open>problem.json\<close>
  (\<open>Problem.load\<close>), lifts the planar target points to \<open>z = 0\<close>, keeps the
  observations of the first three images, builds a \<open>Calibration\<close>, writes
  the initial guess and runs \<open>levenberg_marquardt\<close> with the test's
  hyperparameters; it then decodes one pose per ground-truth pose for
  printing and ends in \<open>assert!(1==2)\<close>. Printing is the list of values
  printed.
\<close>

definition test_source_pts :: "problem \<Rightarrow> vec list" where
  "test_source_pts problem = map (\<lambda>p. [p ! 0, p ! 1, 0]) (world_points problem)"

definition test_imaged_pts :: "problem \<Rightarrow> vec list list" where
  "test_imaged_pts problem = take 3 (image_points problem)"

definition test_calibration :: "problem \<Rightarrow> calibration" where
  "test_calibration problem =
     \<lparr>model_pts = test_source_pts problem, image_pts_set = test_imaged_pts problem\<rparr>"

text \<open>
  The initial guess of the test \<open>test_opt\<close> (lines 290--323): camera
  \<open>(550, 550, 320, 240)\<close> and, for every image, the pose
  \<open>log_map\<close> of a translation by three metres along the optical axis.
\<close>

definition test_init_param :: "nat \<Rightarrow> vec" where
  "test_init_param num_images =
     (let init_param = replicate (4 + num_images * 6) 0;
          init_param = init_param[0 := 550, 1 := 550, 2 := 320, 3 := 240];
          init_pose_lie = log_map (iso_translation [0, 0, 3])
      in fold (\<lambda>idx p. vec_write_block p (4 + idx * 6) init_pose_lie) [0..<num_images] init_param)"
text \<open>
  Lines 278--329: the calibration built from a loaded problem and the solver
  call, with \<open>max_iter = 300000\<close>, \<open>tol = 1e-8\<close>, \<open>lambda = 1e-3\<close>,
  \<open>gamma = 10\<close>.
\<close>

definition test_opt_solve :: "problem \<Rightarrow> lu_solver \<Rightarrow> vec option" where
  "test_opt_solve problem solve =
     (let cal_cost = test_calibration problem;
          init_param = test_init_param (length (image_pts_set cal_cost))
      in levenberg_marquardt (calibration_problem cal_cost) solve init_param
           300000 (1 / 100000000) (1 / 1000) 10)"

text \<open>
  Lines 271--343: the result vector and the poses the loop over
  \<open>transforms\<close> (the ground-truth \<open>extrinsics\<close>) decodes from it with
  \<open>fixed_view::<6, 1>(4 + 6 * i, 0)\<close> and prints.
\<close>

definition test_opt_result :: "file_system \<Rightarrow> json_parser \<Rightarrow> lu_solver \<Rightarrow> (vec \<times> iso list) option" where
  "test_opt_result fs from_str solve =
     do {
       r \<leftarrow> load fs from_str ''problem.json'';
       problem \<leftarrow> result_unwrap r;
       let transforms = extrinsics problem;
       result \<leftarrow> test_opt_solve problem solve;
       poses \<leftarrow> those (map (\<lambda>i. map_option exp_map (fixed_view result (4 + 6 * i) 6))
                         [0..<length transforms]);
       Some (result, poses)
     }"

definition test_opt :: "file_system \<Rightarrow> json_parser \<Rightarrow> lu_solver \<Rightarrow> unit option" where
  "test_opt fs from_str solve =
     do {
       _ \<leftarrow> test_opt_result fs from_str solve;
       rust_assert ((1::int) = 2)
     }"

text \<open>
  A loaded problem with two ground-truth poses but the observations of one
  image only.
\<close>

definition two_pose_problem :: problem where
  "two_pose_problem =
     \<lparr>K = mat_identity 3, world_points = [[0, 0]],
      extrinsics = [iso_translation [0, 0, 3], iso_translation [0, 0, 3]],
      image_points = [[[320, 240]]]\<rparr>"

subsection \<open>The initial guess\<close>

lemma exp_map_test_pose: "exp_map [0, 0, 3, 0, 0, 0] = iso_translation [0, 0, 3]"
  by (simp add: exp_map_def vnorm_def Let_def iso_translation_def mat_vec_def mat_identity_def upt_rec)

lemma log_map_test_pose: "log_map (iso_translation [0, 0, 3]) = [0, 0, 3, 0, 0, 0]"
  by (simp add: log_map_def iso_translation_def unit_quaternion_identity_def mat_vec_def
                mat_identity_def vec_write_block_def upt_rec)

lemma test_init_fold:
  assumes "length pose = 6" and "k \<le> m"
  shows "fold (\<lambda>idx p. vec_write_block p (4 + idx * 6) pose) [0..<k]
           ([550, 550, 320, 240] @ replicate (m * 6) 0) =
         [550, 550, 320, 240] @ concat (replicate k pose) @ replicate ((m - k) * 6) 0"
  using assms(2)
proof (induction k)
  case 0
  then show ?case by simp
next
  case (Suc k)
  let ?pre = "[550, 550, 320, 240] :: real list" and ?c = "concat (replicate k pose)"
  have lc: "length (?pre @ ?c) = 4 + k * 6"
    using assms(1) by (induction k) auto
  have cs: "concat (replicate (Suc k) pose) = ?c @ pose"
    by (induction k) auto
  have z: "replicate ((m - k) * 6) (0 :: real) = replicate 6 0 @ replicate ((m - Suc k) * 6) 0"
    using Suc.prems by (simp add: replicate_add [symmetric] algebra_simps)
  have "vec_write_block ((?pre @ ?c) @ replicate 6 0 @ replicate ((m - Suc k) * 6) 0)
          (length (?pre @ ?c)) pose = (?pre @ ?c) @ pose @ replicate ((m - Suc k) * 6) 0"
    using assms(1) by (intro vec_write_block_over) simp
  then have "vec_write_block ((?pre @ ?c) @ replicate 6 0 @ replicate ((m - Suc k) * 6) 0)
          (4 + k * 6) pose = (?pre @ ?c) @ pose @ replicate ((m - Suc k) * 6) 0"
    unfolding lc .
  then show ?case
    using Suc z cs by simp
qed

lemma test_init_param_eq:
  "test_init_param m = [550, 550, 320, 240] @ concat (replicate m [0, 0, 3, 0, 0, 0])"
proof -
  have "replicate (4 + m * 6) (0 :: real) = [0, 0, 0, 0] @ replicate (m * 6) 0"
    by (simp add: replicate_add numeral_eq_Suc)
  then have init: "(replicate (4 + m * 6) (0 :: real))[0 := 550, 1 := 550, 2 := 320, 3 := 240] =
                   [550, 550, 320, 240] @ replicate (m * 6) 0"
    by (simp add: numeral_eq_Suc)
  have "test_init_param m =
          fold (\<lambda>idx p. vec_write_block p (4 + idx * 6) [0, 0, 3, 0, 0, 0]) [0..<m]
            ([550, 550, 320, 240] @ replicate (m * 6) 0)"
    unfolding test_init_param_def Let_def log_map_test_pose init ..
  then show ?thesis
    using test_init_fold [of "[0, 0, 3, 0, 0, 0]" m m] by simp
qed

lemma drop_concat_replicate:
  "length xs = n \<Longrightarrow> i \<le> m \<Longrightarrow> drop (n * i) (concat (replicate m xs)) = concat (replicate (m - i) xs)"
proof (induction i arbitrary: m)
  case 0
  then show ?case by simp
next
  case (Suc i)
  then obtain m' where m: "m = Suc m'" by (cases m) auto
  have "drop (n * Suc i) (concat (replicate m xs)) = drop (n * i) (concat (replicate m' xs))"
    using Suc.prems by (simp add: m)
  also have "\<dots> = concat (replicate (m' - i) xs)" using Suc by (simp add: m)
  finally show ?case by (simp add: m)
qed

text \<open>
  C15. The initial guess of \<open>test_opt\<close> decodes to the camera
  \<open>(550, 550, 320, 240)\<close> and, for every image, a pose three metres along the
  optical axis with no rotation: the encoding the test writes by hand and
  \<open>decode_params\<close> agree.
\<close>

theorem test_init_param_decodes:
  "decode_params cal (test_init_param (length (image_pts_set cal))) =
     Some ([550, 550, 320, 240], replicate (length (image_pts_set cal)) (iso_translation [0, 0, 3]))"
proof -
  let ?M = "length (image_pts_set cal)"
  let ?pose = "[0, 0, 3, 0, 0, 0] :: real list"
  have len: "4 + 6 * ?M \<le> length (test_init_param ?M)"
    by (simp add: test_init_param_eq length_concat sum_list_replicate)
  have pose: "pose_of (test_init_param ?M) i = iso_translation [0, 0, 3]" if i_lt: "i < ?M" for i
  proof -
    have "drop (4 + 6 * i) (test_init_param ?M) = drop (6 * i) (concat (replicate ?M ?pose))"
      unfolding test_init_param_eq drop_append by simp
    also have "\<dots> = concat (replicate (?M - i) ?pose)"
      using drop_concat_replicate [of ?pose 6 i ?M] i_lt by simp
    finally have "drop (4 + 6 * i) (test_init_param ?M) = concat (replicate (?M - i) ?pose)" .
    moreover obtain r where "?M - i = Suc r" using i_lt by (cases "?M - i") auto
    ultimately have "take 6 (drop (4 + 6 * i) (test_init_param ?M)) = ?pose" by simp
    then show ?thesis by (simp add: pose_of_def exp_map_test_pose)
  qed
  have "map (pose_of (test_init_param ?M)) [0..<?M] = replicate ?M (iso_translation [0, 0, 3])"
    by (rule nth_equalityI) (simp_all only: length_map length_replicate length_upt nth_map_upt
          nth_replicate pose add_0 diff_zero)
  moreover have "take 4 (test_init_param ?M) = [550, 550, 320, 240]"
    unfolding test_init_param_eq by simp
  ultimately show ?thesis
    using decode_params_Some [OF len] by simp
qed
subsection \<open>The whole test\<close>

lemma test_calibration_wf: "problem_wf problem \<Longrightarrow> calibration_wf (test_calibration problem)"
  by (auto simp: problem_wf_def calibration_wf_def test_calibration_def test_source_pts_def
      test_imaged_pts_def list_all_iff dest: in_set_takeD)

lemma length_test_init_param [simp]: "length (test_init_param m) = 4 + 6 * m"
  by (simp add: test_init_param_eq length_concat sum_list_replicate)

lemma test_opt_solve_total:
  assumes "problem_wf problem" and "\<forall>a b d. solve a b = Some d \<longrightarrow> length d = length b"
  shows "\<exists>result. test_opt_solve problem solve = Some result \<and>
           length result = 4 + 6 * min 3 (length (image_points problem))"
proof -
  let ?cal = "test_calibration problem"
  have "length (image_pts_set ?cal) = min 3 (length (image_points problem))"
    by (simp add: test_calibration_def test_imaged_pts_def)
  moreover have "\<exists>y. lm_loop (calibration_problem ?cal) solve 300000 (1 / 100000000) 10 0
                   \<lparr>lm_x = test_init_param (length (image_pts_set ?cal)), lm_lambda = 1 / 1000\<rparr> = Some y \<and>
                   length y = 4 + 6 * length (image_pts_set ?cal)"
    by (rule lm_loop_total [OF calibration_lm_dims [OF test_calibration_wf [OF assms(1)] assms(2)]]) simp
  ultimately show ?thesis
    by (simp add: test_opt_solve_def levenberg_marquardt_def)
qed

lemma printed_poses:
  assumes "length result = 4 + 6 * m"
  shows "those (map (\<lambda>i. map_option exp_map (fixed_view result (4 + 6 * i) 6)) [0..<n]) =
         (if n \<le> m then Some (map (pose_of result) [0..<n]) else None)"
proof (cases "n \<le> m")
  case True
  then have "those (map (\<lambda>i. map_option exp_map (fixed_view result (4 + 6 * i) 6)) [0..<n]) =
             Some (map (\<lambda>i. the (map_option exp_map (fixed_view result (4 + 6 * i) 6))) [0..<n])"
    using assms by (intro those_map_Some) auto
  also have "\<dots> = Some (map (pose_of result) [0..<n])"
    using True assms by (auto simp: pose_of_def fixed_view_def)
  finally show ?thesis using True by simp
next
  case False
  then have "m \<in> set [0..<n]" by simp
  moreover have "map_option exp_map (fixed_view result (4 + 6 * m) 6) = None"
    using assms by (simp add: fixed_view_def)
  ultimately show ?thesis
    using False those_map_None [of m "[0..<n]" "\<lambda>i. map_option exp_map (fixed_view result (4 + 6 * i) 6)"]
    by simp
qed

text \<open>
  C37. The whole test, under the solver's length contract, on any file that
  decodes to a well-formed problem: the solver call returns a parameter
  vector for the camera and the first three images, and the test decodes
  and prints one pose per ground-truth pose; it panics in that loop
  (\<open>fixed_view\<close> out of range) exactly when the problem has more
  ground-truth poses than the images it used.
\<close>

theorem test_opt_output:
  assumes "fs ''problem.json'' = Contents content" and "from_str content = Inr problem"
    and "problem_wf problem" and "\<forall>a b d. solve a b = Some d \<longrightarrow> length d = length b"
  shows "\<exists>result. test_opt_solve problem solve = Some result \<and>
           length result = 4 + 6 * min 3 (length (image_points problem)) \<and>
           test_opt_result fs from_str solve =
             (if length (extrinsics problem) \<le> min 3 (length (image_points problem))
              then Some (result, map (pose_of result) [0..<length (extrinsics problem)]) else None)"
proof -
  obtain result where res: "test_opt_solve problem solve = Some result"
    and len: "length result = 4 + 6 * min 3 (length (image_points problem))"
    using test_opt_solve_total [OF assms(3,4)] by blast
  have "load fs from_str ''problem.json'' = Some (Inr problem)"
    using assms(1,2) by (simp add: load_Some_iff)
  then have "test_opt_result fs from_str solve =
               (if length (extrinsics problem) \<le> min 3 (length (image_points problem))
                then Some (result, map (pose_of result) [0..<length (extrinsics problem)]) else None)"
    using res printed_poses [OF len] by (simp add: test_opt_result_def result_unwrap_def)
  with res len show ?thesis by blast
qed

theorem test_opt_output_witness:
  "\<exists>result. test_opt_solve two_pose_problem (\<lambda>a b. None) = Some result \<and> length result = 10 \<and>
     test_opt_result (\<lambda>p. Contents ''{}'') (\<lambda>c. Inr two_pose_problem) (\<lambda>a b. None) = None"
  using test_opt_output [of "\<lambda>p. Contents ''{}''" "''{}''" "\<lambda>c. Inr two_pose_problem" two_pose_problem
      "\<lambda>a b. None"]
  by (simp add: problem_wf_def two_pose_problem_def mat_wf_def mat_identity_def mat_nrows_def
        iso_translation_def unit_quaternion_identity_def upt_rec)

text \<open>Whatever the input, the test ends in a panic: \<open>assert!(1==2)\<close> at the latest.\<close>

lemma test_opt_fails: "test_opt fs from_str solve = None"
  by (simp add: test_opt_def rust_assert_def split: Option.bind_splits)

end
