(* ===== verification/Spec2Isabelle.thy ===== *)
theory Spec2Isabelle
  imports TestOpt
begin

text \<open>
  \<^bold>\<open>A verification development of lm-rs.\<close>
  The repository calibrates a pinhole camera from images of a planar target
  with a hand-written Levenberg--Marquardt solver. It has three parts:
  \<^item> \<open>src/src/lm.rs\<close>: the trait \<open>LMProblem\<close> (a residual and a Jacobian
    function of a parameter vector) and the solver \<open>levenberg_marquardt\<close>,
    a bounded loop that solves the damped normal equations
    \<open>(J\<^sup>T J + \<lambda> I) dx = -J\<^sup>T f\<close> by LU decomposition, accepts a step
    only if the residual norm decreases and rescales \<open>\<lambda>\<close> by \<open>gamma\<close>;
  \<^item> \<open>src/src/optimize.rs\<close>: the Lie-group helpers \<open>skew_sym\<close>, \<open>exp_map\<close>,
    \<open>log_map\<close>, \<open>exp_map_jacobian\<close>, the camera model \<open>project\<close> with its two
    Jacobians, the struct \<open>Calibration\<close> with \<open>decode_params\<close> and its
    \<open>LMProblem\<close> implementation, and the test \<open>test_opt\<close>;
  \<^item> \<open>src/src/problem.rs\<close>: the struct \<open>Problem\<close>, a serde loader
    \<open>load\<close> of \<open>problem.json\<close> and the test \<open>test_load\<close>.
  \<open>test_opt\<close> loads a problem, builds a \<open>Calibration\<close>, writes an initial guess and calls
  \<open>levenberg_marquardt\<close>, which calls the problem's \<open>residual\<close> and
  \<open>jacobian\<close>; those call \<open>decode_params\<close> (hence \<open>exp_map\<close>), \<open>project\<close>
  and the three Jacobian helpers.

  \<^bold>\<open>Theories.\<close>
  \<^item> \<open>Prelude\<close>: the nalgebra values the code uses. \<open>f64\<close> is \<open>real\<close>
    (rounding is not modelled; HOL's \<open>x / 0 = 0\<close> stands for the IEEE
    infinities, and every theorem that divides assumes the divisor non-zero
    or is stated where it does not matter). Vectors are \<open>real list\<close>,
    matrices the record \<open>mat\<close> of a column count and row-major rows, with
    \<open>+ - *\<close>, transpose, identity, zeros, indexing and the block views
    \<open>fixed_view\<close>/\<open>fixed_view_mut().copy_from\<close>: checked (\<open>vec_copy_block\<close>,
    \<open>mat_copy_block\<close>, \<open>None\<close> where nalgebra panics on a dynamic vector or
    matrix) or total (\<open>vec_write_block\<close>, \<open>mat_write_block\<close>) where the
    sizes are static. Shape lemmas (collection \<open>shape_simps\<close>), entrywise
    extensionality \<open>mat_eqI\<close> and the index case splits are shared by all
    components.
  \<^item> \<open>Lie\<close>: \<open>UnitQuaternion\<close> and \<open>Isometry3\<close> as records (\<open>quat\<close>,
    \<open>iso\<close>) with nalgebra's rotation formula, and \<open>skew_sym\<close>, \<open>exp_map\<close>,
    \<open>log_map\<close>, \<open>exp_map_jacobian\<close> line by line (\<open>optimize.rs\<close> 9--103),
    the threshold \<open>1e-6\<close> as \<open>theta_eps\<close>. The translation operators
    \<open>V\<close>, \<open>V\<^sup>-\<^sup>1\<close> are rewritten as Rodrigues forms whose composition is
    the identity. Claims: both round trips \<open>log \<circ> exp\<close> (C1) and
    \<open>exp \<circ> log\<close> (C27) for angles in \<open>(1e-6, 2 pi)\<close>; \<open>skew_sym\<close> is the
    cross product (C6); the rotation \<open>exp_map\<close> builds from \<open>(t | w)\<close> is
    the rotation by \<open>|w|\<close> about \<open>w\<close> in Rodrigues' form (C7); at \<open>\<xi> = 0\<close> the translation block of
    \<open>exp_map_jacobian\<close> is the derivative of \<open>exp_map(\<xi>) p\<close> (C28) and the
    rotation block is not (C29); for a negative scalar part \<open>log_map\<close>
    returns a rotation vector longer than \<open>pi\<close> (C32).
  \<^item> \<open>Projection\<close>: \<open>project\<close>, \<open>proj_jacobian_wrt_params\<close>,
    \<open>proj_jacobian_wrt_point\<close> (\<open>optimize.rs\<close> 107--148). Each Jacobian
    entry is the derivative (\<open>has_real_derivative\<close>) of the corresponding
    coordinate of \<open>project\<close> (C8, C9); back-projection round trip (C23).
  \<^item> \<open>LM\<close>: \<open>LMProblem\<close> as the record \<open>lm_problem\<close> of two partial
    functions, the LU solve as a parameter \<open>lu_solver\<close> (\<open>None\<close> for a
    singular matrix, the \<open>if let Some\<close> of the code), the damping loop as
    \<open>add_lambda_diag\<close>, one pass of the \<open>while\<close> loop as \<open>lm_step\<close>
    (every branch of \<open>lm.rs\<close> 25--58), the loop as \<open>lm_loop\<close>, a
    \<open>function\<close> terminating by the measure \<open>max_iter - iteration\<close> (the
    code's own bound, so no fuel is needed), and the reachable states as the
    inductive \<open>lm_reach\<close> (with its \<open>inductive_simps\<close>/\<open>inductive_cases\<close>
    rules); the loop's result is the state of a run of at most
    \<open>max_iter\<close> passes (C35). Claims: the returned point is never worse (C2)
    and strictly better unless it is the start (C25, by rule induction on
    \<open>lm_reach\<close>); the solver is total under the dimension contract
    \<open>lm_dims\<close> (C3); it stops before accepting a step (C4, the quirk the
    specification keeps); after \<open>k\<close> passes of which \<open>a\<close> were
    accepted \<open>\<lambda> = \<lambda>\<^sub>0 \<gamma>\<^sup>k\<^sup>-\<^sup>a / \<gamma>\<^sup>a\<close>, with \<open>a = 0\<close> exactly when the point
    has not moved (C5, by rule induction on \<open>lm_reach\<close>); the
    damping loop computes \<open>J\<^sup>T J + \<lambda> I\<close> (C21); every move solves the
    damped normal equations (C22); a singular system only raises \<open>\<lambda>\<close>
    (C31), and for \<open>\<lambda> > 0\<close> the damped matrix is never singular (C33);
    and rejections cannot go on forever (C36, liveness): for a solver that
    solves every nonsingular system (\<open>lu_solves\<close>) and a residual continuous
    at the point (\<open>residual_continuous_at\<close>), a reachable pass stops the loop
    or moves the point, because the damped step shrinks like
    \<open>|J\<^sup>T f| / \<lambda>\<close> while \<open>\<lambda>\<close> grows.
  \<^item> \<open>Calibration\<close>: the struct as the record \<open>calibration\<close>,
    \<open>decode_params\<close>, and the nested \<open>for\<close> loops of \<open>residual\<close> and
    \<open>jacobian\<close> (\<open>optimize.rs\<close> 154--268) as accumulator recursions over the
    running \<open>residual_idx\<close> (\<open>residual_points\<close>, \<open>residual_images\<close>,
    \<open>jacobian_points\<close>, \<open>jacobian_images\<close>), proved equal to closed reference
    forms (\<open>image_residuals\<close>, \<open>jac_rows_from\<close>). Claims: decoding fails
    exactly on short vectors (C10); residual and Jacobian are total with the
    specified shapes (C11, C13) and every entry is the specified one (C12,
    C14); a zero residual characterises a perfect fit (C26); with short
    observation lists the residuals of image \<open>i\<close> start after those of
    the earlier images, not at the rows the Jacobian gives them (C16); the parameter layout round-trips: camera and
    \<open>log_map\<close> coordinates decode to the same camera and isometries (C34).
  \<^item> \<open>Problem\<close>: \<open>problem.rs\<close>. The struct as the record \<open>problem\<close>; the
    file system (\<open>file_system\<close>, a path's contents or the failure of
    \<open>File::open\<close> or \<open>read_to_string\<close>) and \<open>serde_json::from_str\<close>
    (\<open>json_parser\<close>) are parameters, \<open>expect\<close>, \<open>unwrap\<close> and \<open>assert!\<close>
    panic (\<open>None\<close>), the \<open>?\<close> operator returns \<open>Inl\<close>. Lemmas: what
    \<open>load\<close> returns (\<open>load_Some_iff\<close>); \<open>test_load\<close> always fails.
  \<^item> \<open>TestOpt\<close>: the test \<open>test_opt\<close> (\<open>optimize.rs\<close> 270--345), the
    composition of every part: load and unwrap, the planar lift of the
    target (\<open>test_source_pts\<close>), the first three observation lists
    (\<open>test_imaged_pts\<close>), the initial guess (\<open>test_init_param\<close>, lines
    290--323), the solver call with \<open>max_iter = 300000\<close>, \<open>tol = 1e-8\<close>,
    \<open>\<lambda> = 1e-3\<close>, \<open>\<gamma> = 10\<close> (\<open>test_opt_solve\<close>), the poses the printing loop
    decodes (\<open>test_opt_result\<close>) and the final assert (\<open>test_opt\<close>).
    Claims: the initial guess decodes to the intended camera and poses
    (C15); on any well-formed problem the whole test computes the solver's
    result and panics in the printing loop exactly when there are more
    ground-truth poses than images used (C37).
  \<^item> This theory: the solver on the calibration problem is total (C17); the
    pose block is the textbook projection Jacobian (C18); the intrinsic
    columns (C19) and, at zero rotation, the translation columns (C24) of the
    Jacobian are the partial derivatives of the residual, and so are the zero
    blocks of other images' poses (C30), while the rotation columns are not
    (C20).

  \<^bold>\<open>Not modelled.\<close> The file system and JSON syntax behind \<open>load\<close> (they
  are parameters), the text that \<open>test_opt\<close> prints (its printed values are
  modelled), the commented-out
  quadratic-fit test of \<open>lm.rs\<close> (lines 67--114), the internals of
  nalgebra (the LU decomposition is the parameter \<open>lu_solver\<close>, specified by
  the length of its result, or by solving its system where a claim needs it),
  and floating-point rounding, overflow and NaN. Convergence of the solver
  (specification properties 5 and 6) is a numerical statement about
  particular data and is not claimed.

  \<^bold>\<open>What the models show about the code.\<close> The residual does not check that
  every image observes every target point: a short observation list shifts
  the residuals of later images against the Jacobian rows (C16). The pose
  columns of the Jacobian are those of a left perturbation \<open>exp(\<delta>) T\<close> of the
  un-thresholded exponential, while the solver adds \<open>dx\<close> to the Lie-algebra
  coordinates and \<open>exp_map\<close> returns the identity rotation below \<open>1e-6\<close>: at
  the test's initial guess the residual is flat in the rotation coordinates,
  but those columns are not zero (C20, C29). \<open>project\<close> divides by the depth
  without the check the specification asks for, and \<open>log_map\<close> neither
  canonicalises (C32) nor clamps the quaternion's scalar part and maps a
  rotation by less than \<open>1e-6\<close> to the zero rotation. The test harness
  decodes one pose per ground-truth pose although it optimised only the
  first three images, so a problem with more poses panics (C37); both tests
  end in \<open>assert!(1==2)\<close> and always fail; \<open>load\<close> panics on a missing file
  although it returns a \<open>Result\<close>.
\<close>

lemma example_rotation_flat:
  assumes "\<bar>s\<bar> < theta_eps"
  shows "residual example_cal (example_param[8 := s]) = Some [0, 0, 0, 0]"
proof -
  have e: "exp_map [0, 0, 3, 0, s, 0] = iso_translation [0, 0, 3]"
    using exp_map_small [of "[0, 0, 3]" "[0, s, 0]"] assms by (simp add: vnorm_def dot_def)
  show ?thesis
    by (simp add: e eval_nat_numeral vec_copy_block_def fixed_view_def residual_def decode_params_def
         example_cal_def example_param_def iso_apply_def iso_translation_def
         quat_rotate_def unit_quaternion_identity_def project_def linalg_defs vec_write_block_def upt_rec)
qed

text \<open>
  C17. On a calibration problem with well-formed points, the solver always
  returns, with a parameter vector of the size \<open>decode_params\<close> expects,
  whenever the LU solve returns vectors of the right length: the residual
  and Jacobian of \<open>Calibration\<close> satisfy the dimension contract of \<open>lm.rs\<close>.
\<close>

theorem calibration_lm_total:
  assumes "calibration_wf cal" and "\<forall>a b d. solve a b = Some d \<longrightarrow> length d = length b"
    and "length x0 = 4 + 6 * length (image_pts_set cal)"
  shows "\<exists>y. levenberg_marquardt (calibration_problem cal) solve x0 max_iter tol lambda gamma = Some y \<and>
             length y = 4 + 6 * length (image_pts_set cal)"
  unfolding levenberg_marquardt_def
  using lm_loop_total [OF calibration_lm_dims [OF assms(1,2)]] assms(3) by simp

theorem calibration_lm_total_witness:
  "calibration_wf example_cal \<and> length example_param = 4 + 6 * length (image_pts_set example_cal) \<and>
   (\<exists>y. levenberg_marquardt (calibration_problem example_cal) (\<lambda>a b. Some b) example_param 10 0 (1 / 1000) 10 = Some y \<and>
        length y = 4 + 6 * length (image_pts_set example_cal))"
proof -
  have h: "calibration_wf example_cal" "\<forall>a b d. (\<lambda>a b. Some b) a (b :: vec) = Some (d :: vec) \<longrightarrow> length d = length b"
    "length example_param = 4 + 6 * length (image_pts_set example_cal)"
    by (simp_all add: calibration_wf_def example_cal_def example_param_def)
  show ?thesis using calibration_lm_total [OF h, of 10 0 "1 / 1000" 10] h(1,3) by blast
qed

text \<open>
  C18. The pose block of a Jacobian row pair, \<open>proj_jacobian_wrt_point *
  exp_map_jacobian\<close>, is the textbook \<open>2 \<times> 6\<close> Jacobian of a pinhole
  projection under a left perturbation of the pose: translation partials
  \<open>(f\<^sub>x/z, 0, -f\<^sub>x x/z\<^sup>2)\<close>, rotation partials
  \<open>(-f\<^sub>x x y/z\<^sup>2, f\<^sub>x + f\<^sub>x x\<^sup>2/z\<^sup>2, -f\<^sub>x y/z)\<close>, and likewise for \<open>v\<close>.
\<close>

theorem pose_jacobian_closed_form:
  assumes "q ! 2 \<noteq> 0"
  shows "mat_mul (proj_jacobian_wrt_point cam q) (exp_map_jacobian q) =
    (let x = q ! 0; y = q ! 1; z = q ! 2; fx = cam ! 0; fy = cam ! 1
     in \<lparr>mcols = 6,
         mrows = [[fx / z, 0, - fx * x / z ^ 2, - fx * x * y / z ^ 2, fx + fx * x ^ 2 / z ^ 2, - fx * y / z],
                  [0, fy / z, - fy * y / z ^ 2, - fy - fy * y ^ 2 / z ^ 2, fy * x * y / z ^ 2, fy * x / z]]\<rparr>)"
  unfolding pose_jacobian_raw Let_def using assms by (simp add: power2_eq_square mult_ac)

theorem pose_jacobian_closed_form_witness:
  "[0, 0, 3] ! 2 \<noteq> (0 :: real) \<and>
   mat_mul (proj_jacobian_wrt_point [540, 540, 320, 240] [0, 0, 3]) (exp_map_jacobian [0, 0, 3]) =
     \<lparr>mcols = 6, mrows = [[180, 0, 0, 0, 540, 0], [0, 180, 0, -540, 0, 0]]\<rparr>"
  using pose_jacobian_closed_form [of "[0, 0, 3]" "[540, 540, 320, 240]"] by (simp add: Let_def)

text \<open>
  C19. Refinement of the intrinsic columns: for well-formed points and
  complete observation lists, column \<open>c < 4\<close> of every Jacobian row is the
  derivative of that residual entry with respect to camera parameter \<open>c\<close>,
  all other parameters held fixed.
\<close>

theorem residual_intrinsic_deriv:
  assumes "calibration_wf cal"
    and "list_all (\<lambda>obs. length obs = length (model_pts cal)) (image_pts_set cal)"
    and "jacobian cal p = Some J"
    and "i < length (image_pts_set cal)" and "j < length (model_pts cal)" and "k < 2" and "c < 4"
  shows "((\<lambda>s. the (residual cal (p[c := s])) ! (2 * (i * length (model_pts cal) + j) + k))
            has_real_derivative mat_get J (2 * (i * length (model_pts cal) + j) + k) c) (at (p ! c))"
proof -
  let ?row = "2 * (i * length (model_pts cal) + j) + k"
  let ?q = "iso_apply (pose_of p i) (model_pts cal ! j)"
  let ?ob = "image_pts_set cal ! i ! j ! k"
  have len: "4 + 6 * length (image_pts_set cal) \<le> length p" using assms(3) by (rule jacobian_Some_length)
  have pose: "pose_of (p[c := s]) i = pose_of p i" for s
    using assms(7) by (simp add: pose_of_def)
  have entry: "the (residual cal (p[c := s])) ! ?row = project ((take 4 p)[c := s]) ?q ! k - ?ob" for s
  proof -
    obtain r where r: "residual cal (p[c := s]) = Some r"
      using residual_Some [OF assms(1), of "p[c := s]"] len by auto
    show ?thesis
      using residual_nth [OF assms(1,2) r assms(4-6)] r pose by (simp add: take_update_swap)
  qed
  have d: "((\<lambda>s. project ((take 4 p)[c := s]) ?q ! k) has_real_derivative
             mat_get (proj_jacobian_wrt_params ?q) k c) (at (take 4 p ! c))"
    using project_params_deriv [of "take 4 p" k c ?q] len assms(6,7) by simp
  have "((\<lambda>s. project ((take 4 p)[c := s]) ?q ! k - ?ob) has_real_derivative
           mat_get (proj_jacobian_wrt_params ?q) k c - 0) (at (p ! c))"
    using DERIV_diff [OF d DERIV_const] assms(7) by simp
  moreover have "(\<lambda>s. the (residual cal (p[c := s])) ! ?row) =
                  (\<lambda>s. project ((take 4 p)[c := s]) ?q ! k - ?ob)"
    by (intro ext entry)
  ultimately show ?thesis
    using jacobian_intrinsic_entry [OF assms(3-7)] by simp
qed

theorem residual_intrinsic_deriv_witness:
  "((\<lambda>s. the (residual example_cal (example_param[0 := s])) ! 0) has_real_derivative
      mat_get (the (jacobian example_cal example_param)) 0 0) (at (example_param ! 0))"
proof -
  have len: "4 + 6 * length (image_pts_set example_cal) \<le> length example_param"
    by (simp add: example_cal_def example_param_def)
  have h: "calibration_wf example_cal"
    "list_all (\<lambda>obs. length obs = length (model_pts example_cal)) (image_pts_set example_cal)"
    "jacobian example_cal example_param = Some (the (jacobian example_cal example_param))"
    "0 < length (image_pts_set example_cal)" "0 < length (model_pts example_cal)"
    using jacobian_Some [OF len] by (auto simp: calibration_wf_def example_cal_def)
  show ?thesis using residual_intrinsic_deriv [OF h(1-5), of 0 0] by simp
qed

text \<open>
  C20. The rotation columns of the Jacobian are not the partial derivatives
  of the residual. At the example's pose (no rotation, three metres ahead),
  the residual of the first point does not change when the second rotation
  coordinate moves by less than \<open>1e-6\<close>, so its derivative is \<open>0\<close>; the
  Jacobian entry of that row and column is \<open>540\<close>.
\<close>

theorem rotation_jacobian_not_derivative:
  "((\<lambda>s. the (residual example_cal (example_param[8 := s])) ! 0) has_real_derivative 0)
      (at (example_param ! 8)) \<and>
   (\<exists>J. jacobian example_cal example_param = Some J \<and> mat_get J 0 8 = 540)"
proof
  have p8: "example_param ! 8 = 0" by (simp add: example_param_def)
  show "((\<lambda>s. the (residual example_cal (example_param[8 := s])) ! 0) has_real_derivative 0)
      (at (example_param ! 8))"
    unfolding p8
  proof (rule has_field_derivative_transform_within_open [OF DERIV_const])
    show "open {- theta_eps <..< theta_eps :: real}" by simp
    show "(0 :: real) \<in> {- theta_eps <..< theta_eps}" by simp
    fix s :: real
    assume "s \<in> {- theta_eps <..< theta_eps}"
    then have "\<bar>s\<bar> < theta_eps" by auto
    then show "0 = the (residual example_cal (example_param[8 := s])) ! 0"
      by (simp add: example_rotation_flat)
  qed
next
  have len: "4 + 6 * length (image_pts_set example_cal) \<le> length example_param"
    by (simp add: example_cal_def example_param_def)
  obtain J where J: "jacobian example_cal example_param = Some J"
    using jacobian_Some [OF len] by blast
  have T0: "iso_apply (pose_of example_param 0) [0, 0, 0] = [0, 0, 3]"
    by (simp add: pose_of_def example_param_def exp_map_test_pose iso_apply_def iso_translation_def
        quat_rotate_def unit_quaternion_identity_def linalg_defs)
  have "mat_get J (2 * (0 * length (model_pts example_cal) + 0) + 0) (4 + 6 * 0 + 4) =
          mat_get (mat_mul (proj_jacobian_wrt_point (take 4 example_param) [0, 0, 3])
                           (exp_map_jacobian [0, 0, 3])) 0 4"
    using jacobian_pose_entry [OF J, of 0 0 0 4] T0 by (simp add: example_cal_def Let_def)
  then have "mat_get J 0 8 = mat_get (mat_mul (proj_jacobian_wrt_point (take 4 example_param) [0, 0, 3])
                           (exp_map_jacobian [0, 0, 3])) 0 4" by simp
  then have "mat_get J 0 8 = 540"
    by (simp add: pose_jacobian_raw mat_get_def example_param_def)
  then show "\<exists>J. jacobian example_cal example_param = Some J \<and> mat_get J 0 8 = 540"
    using J by blast
qed

text \<open>
  C24. Refinement of the translation columns at a pose without rotation:
  when the rotation coordinates of image \<open>i\<close> are zero and the point has
  non-zero depth, column \<open>4 + 6 i + c\<close> (\<open>c < 3\<close>) of every row of
  image \<open>i\<close> is the derivative of the residual entry with respect to
  translation coordinate \<open>c\<close>. Together with C20, the pose block is exact in
  its translation part and not in its rotation part.
\<close>

theorem residual_translation_deriv:
  assumes "calibration_wf cal"
    and "list_all (\<lambda>obs. length obs = length (model_pts cal)) (image_pts_set cal)"
    and "jacobian cal p = Some J"
    and "i < length (image_pts_set cal)" and "j < length (model_pts cal)" and "k < 2" and "c < 3"
    and "take 3 (drop (7 + 6 * i) p) = [0, 0, 0]"
    and "iso_apply (pose_of p i) (model_pts cal ! j) ! 2 \<noteq> 0"
  shows "((\<lambda>s. the (residual cal (p[4 + 6 * i + c := s])) ! (2 * (i * length (model_pts cal) + j) + k))
            has_real_derivative mat_get J (2 * (i * length (model_pts cal) + j) + k) (4 + 6 * i + c))
           (at (p ! (4 + 6 * i + c)))"
proof -
  let ?X = "model_pts cal ! j" and ?t = "take 3 (drop (4 + 6 * i) p)"
  let ?q = "vadd ?X ?t"
  have len: "4 + 6 * length (image_pts_set cal) \<le> length p" using assms(3) by (rule jacobian_Some_length)
  note tr = residual_translation_entry [OF assms(1,2) len assms(4-8)]
  have X: "length ?X = 3" using assms(1,5) by (simp add: calibration_wf_def list_all_iff)
  have t: "length ?t = 3" using len assms(4) by simp
  have qz: "?q ! 2 \<noteq> 0" using assms(9) tr(1) by simp
  have qc: "?q ! c - ?X ! c = p ! (4 + 6 * i + c)" using assms(4,7) X t len by (simp add: vadd_def)
  have q3: "length ?q = 3" using X t by simp
  have "((\<lambda>s. project (take 4 p) (?q[c := ?X ! c + s]) ! k) has_real_derivative
          mat_get (proj_jacobian_wrt_point (take 4 p) ?q) k c) (at (p ! (4 + 6 * i + c)))"
    using project_point_shift_deriv [OF q3 qz assms(6,7), of "take 4 p" "?X ! c"] unfolding qc .
  then have "((\<lambda>s. project (take 4 p) (?q[c := ?X ! c + s]) ! k - image_pts_set cal ! i ! j ! k)
          has_real_derivative mat_get (proj_jacobian_wrt_point (take 4 p) ?q) k c - 0) (at (p ! (4 + 6 * i + c)))"
    by (rule DERIV_diff [OF _ DERIV_const])
  moreover have "mat_get J (2 * (i * length (model_pts cal) + j) + k) (4 + 6 * i + c) =
                   mat_get (proj_jacobian_wrt_point (take 4 p) ?q) k c"
    using jacobian_pose_entry [OF assms(3-6), of c] assms(7) tr(1)
    by (simp add: Let_def pose_block_translation_cols [OF assms(6,7)])
  ultimately show ?thesis unfolding tr(2) by simp
qed

theorem residual_translation_deriv_witness:
  "((\<lambda>s. the (residual example_cal (example_param[4 + 6 * 0 + 0 := s])) ! 0) has_real_derivative
      mat_get (the (jacobian example_cal example_param)) 0 (4 + 6 * 0 + 0)) (at (example_param ! (4 + 6 * 0 + 0)))"
proof -
  have len: "4 + 6 * length (image_pts_set example_cal) \<le> length example_param"
    by (simp add: example_cal_def example_param_def)
  have h: "calibration_wf example_cal"
    "list_all (\<lambda>obs. length obs = length (model_pts example_cal)) (image_pts_set example_cal)"
    "jacobian example_cal example_param = Some (the (jacobian example_cal example_param))"
    "0 < length (image_pts_set example_cal)" "0 < length (model_pts example_cal)"
    "take 3 (drop (7 + 6 * 0) example_param) = [0, 0, 0]"
    using jacobian_Some [OF len] by (auto simp: calibration_wf_def example_cal_def example_param_def)
  have z: "iso_apply (pose_of example_param 0) (model_pts example_cal ! 0) ! 2 \<noteq> 0"
    by (simp add: pose_of_def example_param_def example_cal_def exp_map_test_pose iso_apply_def
        iso_translation_def quat_rotate_def unit_quaternion_identity_def linalg_defs)
  show ?thesis using residual_translation_deriv [OF h(1-5) _ _ h(6) z, of 0 0] by simp
qed

text \<open>
  C30. Refinement of the zero blocks: the residual rows of image \<open>i\<close> do
  not depend on the pose coordinates of any other image \<open>i'\<close>, and the
  Jacobian holds exactly the derivative \<open>0\<close> there, for every parameter
  vector.
\<close>

theorem residual_other_pose_deriv:
  assumes "calibration_wf cal"
    and "list_all (\<lambda>obs. length obs = length (model_pts cal)) (image_pts_set cal)"
    and "jacobian cal p = Some J"
    and "i < length (image_pts_set cal)" and "j < length (model_pts cal)" and "k < 2"
    and "i' < length (image_pts_set cal)" and "i' \<noteq> i" and "c < 6"
  shows "((\<lambda>s. the (residual cal (p[4 + 6 * i' + c := s])) ! (2 * (i * length (model_pts cal) + j) + k))
            has_real_derivative mat_get J (2 * (i * length (model_pts cal) + j) + k) (4 + 6 * i' + c))
           (at (p ! (4 + 6 * i' + c)))"
proof -
  have len: "4 + 6 * length (image_pts_set cal) \<le> length p" using assms(3) by (rule jacobian_Some_length)
  have entry: "the (residual cal (p[4 + 6 * i' + c := s])) ! (2 * (i * length (model_pts cal) + j) + k) =
                 project (take 4 p) (iso_apply (pose_of p i) (model_pts cal ! j)) ! k - image_pts_set cal ! i ! j ! k"
    for s
  proof -
    obtain r where r: "residual cal (p[4 + 6 * i' + c := s]) = Some r"
      using residual_Some [OF assms(1), of "p[4 + 6 * i' + c := s]"] len by auto
    show ?thesis
      using residual_nth [OF assms(1,2) r assms(4-6)] r pose_of_update_other [OF assms(8,9)] by simp
  qed
  show ?thesis
    unfolding entry jacobian_offblock_entry [OF assms(3-9)] by (rule DERIV_const)
qed

theorem residual_other_pose_deriv_witness:
  "((\<lambda>s. the (residual two_image_cal (two_image_param[4 + 6 * 1 + 0 := s])) ! (2 * (0 * 2 + 0) + 0))
      has_real_derivative mat_get (the (jacobian two_image_cal two_image_param)) (2 * (0 * 2 + 0) + 0) (4 + 6 * 1 + 0))
     (at (two_image_param ! (4 + 6 * 1 + 0)))"
proof -
  have len: "4 + 6 * length (image_pts_set two_image_cal) \<le> length two_image_param"
    by (simp add: two_image_cal_def two_image_param_def)
  have h: "calibration_wf two_image_cal"
    "list_all (\<lambda>obs. length obs = length (model_pts two_image_cal)) (image_pts_set two_image_cal)"
    "jacobian two_image_cal two_image_param = Some (the (jacobian two_image_cal two_image_param))"
    "0 < length (image_pts_set two_image_cal)" "0 < length (model_pts two_image_cal)"
    "1 < length (image_pts_set two_image_cal)"
    using jacobian_Some [OF len] by (auto simp: calibration_wf_def two_image_cal_def)
  have N: "length (model_pts two_image_cal) = 2" by (simp add: two_image_cal_def)
  show ?thesis
    using residual_other_pose_deriv [OF h(1-5) _ h(6), where k = 0 and c = 0] unfolding N by simp
qed

end
